(* ===== verification/Prelude.thy ===== *)
theory Prelude
  imports Main "HOL-Library.Word" "HOL-Library.AList"
begin

text \<open>
  Shared vocabulary of the development: Go's \<open>error\<close> values and the wrapping
  discipline of \<^verbatim>\<open>github.com/pkg/errors\<close>, Go runtime panics as the left side of a
  sum, bounds-checked indexing as Go performs it, the panic-propagating bind used
  to sequence the models of the Go functions, and the collections of lemmas that the
  component theories use with \<open>simp add:\<close>.
\<close>

named_theorems go_consts \<open>definitions of the Go constants of the model, unfolded by simp\<close>
named_theorems go_results \<open>equations describing the results of modelled Go calls\<close>

section \<open>Go errors\<close>

text \<open>
  A Go \<open>error\<close> is an interface value that may be \<open>nil\<close>: it is modelled as
  \<open>gerr option\<close>, with \<open>None\<close> for \<open>nil\<close>. \<open>Msg\<close> is an error built by
  \<open>errors.New\<close> or \<open>fmt.Errorf\<close> (or returned by a library), \<open>Wrap m e\<close> is
  \<open>errors.Wrap(e, m)\<close> / \<open>errors.Wrapf(e, m, ...)\<close> on a non-nil \<open>e\<close>.
\<close>

datatype gerr = Msg string | Wrap string gerr

type_synonym goerror = "gerr option"

text \<open>
  \<open>errors.Wrap(err, msg)\<close> returns \<open>nil\<close> when \<open>err\<close> is \<open>nil\<close>: this is the
  library's documented behaviour and the model keeps it, because the code relies on
  it (sometimes unintentionally).
\<close>

definition wrap :: "string \<Rightarrow> goerror \<Rightarrow> goerror" where
  "wrap m e = map_option (Wrap m) e"

lemma wrap_None [simp]: "wrap m None = None"
  and wrap_Some [simp]: "wrap m (Some e) = Some (Wrap m e)"
  by (simp_all add: wrap_def)

lemma wrap_eq_None_iff [simp]: "(wrap m e = None) \<longleftrightarrow> e = None"
  by (cases e) simp_all

section \<open>Go panics\<close>

text \<open>
  A Go runtime panic (index out of range, nil pointer dereference) aborts the
  goroutine and, unrecovered, the program. A computation that may panic returns
  \<open>string + 'a\<close>: \<open>Inl msg\<close> is the panic, \<open>Inr x\<close> a normal return.
  \<open>pbind\<close> sequences two such computations, propagating the panic.
\<close>

type_synonym 'a panicking = "string + 'a"

definition pbind :: "'a panicking \<Rightarrow> ('a \<Rightarrow> 'b panicking) \<Rightarrow> 'b panicking" where
  "pbind m f = (case m of Inl p \<Rightarrow> Inl p | Inr x \<Rightarrow> f x)"

lemma pbind_Inl [simp]: "pbind (Inl p) f = Inl p"
  and pbind_Inr [simp]: "pbind (Inr x) f = f x"
  by (simp_all add: pbind_def)

lemma pbind_eq_Inr_iff: "(pbind m f = Inr y) \<longleftrightarrow> (\<exists>x. m = Inr x \<and> f x = Inr y)"
  by (cases m) simp_all

lemma pbind_eq_Inl_iff: "(pbind m f = Inl p) \<longleftrightarrow> (m = Inl p \<or> (\<exists>x. m = Inr x \<and> f x = Inl p))"
  by (cases m) simp_all

text \<open>
  Two computations related by \<open>rel_sum (=) R\<close> panic alike and return related
  values; \<open>pbind\<close> preserves the relation. This carries the argument that a
  computation's outcome depends only on part of its input.
\<close>

lemma rel_sum_eq_cases [consumes 1, case_names Inl Inr]:
  assumes "rel_sum (=) R a b"
  obtains (Inl) x where "a = Inl x" "b = Inl x"
  | (Inr) x y where "a = Inr x" "b = Inr y" "R x y"
  using assms by (cases a; cases b) auto

lemma pbind_rel_sum:
  assumes "rel_sum (=) R a b" and "\<And>x y. R x y \<Longrightarrow> rel_sum (=) S (f x) (g y)"
  shows "rel_sum (=) S (pbind a f) (pbind b g)"
  using assms by (cases a; cases b) auto

text \<open>
  Go's indexing \<open>s[i]\<close> of a slice or string panics when \<open>i\<close> is out of range;
  HOL's \<open>xs ! i\<close> is unspecified there, so every index of the source goes through
  \<open>go_index\<close>.
\<close>

definition go_index :: "'a list \<Rightarrow> nat \<Rightarrow> 'a panicking" where
  "go_index xs i = (if i < length xs then Inr (xs ! i) else Inl ''index out of range'')"

lemma go_index_in_range [simp]: "i < length xs \<Longrightarrow> go_index xs i = Inr (xs ! i)"
  and go_index_out_of_range [simp]: "\<not> i < length xs \<Longrightarrow> go_index xs i = Inl ''index out of range''"
  by (simp_all add: go_index_def)

section \<open>Association lists as Go maps\<close>

text \<open>
  A Go map whose values the code iterates (\<open>for _, c := range m\<close>) is an association
  list with distinct keys: \<open>map_of\<close> reads it, \<open>AList.update\<close> writes it.
\<close>

lemma distinct_keys_update [simp]:
  "distinct (map fst al) \<Longrightarrow> distinct (map fst (AList.update k v al))"
  by (rule distinct_update)

lemma map_of_update_same [simp]: "map_of (AList.update k v al) k = Some v"
  by (simp add: update_conv')

lemma map_of_update_other [simp]: "k' \<noteq> k \<Longrightarrow> map_of (AList.update k v al) k' = map_of al k'"
  by (simp add: update_conv')

lemma keys_update: "set (map fst (AList.update k v al)) = insert k (set (map fst al))"
  by (simp add: dom_update)

lemma vals_update_subset: "set (map snd (AList.update k v al)) \<subseteq> insert v (set (map snd al))"
  by (induction al) auto

section \<open>Words\<close>

text \<open>The low twelve bits of a 32-bit word, the mask of Unix permission bits.\<close>

lemma mask_0xFFF: "(0xFFF :: 32 word) = mask 12" by (simp add: mask_eq_exp_minus_1)

lemma small_int_bits: "0 \<le> m \<Longrightarrow> m < 4096 \<Longrightarrow> 12 \<le> n \<Longrightarrow> \<not> bit (m::int) n"
proof -
  assume "0 \<le> m" "m < 4096" "12 \<le> n"
  then have "m < 2 ^ n" using power_increasing [of 12 n "2::int"] by simp
  with \<open>0 \<le> m\<close> have "m div 2 ^ n = 0" by (simp add: div_pos_pos_trivial)
  then show ?thesis by (simp add: bit_iff_odd)
qed

end
