(* ===== verification/GoLib.thy ===== *)
theory GoLib
  imports Prelude
begin

text \<open>
  The Go standard-library functions the code calls on command output and on
  configuration values, modelled from their documented behaviour:
  \<open>strings.Split\<close> with a one-byte separator, \<open>strings.ReplaceAll(s, "\n", "")\<close>,
  \<open>strings.TrimSpace\<close> on ASCII white space, \<open>strconv.Atoi\<close> and its inverse
  \<open>strconv.Itoa\<close> (also the \<open>%d\<close> verb of \<open>fmt\<close>), and the integer conversions
  \<open>uint32(x)\<close> and \<open>fs.FileMode(uint(x))\<close>. Go strings are byte sequences and
  Isabelle's \<open>char\<close> has exactly 256 values, so a Go \<open>string\<close> is a \<open>string\<close>.
  \<open>err_str\<close> is the text of an error as \<open>%v\<close> prints it. The round-trip lemmas (split/join, Itoa/Atoi, the \<open>id\<close> output path) are what
  the component proofs use.
\<close>

section \<open>strings.Split with a one-byte separator\<close>

fun split_on :: "char \<Rightarrow> string \<Rightarrow> string list" where
  "split_on c [] = [[]]"
| "split_on c (x # xs) =
     (let fs = split_on c xs in if x = c then [] # fs else (x # hd fs) # tl fs)"

lemma split_on_not_Nil [simp]: "split_on c s \<noteq> []"
  by (induction s) (auto simp: Let_def)

lemma length_split_on: "length (split_on c s) = count_list s c + 1"
proof (induction s)
  case Nil
  then show ?case by simp
next
  case (Cons x xs)
  have "split_on c xs \<noteq> []" by simp
  with Cons show ?case by (cases "split_on c xs") (auto simp: Let_def)
qed

lemma split_on_no_sep: "c \<notin> set s \<Longrightarrow> split_on c s = [s]"
  by (induction s) (auto simp: Let_def)

lemma split_on_fields_sep_free: "f \<in> set (split_on c s) \<Longrightarrow> c \<notin> set f"
proof (induction s arbitrary: f)
  case Nil
  then show ?case by simp
next
  case (Cons x xs)
  obtain g gs where fs: "split_on c xs = g # gs"
    by (cases "split_on c xs") simp_all
  with Cons show ?case by (auto simp: Let_def split: if_splits)
qed

text \<open>\<open>strings.Join\<close> with a one-byte separator.\<close>

fun join_on :: "char \<Rightarrow> string list \<Rightarrow> string" where
  "join_on c [] = []"
| "join_on c [f] = f"
| "join_on c (f # g # gs) = f @ c # join_on c (g # gs)"

text \<open>Joining the fields with the separator gives the string back.\<close>

lemma join_split_on: "join_on c (split_on c s) = s"
proof (induction s)
  case Nil
  then show ?case by simp
next
  case (Cons x xs)
  obtain g gs where fs: "split_on c xs = g # gs"
    by (cases "split_on c xs") simp_all
  with Cons show ?case by (cases gs) (auto simp: Let_def)
qed

lemma split_on_append_sep:
  "c \<notin> set f \<Longrightarrow> split_on c (f @ c # s) = f # split_on c s"
  by (induction f) (auto simp: Let_def)

text \<open>Splitting a joined list of separator-free fields gives the fields back.\<close>

lemma split_on_join:
  "fs \<noteq> [] \<Longrightarrow> \<forall>f \<in> set fs. c \<notin> set f \<Longrightarrow> split_on c (join_on c fs) = fs"
  by (induction c fs rule: join_on.induct) (simp_all add: split_on_no_sep split_on_append_sep)

section \<open>strings.ReplaceAll(s, "\n", "") and strings.TrimSpace\<close>

abbreviation NL :: char where "NL \<equiv> CHR 0x0A"
abbreviation TAB :: char where "TAB \<equiv> CHR 0x09"

definition remove_newlines :: "string \<Rightarrow> string" where
  "remove_newlines s = filter (\<lambda>x. x \<noteq> NL) s"

text \<open>
  ASCII white space as \<open>strings.TrimSpace\<close> sees it: \<open>\t \n \v \f \r\<close> and blank.
  Go also trims the multi-byte Unicode spaces; the model is exact for strings whose
  first and last non-blank bytes are ASCII, as the output of \<open>id\<close> is.
\<close>

definition is_space :: "char \<Rightarrow> bool" where
  "is_space x \<longleftrightarrow> x = CHR 0x20 \<or> (9 \<le> (of_char x :: nat) \<and> (of_char x :: nat) \<le> 13)"

definition trim_space :: "string \<Rightarrow> string" where
  "trim_space s = rev (dropWhile is_space (rev (dropWhile is_space s)))"

lemma trim_space_id:
  assumes "s = [] \<or> (\<not> is_space (hd s) \<and> \<not> is_space (last s))"
  shows "trim_space s = s"
proof (cases s rule: rev_cases)
  case Nil
  then show ?thesis by (simp add: trim_space_def)
next
  case (snoc ys y)
  with assms have "\<not> is_space y" by auto
  moreover from snoc assms have "dropWhile is_space s = s"
    by (cases ys) auto
  ultimately show ?thesis using snoc by (simp add: trim_space_def)
qed

section \<open>strconv.Atoi and strconv.Itoa\<close>

definition is_digit :: "char \<Rightarrow> bool" where
  "is_digit x \<longleftrightarrow> 48 \<le> (of_char x :: nat) \<and> (of_char x :: nat) \<le> 57"

definition digit_val :: "char \<Rightarrow> nat" where
  "digit_val x = of_char x - 48"

definition digit_char :: "nat \<Rightarrow> char" where
  "digit_char d = char_of (48 + d)"

fun digits_val :: "nat \<Rightarrow> string \<Rightarrow> nat" where
  "digits_val acc [] = acc"
| "digits_val acc (d # ds) = digits_val (10 * acc + digit_val d) ds"

text \<open>
  \<open>strconv.Atoi\<close> on a 64-bit platform: an optional sign, then one or more decimal
  digits, and the value must fit in \<open>int64\<close>; anything else is a syntax or range
  error (\<open>None\<close>).
\<close>

definition go_atoi :: "string \<Rightarrow> int option" where
  "go_atoi s =
     (let (neg, ds) = (case s of
              [] \<Rightarrow> (False, [])
            | x # r \<Rightarrow> (if x = CHR ''+'' then (False, r)
                        else if x = CHR ''-'' then (True, r) else (False, s)))
      in if ds = [] \<or> \<not> list_all is_digit ds then None
         else let v = (if neg then - int (digits_val 0 ds) else int (digits_val 0 ds))
              in if - (2 ^ 63) \<le> v \<and> v < 2 ^ 63 then Some v else None)"

text \<open>
  The message of the error \<open>strconv.Atoi\<close> returns: \<open>invalid syntax\<close>, or
  \<open>value out of range\<close> for a well-formed number outside \<open>int64\<close>. The string
  is quoted with double quotes (\<open>strconv.Quote\<close>, exact for printable ASCII).
\<close>

abbreviation DQ :: char where "DQ \<equiv> CHR 0x22"

definition atoi_syntax_ok :: "string \<Rightarrow> bool" where
  "atoi_syntax_ok s =
     (let ds = (case s of [] \<Rightarrow> []
                 | x # r \<Rightarrow> (if x = CHR ''+'' \<or> x = CHR ''-'' then r else s))
      in ds \<noteq> [] \<and> list_all is_digit ds)"

definition go_atoi_error :: "string \<Rightarrow> string" where
  "go_atoi_error s =
     ''strconv.Atoi: parsing '' @ DQ # s @ [DQ] @
     (if atoi_syntax_ok s then '': value out of range'' else '': invalid syntax'')"

text \<open>
  \<open>err.Error()\<close>: a wrapped error prints its message, a colon and blank, and the
  error it wraps (\<open>github.com/pkg/errors\<close>); \<open>%v\<close> of an error prints the same.
\<close>

fun err_str :: "gerr \<Rightarrow> string" where
  "err_str (Msg m) = m"
| "err_str (Wrap m e) = m @ '': '' @ err_str e"

fun nat_str :: "nat \<Rightarrow> string" where
  "nat_str n = (if n < 10 then [digit_char n] else nat_str (n div 10) @ [digit_char (n mod 10)])"

declare nat_str.simps [simp del]

definition go_itoa :: "int \<Rightarrow> string" where
  "go_itoa i = (if i < 0 then CHR ''-'' # nat_str (nat (- i)) else nat_str (nat i))"

lemma digit_char_props [simp]:
  assumes "d < 10"
  shows "is_digit (digit_char d)" and "digit_val (digit_char d) = d"
    and "\<not> is_space (digit_char d)" and "digit_char d \<noteq> NL"
    and "digit_char d \<noteq> CHR ''-''" and "digit_char d \<noteq> CHR ''+''"
    and "NL \<noteq> digit_char d" and "CHR ''-'' \<noteq> digit_char d" and "CHR ''+'' \<noteq> digit_char d"
proof -
  have o: "(of_char (digit_char d) :: nat) = 48 + d"
    using assms by (simp add: digit_char_def)
  show "is_digit (digit_char d)" and "digit_val (digit_char d) = d"
    using assms o by (simp_all add: is_digit_def digit_val_def)
  show "\<not> is_space (digit_char d)"
  proof
    assume "is_space (digit_char d)"
    then have "(of_char (digit_char d) :: nat) = 32 \<or> (of_char (digit_char d) :: nat) \<le> 13"
      by (auto simp: is_space_def)
    with o show False by simp
  qed
  show "digit_char d \<noteq> NL" "digit_char d \<noteq> CHR ''-''" "digit_char d \<noteq> CHR ''+''"
    and "NL \<noteq> digit_char d" "CHR ''-'' \<noteq> digit_char d" "CHR ''+'' \<noteq> digit_char d"
    using o by (auto dest: arg_cong [where f = "of_char :: char \<Rightarrow> nat"])
qed

lemma nat_str_not_Nil [simp]: "nat_str n \<noteq> []"
  by (subst nat_str.simps) simp

lemma nat_str_chars: "x \<in> set (nat_str n) \<Longrightarrow> \<exists>d < 10. x = digit_char d"
proof (induction n rule: nat_str.induct)
  case (1 n)
  show ?case
  proof (cases "n < 10")
    case True
    with "1.prems" show ?thesis by (subst (asm) nat_str.simps) auto
  next
    case False
    with "1.prems" have "x \<in> set (nat_str (n div 10)) \<or> x = digit_char (n mod 10)"
      by (subst (asm) nat_str.simps) auto
    with "1.IH" False show ?thesis by (auto intro: exI [where x = "n mod 10"])
  qed
qed

lemma digits_val_snoc: "digits_val acc (xs @ [x]) = 10 * digits_val acc xs + digit_val x"
  by (induction xs arbitrary: acc) simp_all

lemma digits_val_nat_str: "digits_val 0 (nat_str n) = n"
proof (induction n rule: nat_str.induct)
  case (1 n)
  show ?case
  proof (cases "n < 10")
    case True
    then show ?thesis by (subst nat_str.simps) simp
  next
    case False
    with "1.IH" have "digits_val 0 (nat_str (n div 10)) = n div 10" by simp
    with False show ?thesis by (subst nat_str.simps) (simp add: digits_val_snoc)
  qed
qed

lemma nat_str_all_digits: "list_all is_digit (nat_str n)"
  by (auto simp: list_all_iff dest: nat_str_chars)

lemma nat_str_hd: "hd (nat_str n) \<noteq> CHR ''-'' \<and> hd (nat_str n) \<noteq> CHR ''+''"
proof -
  have "hd (nat_str n) \<in> set (nat_str n)" by simp
  then obtain d where "d < 10" and "hd (nat_str n) = digit_char d"
    by (blast dest: nat_str_chars)
  then show ?thesis by simp
qed

lemma nat_str_ends_not_space: "\<not> is_space (hd (nat_str n)) \<and> \<not> is_space (last (nat_str n))"
proof -
  have "hd (nat_str n) \<in> set (nat_str n)" and "last (nat_str n) \<in> set (nat_str n)" by simp_all
  then obtain d e where "d < 10" "hd (nat_str n) = digit_char d"
    and "e < 10" "last (nat_str n) = digit_char e"
    by (blast dest: nat_str_chars)
  then show ?thesis by simp
qed

text \<open>Itoa then Atoi is the identity on the \<open>int64\<close> range.\<close>

lemma go_atoi_itoa:
  assumes "- (2 ^ 63) \<le> i" and "i < 2 ^ 63"
  shows "go_atoi (go_itoa i) = Some i"
proof (cases "i < 0")
  case True
  then show ?thesis
    using assms nat_str_all_digits [of "nat (- i)"] digits_val_nat_str [of "nat (- i)"]
    by (simp add: go_atoi_def go_itoa_def)
next
  case False
  obtain x r where xr: "nat_str (nat i) = x # r"
    by (cases "nat_str (nat i)") simp_all
  from nat_str_hd [of "nat i"] xr have "x \<noteq> CHR ''-''" and "x \<noteq> CHR ''+''" by simp_all
  with False assms xr nat_str_all_digits [of "nat i"] digits_val_nat_str [of "nat i"]
  show ?thesis by (simp add: go_atoi_def go_itoa_def)
qed

lemma go_itoa_chars: "x \<in> set (go_itoa i) \<Longrightarrow> x = CHR ''-'' \<or> (\<exists>d < 10. x = digit_char d)"
  by (auto simp: go_itoa_def split: if_splits dest: nat_str_chars)

text \<open>
  The path the File Distributor takes on the output of \<open>id -u\<close>: the decimal
  number followed by a newline survives \<open>ReplaceAll\<close>, \<open>TrimSpace\<close> and
  \<open>Atoi\<close>.
\<close>

lemma itoa_output_roundtrip:
  assumes "- (2 ^ 63) \<le> i" and "i < 2 ^ 63" and "set sfx \<subseteq> {NL}"
  shows "go_atoi (trim_space (remove_newlines (go_itoa i @ sfx))) = Some i"
proof -
  have "remove_newlines sfx = []"
    using assms(3) by (auto simp: remove_newlines_def filter_empty_conv)
  then have nl: "remove_newlines (go_itoa i @ sfx) = go_itoa i"
    by (auto simp: remove_newlines_def filter_id_conv dest!: go_itoa_chars)
  have "\<not> is_space (CHR ''-'')" by (simp add: is_space_def)
  then have "\<not> is_space (hd (go_itoa i)) \<and> \<not> is_space (last (go_itoa i))"
    using nat_str_ends_not_space by (simp add: go_itoa_def)
  then have "trim_space (go_itoa i) = go_itoa i"
    by (intro trim_space_id) simp
  with nl assms show ?thesis by (simp add: go_atoi_itoa)
qed

lemma id_output_roundtrip:
  assumes "- (2 ^ 63) \<le> i" and "i < 2 ^ 63"
  shows "go_atoi (trim_space (remove_newlines (go_itoa i @ [NL]))) = Some i"
  using assms by (rule itoa_output_roundtrip) simp

section \<open>Bytes\<close>

text \<open>A Go \<open>byte\<close> read from a string is the \<open>8 word\<close> of the character.\<close>

lemma unat_of_char_8: "unat (of_char c :: 8 word) = of_char c"
proof -
  have "(of_char c :: 8 word) = of_nat (of_char c)" by (simp only: of_nat_of_char)
  then show ?thesis by (simp add: unat_of_nat)
qed

lemma of_char_word8_eq_iff: "(of_char c :: 8 word) = of_char d \<longleftrightarrow> c = d"
  by (metis unat_of_char_8 of_char_eq_iff)

section \<open>Integer conversions\<close>

text \<open>
  \<open>uint32(x)\<close> of a Go \<open>int\<close> keeps the low 32 bits; \<open>fs.FileMode(uint(x))\<close>
  goes through the 64-bit \<open>uint\<close> first, which does not change the low 32 bits.
\<close>

definition go_uint32 :: "int \<Rightarrow> 32 word" where
  "go_uint32 x = word_of_int x"

definition go_filemode :: "int \<Rightarrow> 32 word" where
  "go_filemode x = ucast (word_of_int x :: 64 word)"

lemma go_filemode_eq: "go_filemode x = go_uint32 x"
  unfolding go_filemode_def go_uint32_def by (rule ucast_down_wi) (simp add: is_down)

lemma uint_go_uint32: "uint (go_uint32 x) = x mod 2 ^ 32"
  by (simp add: go_uint32_def uint_word_of_int)

lemma uint_go_uint32_in_range: "0 \<le> x \<Longrightarrow> x < 2 ^ 32 \<Longrightarrow> uint (go_uint32 x) = x"
  by (simp add: uint_go_uint32)

end
