(* ===== verification/Types.thy ===== *)
theory Types
  imports GoLib
begin

text \<open>
  The data of package \<^verbatim>\<open>target/types\<close> (\<^verbatim>\<open>src/target/types/*.go\<close>): the result of a
  remote command (\<open>Response\<close>), the outcome of a reconciliation (\<open>StatusCode\<close>),
  the desired state of a package or service (\<open>Status\<close>, a byte), the descriptor
  \<open>APT\<close>, and the configuration records. Go's \<open>Status\<close> is a \<open>byte\<close>, so it
  is an \<open>8 word\<close> here and the constants keep their values: \<open>'i'\<close>, \<open>'n'\<close>, and,
  because \<open>iota\<close> counts the whole \<open>const\<close> block, 2 and 3 for the service states.
\<close>

section \<open>Response and StatusCode (response.go)\<close>

datatype StatusCode = StatusFailed | StatusSatisfied | StatusEnforced

record Response =
  Stdout :: string
  Stderr :: string
  ExitStatus :: int

definition Response_Success :: "Response \<Rightarrow> bool" where
  "Response_Success r \<longleftrightarrow> ExitStatus r = 0"

definition StatusCode_Success :: "StatusCode \<Rightarrow> bool" where
  "StatusCode_Success s \<longleftrightarrow> s = StatusEnforced \<or> s = StatusSatisfied"

text \<open>The zero value of \<open>types.Response{}\<close>.\<close>

definition empty_response :: Response where
  "empty_response = \<lparr>Stdout = [], Stderr = [], ExitStatus = 0\<rparr>"

section \<open>Status and APT (package.go)\<close>

type_synonym Status = "8 word"

definition StatusInstalled :: Status where [go_consts]: "StatusInstalled = 105"
definition StatusNotInstalled :: Status where [go_consts]: "StatusNotInstalled = 110"
definition StatusRestarted :: Status where [go_consts]: "StatusRestarted = 2"
definition StatusStarted :: Status where [go_consts]: "StatusStarted = 3"

record APT =
  Name :: string
  Status :: Status
  User :: string

definition APT_Service :: "APT \<Rightarrow> bool" where
  "APT_Service p \<longleftrightarrow> Status p = StatusStarted \<or> Status p = StatusRestarted"

section \<open>Rules and configuration (rules.go)\<close>

type_synonym Rule = string

record File =
  Owner :: string
  Group :: string
  Mode :: int
  RemotePath :: string
  LocalPath :: string

text \<open>
  \<open>types.Host\<close> and \<open>types.Config\<close>; the field names that would clash with the
  operations of the target (\<open>Install\<close>, \<open>Run\<close>, ...) or with \<open>APT.User\<close> carry a
  suffix.
\<close>

record Host =
  Address :: string
  Port :: int
  HostUser :: string
  Password :: string

record Config =
  ConfigHost :: Host
  InstallRules :: "Rule list"
  RemoveRules :: "Rule list"
  RunRules :: "Rule list"
  RestartRules :: "Rule list"
  Files :: "File list"

section \<open>Facts about the constants\<close>

lemma Status_consts_distinct [simp]:
  "StatusInstalled \<noteq> StatusNotInstalled" "StatusInstalled \<noteq> StatusStarted"
  "StatusInstalled \<noteq> StatusRestarted" "StatusNotInstalled \<noteq> StatusStarted"
  "StatusNotInstalled \<noteq> StatusRestarted" "StatusStarted \<noteq> StatusRestarted"
  "StatusNotInstalled \<noteq> StatusInstalled" "StatusStarted \<noteq> StatusInstalled"
  "StatusRestarted \<noteq> StatusInstalled" "StatusStarted \<noteq> StatusNotInstalled"
  "StatusRestarted \<noteq> StatusNotInstalled" "StatusRestarted \<noteq> StatusStarted"
  by (simp_all add: go_consts)

lemma Status_consts_chars:
  "StatusInstalled = of_char (CHR ''i'')" "StatusNotInstalled = of_char (CHR ''n'')"
  by (simp_all add: go_consts)

lemma APT_Service_iff [simp]:
  "APT_Service p \<longleftrightarrow> Status p \<in> {StatusStarted, StatusRestarted}"
  by (auto simp: APT_Service_def)

lemma StatusCode_Success_iff [simp]:
  "StatusCode_Success s \<longleftrightarrow> s \<noteq> StatusFailed"
  by (cases s) (simp_all add: StatusCode_Success_def)

end
