(* ===== verification/Transport.thy ===== *)
theory Transport
  imports Types
begin

text \<open>
  The Transport Session of \<^verbatim>\<open>src/target/target.go\<close>: the struct \<open>Remote\<close>
  (lines 24--39) with the objects it owns, \<open>New\<close> (53--77), \<open>Close\<close> (80--86) and
  \<open>sftpClient\<close> (90--105); and the part of the world the target acts on.

  \<^item> The \<open>*ssh.Client\<close> is \<open>conn\<close>: \<open>ConnNil\<close> after a failed dial (\<open>New\<close>
    returns the struct anyway), \<open>ConnOpen\<close>, or \<open>ConnClosed\<close>.
  \<^item> The Go map \<open>sftp\<close> (user name to \<open>*sftp.Client\<close>) is an association list
    from user names to handles; the client objects are the list \<open>clients\<close>, handle
    \<open>i\<close> being open iff \<open>clients ! i\<close>. Keeping the objects apart from the map
    makes the aliasing explicit: closing a client through a local variable closes
    the object the map still holds.
  \<^item> The remote machine is a type variable \<open>'h\<close> driven by an \<open>executor\<close>: given
    the machine, a command line and its stdin, it returns the new machine and what
    the SSH session reported. Its SFTP-visible file system, the local file system
    and the program's output are fields of \<open>World\<close>.
\<close>

section \<open>The SSH library's session outcome\<close>

text \<open>
  What one SSH session reports (\<^verbatim>\<open>golang.org/x/crypto/ssh\<close>, \<open>NewSession\<close> and
  \<open>Session.Run\<close>): the channel was refused, the command could not be started or its
  I/O failed, or it finished, with an optional \<open>exit-status\<close> (a \<open>uint32\<close> on the
  wire), the name in an \<open>exit-signal\<close> message (empty if none), and the captured
  standard output and error.
\<close>

datatype ssh_reply =
    OpenRefused string
  | StartFailed string
  | Finished "32 word option" string string string

datatype wait_result = WaitNil | WaitExitError int | WaitExitMissing

definition ssh_signals :: "(string \<times> int) list" where
  "ssh_signals = [(''ABRT'', 6), (''ALRM'', 14), (''FPE'', 8), (''HUP'', 1), (''ILL'', 4),
     (''INT'', 2), (''KILL'', 9), (''PIPE'', 13), (''QUIT'', 3), (''SEGV'', 11),
     (''TERM'', 15), (''USR1'', 10), (''USR2'', 12)]"

text \<open>
  \<open>Session.Wait\<close>: the status starts at -1 and an \<open>exit-status\<close> message sets it;
  0 is success (\<open>nil\<close>); -1 with no signal is \<open>ExitMissingError\<close>; -1 with a
  signal becomes 128 plus the signal's number; anything else is an \<open>ExitError\<close>.
\<close>

definition ssh_wait :: "32 word option \<Rightarrow> string \<Rightarrow> wait_result" where
  "ssh_wait st sg =
     (let status = (case st of Some s \<Rightarrow> uint s | None \<Rightarrow> -1) in
      if status = 0 then WaitNil
      else if status = -1 then
        (if sg = [] then WaitExitMissing
         else WaitExitError (128 + (case map_of ssh_signals sg of Some n \<Rightarrow> n | None \<Rightarrow> 0)))
      else WaitExitError status)"

type_synonym 'h executor = "'h \<Rightarrow> string \<Rightarrow> string \<Rightarrow> 'h \<times> ssh_reply"

section \<open>Remote and World\<close>

datatype conn_state = ConnNil | ConnOpen | ConnClosed

record Remote =
  addr :: string
  conn :: conn_state
  connuser :: string
  sudopass :: string
  activeUser :: string
  sftp :: "(string \<times> nat) list"
  clients :: "bool list"

text \<open>A remote file as SFTP sees it, and a local file as \<open>os\<close> sees it.\<close>

record RFile =
  rdata :: string
  rmode :: "32 word"
  ruid :: "32 word"
  rgid :: "32 word"

record LFile =
  ldata :: string
  lsize :: int

text \<open>
  The program's standard output: one entry per \<open>fmt.Printf\<close> of the target, with
  the batch operation it belongs to.
\<close>

datatype batch_op = OpRemove | OpInstall | OpRun | OpRestart

datatype log_entry =
    LogTrying batch_op string
  | LogFailed batch_op string goerror
  | LogDone batch_op string
  | LogPushing string
  | LogPushed string

text \<open>
  \<open>rfs\<close> is the remote file system through SFTP, \<open>denied\<close> the remote paths where
  SFTP refuses to create a file, \<open>login_ids\<close> the owner SFTP gives a file it
  creates, \<open>lfs\<close> the local file system. \<open>issued\<close> records every command that
  ran on the machine, in order; it is an observation and no code reads it.
\<close>

record 'h World =
  host :: 'h
  rfs :: "string \<Rightarrow> RFile option"
  denied :: "string list"
  login_ids :: "32 word \<times> 32 word"
  lfs :: "string \<Rightarrow> LFile option"
  issued :: "string list"
  out :: "log_entry list"

section \<open>New, Close, sftpClient\<close>

text \<open>
  \<open>New\<close>: the struct is built first and returned in both cases; \<open>dial\<close> is the
  outcome of \<open>ssh.Dial\<close> with the given credentials and host-key callback.
\<close>

definition New :: "string \<Rightarrow> string \<Rightarrow> string \<Rightarrow> goerror \<Rightarrow> Remote \<times> goerror" where
  "New a user pass dial =
     (let r = \<lparr>addr = a, conn = ConnNil, connuser = user, sudopass = pass,
               activeUser = user, sftp = [], clients = []\<rparr>
      in case dial of
           None \<Rightarrow> (r\<lparr>conn := ConnOpen\<rparr>, None)
         | Some e \<Rightarrow> (r, Some (Wrap (''unable to establish ssh connection to '' @ a) e)))"

text \<open>Closing every client held by the map; a second close of a client is harmless.\<close>

definition close_clients :: "nat list \<Rightarrow> bool list \<Rightarrow> bool list" where
  "close_clients hs cs = fold (\<lambda>h cs. cs[h := False]) hs cs"

definition Close :: "Remote \<Rightarrow> (goerror \<times> Remote) panicking" where
  "Close r =
     (let r' = r\<lparr>clients := close_clients (map snd (sftp r)) (clients r)\<rparr>
      in case conn r of
           ConnNil \<Rightarrow> Inl ''nil pointer dereference''
         | ConnOpen \<Rightarrow> Inr (None, r'\<lparr>conn := ConnClosed\<rparr>)
         | ConnClosed \<Rightarrow> Inr (Some (Msg ''use of closed network connection''), r'))"

text \<open>
  \<open>sftpClient\<close> returns the cached client of the acting user, or opens one over
  the connection (\<open>sftp.NewClient(r.conn)\<close>: the client runs as the connection's
  user whatever \<open>activeUser\<close> says) and caches it.
\<close>

definition sftpClient :: "Remote \<Rightarrow> (nat option \<times> goerror \<times> Remote) panicking" where
  "sftpClient r =
     (case map_of (sftp r) (activeUser r) of
        Some c \<Rightarrow> Inr (Some c, None, r)
      | None \<Rightarrow>
          (case conn r of
             ConnNil \<Rightarrow> Inl ''nil pointer dereference''
           | ConnClosed \<Rightarrow>
               Inr (None, Some (Wrap (''could not start sftp connection for '' @ activeUser r)
                                  (Msg ''EOF'')), r)
           | ConnOpen \<Rightarrow>
               (let c = length (clients r)
                in Inr (Some c, None,
                        r\<lparr>sftp := AList.update (activeUser r) c (sftp r),
                          clients := clients r @ [True]\<rparr>))))"

section \<open>The session invariant\<close>

text \<open>
  The map has distinct keys (at most one channel per user), its handles are exactly
  the client objects created so far, in order, and the only key is the acting user.
\<close>

definition session_inv :: "Remote \<Rightarrow> bool" where
  "session_inv r \<longleftrightarrow>
     distinct (map fst (sftp r)) \<and>
     map snd (sftp r) = [0..<length (clients r)] \<and>
     set (map fst (sftp r)) \<subseteq> {activeUser r}"

lemma length_close_clients [simp]: "length (close_clients hs cs) = length cs"
  by (induction hs arbitrary: cs) (simp_all add: close_clients_def)

lemma close_clients_nth:
  "i < length cs \<Longrightarrow> close_clients hs cs ! i = (cs ! i \<and> i \<notin> set hs)"
proof (induction hs arbitrary: cs)
  case Nil
  then show ?case by (simp add: close_clients_def)
next
  case (Cons h hs)
  have "close_clients (h # hs) cs = close_clients hs (cs[h := False])"
    by (simp add: close_clients_def)
  moreover from Cons.prems have "close_clients hs (cs[h := False]) ! i = (cs[h := False] ! i \<and> i \<notin> set hs)"
    by (intro Cons.IH) simp
  ultimately show ?case using Cons.prems by (cases "h = i") (auto simp: nth_list_update_neq)
qed

lemma update_new_key_snd:
  "k \<notin> fst ` set al \<Longrightarrow> map snd (AList.update k v al) = map snd al @ [v]"
  by (induction al) auto

lemma map_of_None_keys: "map_of al k = None \<longleftrightarrow> k \<notin> set (map fst al)"
  by (induction al) auto

lemmas session_defs = New_def Close_def sftpClient_def

section \<open>Properties of the session operations\<close>

lemma New_session_inv: "session_inv (fst (New a user pass dial))"
  by (cases dial) (simp_all add: New_def session_inv_def)

lemma New_result:
  "New a user pass dial = (r, e) \<Longrightarrow>
     (e = None \<longleftrightarrow> dial = None) \<and> (conn r = ConnOpen \<longleftrightarrow> dial = None) \<and>
     activeUser r = user \<and> sftp r = [] \<and> clients r = []"
  by (cases dial) (auto simp: New_def)

lemma sftpClient_cached:
  "map_of (sftp r) (activeUser r) = Some c \<Longrightarrow> sftpClient r = Inr (Some c, None, r)"
  by (simp add: sftpClient_def)

lemma sftpClient_session_inv:
  assumes "session_inv r" and "sftpClient r = Inr (c, e, r')"
  shows "session_inv r'"
proof (cases "map_of (sftp r) (activeUser r)")
  case None
  then have fresh: "activeUser r \<notin> set (map fst (sftp r))"
    by (simp add: map_of_None_keys)
  with assms(1) have "sftp r = []"
    by (cases "sftp r") (auto simp: session_inv_def)
  with None assms show ?thesis
    by (auto simp: sftpClient_def Let_def session_inv_def split: conn_state.splits)
next
  case (Some c')
  with assms show ?thesis by (simp add: sftpClient_def)
qed

text \<open>A successful \<open>sftpClient\<close> returns a client that exists and is the cached one.\<close>

lemma sftpClient_Some:
  assumes "session_inv r" and "sftpClient r = Inr (Some c, None, r')"
  shows "map_of (sftp r') (activeUser r') = Some c \<and> c < length (clients r') \<and>
         activeUser r' = activeUser r \<and> conn r' = conn r"
proof (cases "map_of (sftp r) (activeUser r)")
  case None
  with assms show ?thesis by (auto simp: sftpClient_def Let_def split: conn_state.splits)
next
  case (Some c')
  then have "(activeUser r, c') \<in> set (sftp r)" by (rule map_of_SomeD)
  then have "c' \<in> set (map snd (sftp r))" by force
  with assms(1) have "c' < length (clients r)" by (simp add: session_inv_def)
  with Some assms(2) show ?thesis by (simp add: sftpClient_def)
qed

lemma sftpClient_ok:
  assumes "sftpClient r = Inr (c, None, r1)"
  shows "(\<exists>h. c = Some h) \<and> conn r1 = conn r"
proof (cases "map_of (sftp r) (activeUser r)")
  case None
  with assms show ?thesis by (auto simp: sftpClient_def Let_def split: conn_state.splits)
next
  case (Some a)
  with assms have "c = Some a \<and> r1 = r" by (simp add: sftpClient_def)
  then show ?thesis by simp
qed

text \<open>\<open>sftpClient\<close> and \<open>Close\<close> change only the client cache and the connection.\<close>

lemma sftpClient_frame:
  "sftpClient r = Inr (c, e, r1) \<Longrightarrow>
     conn r1 = conn r \<and> addr r1 = addr r \<and> activeUser r1 = activeUser r \<and>
     connuser r1 = connuser r \<and> sudopass r1 = sudopass r"
  by (auto simp: sftpClient_def Let_def split: option.splits conn_state.splits)

lemma sftpClient_no_panic: "conn r \<noteq> ConnNil \<Longrightarrow> \<exists>v. sftpClient r = Inr v"
  by (auto simp: sftpClient_def Let_def split: option.split conn_state.split)

lemma Close_addr: "Close r = Inr (e, r') \<Longrightarrow> addr r' = addr r"
  by (auto simp: Close_def Let_def split: conn_state.splits)

lemma Close_frame:
  "Close r = Inr (e, r') \<Longrightarrow>
     sftp r' = sftp r \<and> activeUser r' = activeUser r \<and> length (clients r') = length (clients r)"
  by (auto simp: Close_def Let_def split: conn_state.splits)

lemma Close_session_inv:
  "session_inv r \<Longrightarrow> Close r = Inr (e, r') \<Longrightarrow> session_inv r'"
  by (drule Close_frame) (simp add: session_inv_def)

text \<open>After \<open>Close\<close> every client the map holds is closed.\<close>

lemma Close_clients_closed:
  assumes "session_inv r" and "Close r = Inr (e, r')" and "(u, c) \<in> set (sftp r')"
  shows "\<not> clients r' ! c"
proof -
  from assms(2) have r': "sftp r' = sftp r"
    and cl: "clients r' = close_clients (map snd (sftp r)) (clients r)"
    by (auto simp: Close_def Let_def split: conn_state.splits)
  from assms(3) r' have "c \<in> set (map snd (sftp r))" by force
  moreover with assms(1) have "c < length (clients r)" by (simp add: session_inv_def)
  ultimately show ?thesis by (simp add: cl close_clients_nth)
qed

lemma Close_conn:
  "Close r = Inr (e, r') \<Longrightarrow>
     conn r' = ConnClosed \<and> (e = None \<longleftrightarrow> conn r = ConnOpen) \<and> sftp r' = sftp r"
  by (auto simp: Close_def Let_def split: conn_state.splits)

text \<open>Under the session invariant \<open>Close\<close> closes every client of the session.\<close>

lemma Close_all_clients_closed:
  assumes "session_inv r" and "Close r = Inr (e, r')"
  shows "\<forall>c \<in> set (clients r'). \<not> c"
proof -
  from assms(2) have cl: "clients r' = close_clients (map snd (sftp r)) (clients r)"
    by (auto simp: Close_def Let_def split: conn_state.splits)
  from assms(1) have "map snd (sftp r) = [0..<length (clients r)]"
    by (simp add: session_inv_def)
  with cl show ?thesis by (auto simp: in_set_conv_nth close_clients_nth)
qed

lemma Close_panics_iff: "(\<exists>p. Close r = Inl p) \<longleftrightarrow> conn r = ConnNil"
  by (auto simp: Close_def Let_def split: conn_state.splits)

text \<open>
  C13: closing a target twice reports an error the second time, and the second
  close leaves the connection closed.
\<close>

lemma Close_twice_error:
  assumes "Close r = Inr (None, r')"
  shows "\<exists>e r''. Close r' = Inr (Some e, r'') \<and> conn r'' = ConnClosed"
proof -
  from Close_conn [OF assms] have "conn r' = ConnClosed" by simp
  then show ?thesis by (simp add: Close_def Let_def)
qed

end
