(* ===== verification/Runner.thy ===== *)
theory Runner
  imports Transport
begin

text \<open>
  The Command Runner: \<open>Remote.run\<close> (\<^verbatim>\<open>src/target/target.go\<close> lines 368--398) and
  its exported alias \<open>RunCmd\<close> (109--111). One fresh session per call; the exit
  status is classified as the code does: 0 on success, the remote code of an
  \<open>ExitError\<close>, the sentinel -1 for \<open>ExitMissingError\<close>; any other failure is
  an error value. The lemmas give the result on every branch, the bounds of the
  exit status, and that the runner never touches the target's own state.
\<close>

definition run ::
  "'h executor \<Rightarrow> Remote \<Rightarrow> 'h World \<Rightarrow> string \<Rightarrow> string \<Rightarrow>
     (Response \<times> goerror \<times> 'h World) panicking" where
  "run ex r w cmd stdin =
     (case conn r of
        ConnNil \<Rightarrow> Inl ''nil pointer dereference''
      | ConnClosed \<Rightarrow>
          Inr (empty_response, Some (Wrap ''unable to create new session'' (Msg ''EOF'')), w)
      | ConnOpen \<Rightarrow>
          (let (h', rep) = ex (host w) cmd stdin
           in case rep of
                OpenRefused m \<Rightarrow>
                  Inr (empty_response, Some (Wrap ''unable to create new session'' (Msg m)),
                       w\<lparr>host := h'\<rparr>)
              | StartFailed m \<Rightarrow>
                  Inr (empty_response, Some (Wrap ''run of command failed'' (Msg m)), w\<lparr>host := h'\<rparr>)
              | Finished st sg so se \<Rightarrow>
                  (let resp = \<lparr>Stdout = so, Stderr = se, ExitStatus = 0\<rparr>;
                       w' = w\<lparr>host := h', issued := issued w @ [cmd]\<rparr>
                   in case ssh_wait st sg of
                        WaitNil \<Rightarrow> Inr (resp, None, w')
                      | WaitExitError c \<Rightarrow> Inr (resp\<lparr>ExitStatus := c\<rparr>, None, w')
                      | WaitExitMissing \<Rightarrow> Inr (resp\<lparr>ExitStatus := -1\<rparr>, None, w'))))"

definition RunCmd ::
  "'h executor \<Rightarrow> Remote \<Rightarrow> 'h World \<Rightarrow> string \<Rightarrow> string \<Rightarrow>
     (Response \<times> goerror \<times> 'h World) panicking" where
  "RunCmd ex r w cmd stdin = run ex r w cmd stdin"

section \<open>The exit status a finished session yields\<close>

definition exit_code :: "32 word option \<Rightarrow> string \<Rightarrow> int" where
  "exit_code st sg =
     (case ssh_wait st sg of WaitNil \<Rightarrow> 0 | WaitExitError c \<Rightarrow> c | WaitExitMissing \<Rightarrow> -1)"

lemma ssh_signals_range: "map_of ssh_signals s = Some n \<Longrightarrow> 1 \<le> n \<and> n \<le> 15"
  by (auto simp: ssh_signals_def split: if_splits)

lemma uint_not_neg_one [simp]: "uint (s :: 'a::len word) \<noteq> -1"
  using uint_nonnegative [of s] by linarith

lemma exit_code_cases:
  "exit_code st sg =
     (case st of
        Some s \<Rightarrow> uint s
      | None \<Rightarrow> (if sg = [] then -1
                 else 128 + (case map_of ssh_signals sg of Some n \<Rightarrow> n | None \<Rightarrow> 0)))"
  by (auto simp: exit_code_def ssh_wait_def Let_def split: option.splits)

text \<open>
  The reported status is -1 or the value of a \<open>uint32\<close>: a real exit code never
  collides with the sentinel.
\<close>

lemma exit_code_range: "exit_code st sg = -1 \<or> (0 \<le> exit_code st sg \<and> exit_code st sg < 2 ^ 32)"
proof (cases st)
  case (Some s)
  have "uint s < 2 ^ 32" using uint_bounded [of s] by simp
  with Some show ?thesis by (simp add: exit_code_cases)
next
  case None
  then show ?thesis
    by (auto simp: exit_code_cases split: option.splits dest: ssh_signals_range)
qed

lemma exit_code_zero_iff: "exit_code st sg = 0 \<longleftrightarrow> st = Some 0"
proof (cases st)
  case (Some s)
  then show ?thesis by (simp add: exit_code_cases uint_0_iff)
next
  case None
  then show ?thesis
    by (auto simp: exit_code_cases split: option.splits dest: ssh_signals_range)
qed

section \<open>run on each branch\<close>

lemma run_Finished:
  assumes "conn r = ConnOpen" and "ex (host w) cmd stdin = (h', Finished st sg so se)"
  shows "run ex r w cmd stdin =
           Inr (\<lparr>Stdout = so, Stderr = se, ExitStatus = exit_code st sg\<rparr>, None,
                w\<lparr>host := h', issued := issued w @ [cmd]\<rparr>)"
  using assms by (simp add: run_def exit_code_def split: wait_result.splits)

lemma run_OpenRefused:
  "conn r = ConnOpen \<Longrightarrow> ex (host w) cmd stdin = (h', OpenRefused m) \<Longrightarrow>
     run ex r w cmd stdin =
       Inr (empty_response, Some (Wrap ''unable to create new session'' (Msg m)), w\<lparr>host := h'\<rparr>)"
  by (simp add: run_def)

lemma run_StartFailed:
  "conn r = ConnOpen \<Longrightarrow> ex (host w) cmd stdin = (h', StartFailed m) \<Longrightarrow>
     run ex r w cmd stdin =
       Inr (empty_response, Some (Wrap ''run of command failed'' (Msg m)), w\<lparr>host := h'\<rparr>)"
  by (simp add: run_def)

lemma run_ConnClosed:
  "conn r = ConnClosed \<Longrightarrow>
     run ex r w cmd stdin =
       Inr (empty_response, Some (Wrap ''unable to create new session'' (Msg ''EOF'')), w)"
  by (simp add: run_def)

lemma run_ConnNil: "conn r = ConnNil \<Longrightarrow> run ex r w cmd stdin = Inl ''nil pointer dereference''"
  by (simp add: run_def)

lemmas run_branches [go_results] =
  run_Finished run_OpenRefused run_StartFailed run_ConnClosed run_ConnNil

text \<open>
  What a call of the runner can change: only the machine and the record of issued
  commands. The file systems and the program output are untouched.
\<close>

lemma run_frame:
  assumes "run ex r w cmd stdin = Inr (res, err, w')"
  shows "rfs w' = rfs w \<and> lfs w' = lfs w \<and> out w' = out w \<and> denied w' = denied w \<and>
         login_ids w' = login_ids w \<and> (issued w' = issued w \<or> issued w' = issued w @ [cmd])"
  using assms
  by (auto simp: run_def Let_def split: conn_state.splits prod.splits ssh_reply.splits
      wait_result.splits)

lemma run_panics_iff: "(\<exists>p. run ex r w cmd stdin = Inl p) \<longleftrightarrow> conn r = ConnNil"
  by (auto simp: run_def Let_def split: conn_state.splits prod.splits ssh_reply.splits
      wait_result.splits)

lemma run_Inr_cases:
  assumes "run ex r w cmd stdin = Inr (res, err, w')"
  obtains (finished) h' st sg so se where "conn r = ConnOpen"
      "ex (host w) cmd stdin = (h', Finished st sg so se)"
      "res = \<lparr>Stdout = so, Stderr = se, ExitStatus = exit_code st sg\<rparr>" "err = None"
      "w' = w\<lparr>host := h', issued := issued w @ [cmd]\<rparr>"
  | (failed) "err \<noteq> None" "res = empty_response"
proof (cases "conn r")
  case ConnOpen
  obtain h' rep where ex: "ex (host w) cmd stdin = (h', rep)" by fastforce
  show ?thesis
  proof (cases rep)
    case (Finished st sg so se)
    with ConnOpen ex assms show ?thesis by (auto simp: run_Finished intro: finished)
  qed (use ConnOpen ex assms in \<open>auto simp: run_def intro: failed\<close>)
qed (use assms in \<open>auto simp: run_def intro: failed\<close>)

section \<open>The classification of exit statuses\<close>

text \<open>
  C12: for a command that ran to completion, \<open>run\<close> returns no error, its
  response succeeds exactly when the remote exit status was 0, and a session that
  ended with neither exit status nor signal reports the sentinel -1.
\<close>

lemma run_classifies_exit:
  assumes "conn r = ConnOpen" and "ex (host w) cmd stdin = (h', Finished st sg so se)"
    and "run ex r w cmd stdin = Inr (res, err, w')"
  shows "err = None \<and> (Response_Success res \<longleftrightarrow> st = Some 0) \<and>
         (st = None \<and> sg = [] \<longrightarrow> ExitStatus res = -1) \<and> Stdout res = so \<and> Stderr res = se"
proof -
  have "exit_code None [] = -1" by (simp add: exit_code_cases)
  then show ?thesis
    using assms run_Finished [of r ex w cmd stdin h' st sg so se]
    by (auto simp: Response_Success_def exit_code_zero_iff)
qed

end
