(* ===== verification/Reconciler.thy ===== *)
theory Reconciler
  imports Runner
begin

text \<open>
  The State Reconciler of \<^verbatim>\<open>src/target/target.go\<close>: \<open>check\<close> (lines 204--232)
  queries dpkg and parses the status byte, \<open>Ensure\<close> (235--272) decides whether
  to act and runs the corrective command. The lemmas give \<open>check\<close>'s truth table
  for a finished query, the outcome of \<open>Ensure\<close> on each branch (errors included),
  the panic of the parser on short output, and the policy that a service is acted
  on even when the check reports it satisfied.
\<close>

section \<open>Commands\<close>

abbreviation BS :: char where "BS \<equiv> CHR 0x5C"
abbreviation QUOTE :: char where "QUOTE \<equiv> CHR 0x27"

text \<open>
  The query is a Go raw string: the \<open>\t\<close> in it are a backslash and a \<open>t\<close>, which
  \<^verbatim>\<open>dpkg-query\<close> turns into tabs in its output.
\<close>

definition dpkg_query_fmt :: string where
  "dpkg_query_fmt =
     [QUOTE] @ ''${Package}'' @ [BS, CHR ''t''] @ ''${db:Status-Abbrev}'' @ [BS, CHR ''t''] @
     ''${Version}'' @ [BS, CHR ''t''] @ ''${Name}'' @ [QUOTE]"

definition check_cmd :: "string \<Rightarrow> string" where
  "check_cmd n = ''dpkg-query -f '' @ dpkg_query_fmt @ '' -W '' @ n"

text \<open>
  The action table of \<open>Ensure\<close> is a Go map literal; a status missing from it reads
  as the zero value, the empty string.
\<close>

definition actions :: "(Status \<times> string) list" where
  "actions = [(StatusInstalled, ''install''), (StatusNotInstalled, ''purge''),
              (StatusStarted, ''start''), (StatusRestarted, ''restart'')]"

definition action_of :: "Status \<Rightarrow> string" where
  "action_of s = (case map_of actions s of Some a \<Rightarrow> a | None \<Rightarrow> [])"

definition ensure_cmd :: "APT \<Rightarrow> string" where
  "ensure_cmd p =
     (let a = action_of (Status p);
          c0 = ''apt '' @ a @ '' '' @ Name p @ '' -y'';
          c1 = (if Status p = StatusNotInstalled
                then ''apt '' @ a @ '' '' @ Name p @ '' -y && apt autoremove -y'' else c0)
      in if APT_Service p then ''sudo service '' @ Name p @ '' '' @ a else c1)"

section \<open>check\<close>

text \<open>
  \<open>stdOutarr[1][1]\<close>: the second byte of the second tab-separated field, read only
  when there are at least two fields; the inner index is unchecked and panics on a
  field shorter than two bytes. With fewer than two fields the status stays 0.
\<close>

definition status_byte :: "string \<Rightarrow> Status panicking" where
  "status_byte so =
     (let arr = split_on TAB so
      in if 1 < length arr
         then pbind (go_index arr 1) (\<lambda>f. pbind (go_index f 1) (\<lambda>x. Inr (of_char x)))
         else Inr 0)"

definition check :: "'h executor \<Rightarrow> Remote \<Rightarrow> 'h World \<Rightarrow> APT \<Rightarrow> (bool \<times> goerror \<times> 'h World) panicking" where
  "check ex r w p =
     pbind (RunCmd ex r w (check_cmd (Name p)) []) (\<lambda>(res, err, w').
       if err \<noteq> None then Inr (False, wrap (''could not check package status for '' @ Name p) err, w')
       else if ExitStatus res = 0 \<and> Status p = StatusNotInstalled then Inr (False, None, w')
       else if ExitStatus res \<noteq> 0 \<and> Status p = StatusInstalled then Inr (False, None, w')
       else pbind (status_byte (Stdout res)) (\<lambda>status. Inr (status = Status p, None, w')))"

section \<open>Ensure\<close>

definition Ensure :: "'h executor \<Rightarrow> Remote \<Rightarrow> 'h World \<Rightarrow> APT \<Rightarrow> (StatusCode \<times> goerror \<times> 'h World) panicking" where
  "Ensure ex r w p =
     pbind (check ex r w p) (\<lambda>(ok, err, w1).
       if err \<noteq> None then Inr (StatusFailed, wrap ''ensure check failed'' err, w1)
       else if ok \<and> \<not> APT_Service p then Inr (StatusSatisfied, None, w1)
       else pbind (RunCmd ex r w1 (ensure_cmd p) []) (\<lambda>(res, err2, w2).
         if err2 \<noteq> None \<or> \<not> Response_Success res
         then Inr (StatusFailed, wrap (''could not '' @ action_of (Status p) @ '' package '' @ Name p) err2, w2)
         else Inr (StatusEnforced, None, w2)))"

section \<open>The parser\<close>

lemma status_byte_fields:
  "status_byte so =
     (case split_on TAB so of
        f0 # f1 # fs \<Rightarrow> (case f1 of x0 # x1 # xs \<Rightarrow> Inr (of_char x1) | _ \<Rightarrow> Inl ''index out of range'')
      | _ \<Rightarrow> Inr 0)"
proof -
  obtain f0 rest where sp: "split_on TAB so = f0 # rest"
    by (cases "split_on TAB so") simp_all
  show ?thesis
  proof (cases rest)
    case Nil
    with sp show ?thesis by (simp add: status_byte_def)
  next
    case (Cons f1 fs)
    with sp show ?thesis
      by (cases f1 rule: remdups_adj.cases) (simp_all add: status_byte_def)
  qed
qed

lemma status_byte_no_tab: "TAB \<notin> set so \<Longrightarrow> status_byte so = Inr 0"
  by (simp add: status_byte_def split_on_no_sep)

lemma status_byte_record:
  assumes "TAB \<notin> set f0" and "TAB \<notin> set f1" and "2 \<le> length f1"
  shows "status_byte (f0 @ TAB # f1 @ TAB # rest) = Inr (of_char (f1 ! 1))"
proof -
  have "split_on TAB (f0 @ TAB # f1 @ TAB # rest) = f0 # f1 # split_on TAB rest"
    using assms by (simp add: split_on_append_sep)
  with assms show ?thesis by (simp add: status_byte_def)
qed

section \<open>check and Ensure on each branch\<close>

lemma action_of_consts [simp]:
  "action_of StatusInstalled = ''install''" "action_of StatusNotInstalled = ''purge''"
  "action_of StatusStarted = ''start''" "action_of StatusRestarted = ''restart''"
  by (simp_all add: action_of_def actions_def)

lemma check_query_failed:
  "RunCmd ex r w (check_cmd (Name p)) [] = Inr (res, Some e, w') \<Longrightarrow>
     check ex r w p = Inr (False, Some (Wrap (''could not check package status for '' @ Name p) e), w')"
  by (simp add: check_def)

text \<open>The truth table of \<open>check\<close> once the query has run.\<close>

lemma check_query_ran:
  "RunCmd ex r w (check_cmd (Name p)) [] = Inr (res, None, w') \<Longrightarrow>
     check ex r w p =
       (if ExitStatus res = 0 \<and> Status p = StatusNotInstalled then Inr (False, None, w')
        else if ExitStatus res \<noteq> 0 \<and> Status p = StatusInstalled then Inr (False, None, w')
        else pbind (status_byte (Stdout res)) (\<lambda>status. Inr (status = Status p, None, w')))"
  by (simp add: check_def)

lemma Ensure_check_error:
  "check ex r w p = Inr (ok, Some e, w1) \<Longrightarrow>
     Ensure ex r w p = Inr (StatusFailed, Some (Wrap ''ensure check failed'' e), w1)"
  by (simp add: Ensure_def)

lemma Ensure_check_ok:
  "check ex r w p = Inr (ok, None, w1) \<Longrightarrow>
     Ensure ex r w p =
       (if ok \<and> \<not> APT_Service p then Inr (StatusSatisfied, None, w1)
        else pbind (RunCmd ex r w1 (ensure_cmd p) []) (\<lambda>(res, err2, w2).
          if err2 \<noteq> None \<or> \<not> Response_Success res
          then Inr (StatusFailed, wrap (''could not '' @ action_of (Status p) @ '' package '' @ Name p) err2, w2)
          else Inr (StatusEnforced, None, w2)))"
  by (simp add: Ensure_def)

lemma check_frame:
  "check ex r w p = Inr (ok, err, w') \<Longrightarrow>
     rfs w' = rfs w \<and> lfs w' = lfs w \<and> out w' = out w \<and> denied w' = denied w \<and> login_ids w' = login_ids w"
  by (auto simp: check_def RunCmd_def pbind_eq_Inr_iff split: if_splits dest!: run_frame)

lemma Ensure_frame:
  "Ensure ex r w p = Inr (s, err, w') \<Longrightarrow>
     rfs w' = rfs w \<and> lfs w' = lfs w \<and> out w' = out w \<and> denied w' = denied w \<and> login_ids w' = login_ids w"
  by (auto simp: Ensure_def RunCmd_def pbind_eq_Inr_iff split: if_splits dest!: check_frame run_frame)

section \<open>What a successful check has run\<close>

lemma check_ok_query:
  assumes "check ex r w p = Inr (ok, None, w1)"
  obtains h' st sg so se where "conn r = ConnOpen"
    "ex (host w) (check_cmd (Name p)) [] = (h', Finished st sg so se)"
    "w1 = w\<lparr>host := h', issued := issued w @ [check_cmd (Name p)]\<rparr>"
    "check ex r w p = (if exit_code st sg = 0 \<and> Status p = StatusNotInstalled then Inr (False, None, w1)
        else if exit_code st sg \<noteq> 0 \<and> Status p = StatusInstalled then Inr (False, None, w1)
        else pbind (status_byte so) (\<lambda>status. Inr (status = Status p, None, w1)))"
proof -
  from assms obtain res w' where run: "run ex r w (check_cmd (Name p)) [] = Inr (res, None, w')"
    and w1: "w1 = w'"
    by (auto simp: check_def RunCmd_def pbind_eq_Inr_iff split: if_splits)
  from run show ?thesis
  proof (cases rule: run_Inr_cases)
    case (finished h' st sg so se)
    from run have q: "RunCmd ex r w (check_cmd (Name p)) [] = Inr (res, None, w')"
      by (simp add: RunCmd_def)
    show ?thesis
    proof (rule that [OF finished(1,2)])
      show "w1 = w\<lparr>host := h', issued := issued w @ [check_cmd (Name p)]\<rparr>"
        using finished w1 by simp
      show "check ex r w p = (if exit_code st sg = 0 \<and> Status p = StatusNotInstalled then Inr (False, None, w1)
        else if exit_code st sg \<noteq> 0 \<and> Status p = StatusInstalled then Inr (False, None, w1)
        else pbind (status_byte so) (\<lambda>status. Inr (status = Status p, None, w1)))"
        unfolding check_query_ran [OF q] using finished w1 by simp
    qed
  qed simp
qed

lemma Ensure_after_check:
  assumes "check ex r w p = Inr (ok, None, w1)" and "Ensure ex r w p = Inr (s, err, w')"
  shows "(ok \<and> \<not> APT_Service p \<and> s = StatusSatisfied \<and> err = None \<and> w' = w1) \<or>
         (\<not> (ok \<and> \<not> APT_Service p) \<and> s \<noteq> StatusSatisfied \<and>
          (\<exists>res err2. RunCmd ex r w1 (ensure_cmd p) [] = Inr (res, err2, w') \<and>
             (s = StatusEnforced \<longleftrightarrow> err2 = None \<and> Response_Success res) \<and>
             err = (if s = StatusEnforced then None
                    else wrap (''could not '' @ action_of (Status p) @ '' package '' @ Name p) err2)))"
  using assms
  by (auto simp: Ensure_check_ok pbind_eq_Inr_iff split: if_splits prod.splits)

lemma Ensure_check_Inr:
  assumes "Ensure ex r w p = Inr (s, err, w')" and "s \<noteq> StatusFailed"
  obtains ok w1 where "check ex r w p = Inr (ok, None, w1)"
proof -
  from assms(1) obtain ok e1 w1 where chk: "check ex r w p = Inr (ok, e1, w1)"
    by (auto simp: Ensure_def pbind_eq_Inr_iff)
  with assms have "e1 = None" by (cases e1) (simp_all add: Ensure_check_error)
  with chk show ?thesis by (intro that) simp
qed

lemma check_issued:
  "check ex r w p = Inr (ok, None, w1) \<Longrightarrow> issued w1 = issued w @ [check_cmd (Name p)]"
  by (elim check_ok_query) simp

section \<open>Properties of Ensure\<close>

text \<open>
  C2: a converged package costs one query and nothing else: when \<open>Ensure\<close> reports
  \<open>StatusSatisfied\<close>, the query is the only command that ran, no error is
  returned, and the descriptor was not a service.
\<close>

lemma Ensure_satisfied_only_query:
  assumes "Ensure ex r w p = Inr (StatusSatisfied, err, w')"
  shows "err = None \<and> \<not> APT_Service p \<and> issued w' = issued w @ [check_cmd (Name p)]"
proof -
  from assms obtain ok w1 where chk: "check ex r w p = Inr (ok, None, w1)"
    by (rule Ensure_check_Inr) simp
  from Ensure_after_check [OF chk assms] have "\<not> APT_Service p \<and> err = None \<and> w' = w1"
    by simp
  with check_issued [OF chk] show ?thesis by simp
qed

text \<open>
  C3: a service is always acted on: once the query has run without error,
  whatever it found (even a package installed and a service running), \<open>Ensure\<close>
  runs \<^verbatim>\<open>sudo service <name> <start|restart>\<close> and reports
  \<open>StatusEnforced\<close> exactly when that command succeeded, \<open>StatusFailed\<close> otherwise.
\<close>

lemma Ensure_service_runs:
  assumes "APT_Service p" and "check ex r w p = Inr (ok, None, w1)"
  shows "ensure_cmd p = ''sudo service '' @ Name p @ '' '' @ action_of (Status p) \<and>
         (\<exists>res err2 w2. RunCmd ex r w1 (ensure_cmd p) [] = Inr (res, err2, w2) \<and>
            Ensure ex r w p =
              Inr (if err2 = None \<and> Response_Success res then StatusEnforced else StatusFailed,
                   if err2 = None \<and> Response_Success res then None
                   else wrap (''could not '' @ action_of (Status p) @ '' package '' @ Name p) err2, w2))"
proof -
  from assms(2) obtain h' st sg so se where "conn r = ConnOpen" by (rule check_ok_query)
  then obtain res err2 w2 where run: "RunCmd ex r w1 (ensure_cmd p) [] = Inr (res, err2, w2)"
    using run_panics_iff [of ex r w1 "ensure_cmd p" "[]"] unfolding RunCmd_def
    by (cases "run ex r w1 (ensure_cmd p) []") auto
  from assms run show ?thesis
    by (auto simp: Ensure_check_ok ensure_cmd_def Let_def)
qed

text \<open>
  C6: an enforced outcome comes with a nil error and means that both commands
  ran, the query and then the corrective command, and nothing else.
\<close>

lemma Ensure_enforced_ran:
  assumes "Ensure ex r w p = Inr (StatusEnforced, err, w')"
  shows "err = None \<and> issued w' = issued w @ [check_cmd (Name p), ensure_cmd p]"
proof -
  from assms obtain ok w1 where chk: "check ex r w p = Inr (ok, None, w1)"
    by (rule Ensure_check_Inr) simp
  from Ensure_after_check [OF chk assms] obtain res where
    run: "run ex r w1 (ensure_cmd p) [] = Inr (res, None, w')" and "err = None"
    by (auto simp: RunCmd_def)
  moreover from run have "issued w' = issued w1 @ [ensure_cmd p]"
    by (cases rule: run_Inr_cases) simp_all
  ultimately show ?thesis using check_issued [OF chk] by simp
qed

text \<open>An error is only ever returned with \<open>StatusFailed\<close>.\<close>

lemma Ensure_error_means_failed:
  "Ensure ex r w p = Inr (s, Some e, w') \<Longrightarrow> s = StatusFailed"
  by (auto simp: Ensure_def pbind_eq_Inr_iff split: if_splits)

section \<open>Ensure on a finished query\<close>

lemma check_Finished:
  assumes "conn r = ConnOpen" and "ex (host w) (check_cmd (Name p)) [] = (h', Finished st sg so se)"
  shows "check ex r w p =
    (let w1 = w\<lparr>host := h', issued := issued w @ [check_cmd (Name p)]\<rparr> in
     if exit_code st sg = 0 \<and> Status p = StatusNotInstalled then Inr (False, None, w1)
     else if exit_code st sg \<noteq> 0 \<and> Status p = StatusInstalled then Inr (False, None, w1)
     else pbind (status_byte so) (\<lambda>status. Inr (status = Status p, None, w1)))"
proof -
  have "RunCmd ex r w (check_cmd (Name p)) [] =
          Inr (\<lparr>Stdout = so, Stderr = se, ExitStatus = exit_code st sg\<rparr>, None,
               w\<lparr>host := h', issued := issued w @ [check_cmd (Name p)]\<rparr>)"
    unfolding RunCmd_def using assms by (rule run_Finished)
  from check_query_ran [OF this] show ?thesis by (simp add: Let_def)
qed

lemma Ensure_act_Finished:
  assumes "conn r = ConnOpen" and "check ex r w p = Inr (ok, None, w1)"
    and "\<not> (ok \<and> \<not> APT_Service p)"
    and "ex (host w1) (ensure_cmd p) [] = (h', Finished st sg so se)"
  shows "Ensure ex r w p =
           Inr (if st = Some 0 then StatusEnforced else StatusFailed, None,
                w1\<lparr>host := h', issued := issued w1 @ [ensure_cmd p]\<rparr>)"
  using assms
  by (simp add: Ensure_check_ok RunCmd_def run_Finished Response_Success_def exit_code_zero_iff)

section \<open>Behaviours of the reconciler\<close>

text \<open>
  C4: when the corrective command runs to completion with a non-zero exit status,
  \<open>Ensure\<close> reports \<open>StatusFailed\<close> but returns a nil error:
  \<open>errors.Wrapf(err, ...)\<close> wraps the nil \<open>err\<close> of a command that ran.
\<close>

lemma Ensure_nonzero_exit_nil_error:
  assumes "conn r = ConnOpen" and "check ex r w p = Inr (ok, None, w1)"
    and "\<not> (ok \<and> \<not> APT_Service p)"
    and "ex (host w1) (ensure_cmd p) [] = (h', Finished st sg so se)" and "st \<noteq> Some 0"
  shows "Ensure ex r w p = Inr (StatusFailed, None, w1\<lparr>host := h', issued := issued w1 @ [ensure_cmd p]\<rparr>)"
  using Ensure_act_Finished [OF assms(1-4)] assms(5) by simp

text \<open>
  C5: the status parser panics (index out of range) when the query succeeds for a
  package that should be installed and the second tab-separated field of its output
  is shorter than two bytes; the panic propagates out of \<open>Ensure\<close>.
\<close>

lemma Ensure_panics_on_short_field:
  assumes "conn r = ConnOpen"
    and "ex (host w) (check_cmd (Name p)) [] = (h', Finished (Some 0) sg so se)"
    and "Status p = StatusInstalled"
    and "split_on TAB so = f0 # f1 # fs" and "length f1 < 2"
  shows "Ensure ex r w p = Inl ''index out of range''"
proof -
  have "status_byte so = Inl ''index out of range''"
    using assms(4,5) by (simp add: status_byte_def)
  then have "check ex r w p = Inl ''index out of range''"
    using assms(1-3) by (simp add: check_Finished exit_code_cases Let_def)
  then show ?thesis by (simp add: Ensure_def)
qed

text \<open>
  A package to be removed is found already absent only when the query
  \<^emph>\<open>failed\<close> and still printed a record whose status byte is \<open>'n'\<close>. A query
  that fails with no tab in its output (dpkg-query's behaviour for an unknown
  package) always leads to the purge command.
\<close>

lemma check_not_installed_true:
  assumes "Status p = StatusNotInstalled" and "check ex r w p = Inr (True, err, w1)"
  shows "\<exists>h' st sg so se. ex (host w) (check_cmd (Name p)) [] = (h', Finished st sg so se) \<and>
           st \<noteq> Some 0 \<and> TAB \<in> set so \<and> status_byte so = Inr StatusNotInstalled"
proof -
  have "err = None"
    using assms(2) by (auto simp: check_def pbind_eq_Inr_iff split: if_splits)
  with assms(2) have c2: "check ex r w p = Inr (True, None, w1)" by simp
  then obtain h' st sg so se where
    ex: "ex (host w) (check_cmd (Name p)) [] = (h', Finished st sg so se)"
    and chk: "check ex r w p = (if exit_code st sg = 0 \<and> Status p = StatusNotInstalled then Inr (False, None, w1)
        else if exit_code st sg \<noteq> 0 \<and> Status p = StatusInstalled then Inr (False, None, w1)
        else pbind (status_byte so) (\<lambda>status. Inr (status = Status p, None, w1)))"
    by (elim check_ok_query) blast
  from chk c2 assms(1) have st: "exit_code st sg \<noteq> 0"
    by (auto split: if_splits)
  with chk assms(1) have "check ex r w p = pbind (status_byte so) (\<lambda>status. Inr (status = Status p, None :: goerror, w1))"
    by simp
  from this [symmetric] c2
  have sb: "pbind (status_byte so) (\<lambda>status. Inr (status = Status p, None :: goerror, w1)) = Inr (True, None, w1)"
    by (rule trans)
  from sb assms(1) have sb': "status_byte so = Inr StatusNotInstalled"
    by (auto simp: pbind_eq_Inr_iff)
  moreover have "TAB \<in> set so"
  proof (rule ccontr)
    assume "TAB \<notin> set so"
    with sb' show False by (simp add: status_byte_no_tab go_consts)
  qed
  ultimately show ?thesis using ex st exit_code_zero_iff by blast
qed

text \<open>
  C7: for a package wanted installed whose query exits 0 with a record
  \<open>name\t<status>\t...\<close>, \<open>check\<close> finds it installed exactly when the second
  byte of the status field (\<open>stdOutarr[1][1]\<close>, the current state in dpkg's
  abbreviation) is \<^verbatim>\<open>i\<close>; the first byte, the wanted state, is not read.
\<close>

lemma check_reads_second_status_byte:
  assumes "conn r = ConnOpen" and "Status p = StatusInstalled"
    and "ex (host w) (check_cmd (Name p)) [] = (h', Finished (Some 0) [] (fname @ TAB # fstat @ TAB # rest) se)"
    and "TAB \<notin> set fname" and "TAB \<notin> set fstat" and "2 \<le> length fstat"
  shows "check ex r w p = Inr (fstat ! 1 = CHR ''i'', None, w\<lparr>host := h', issued := issued w @ [check_cmd (Name p)]\<rparr>)"
proof -
  have i: "(of_char (fstat ! 1) = Status p) = (fstat ! 1 = CHR ''i'')"
    by (simp only: assms(2) Status_consts_chars of_char_word8_eq_iff)
  have "check ex r w p = Inr (of_char (fstat ! 1) = Status p, None,
                              w\<lparr>host := h', issued := issued w @ [check_cmd (Name p)]\<rparr>)"
    using check_Finished [of r ex w p h' "Some 0" "[]" "fname @ TAB # fstat @ TAB # rest" se, OF assms(1,3)]
      status_byte_record [OF assms(4-6), of rest] assms(2)
    by (simp add: exit_code_zero_iff Let_def)
  then show ?thesis by (simp only: i)
qed

text \<open>
  C8: the scenario of the specification: the query exits non-zero and the package
  is wanted installed; \<open>Ensure\<close> runs \<open>apt install <name> -y\<close> and reports
  \<open>StatusEnforced\<close> when it exits 0 and \<open>StatusFailed\<close> otherwise.
\<close>

lemma Ensure_install_after_failed_query:
  assumes "conn r = ConnOpen" and "Status p = StatusInstalled"
    and "ex (host w) (check_cmd (Name p)) [] = (h1, Finished st sg so se)" and "st \<noteq> Some 0"
    and "ex h1 (''apt install '' @ Name p @ '' -y'') [] = (h2, Finished st2 sg2 so2 se2)"
  shows "Ensure ex r w p =
           Inr (if st2 = Some 0 then StatusEnforced else StatusFailed, None,
                w\<lparr>host := h2, issued := issued w @ [check_cmd (Name p), ''apt install '' @ Name p @ '' -y'']\<rparr>)"
proof -
  let ?w1 = "w\<lparr>host := h1, issued := issued w @ [check_cmd (Name p)]\<rparr>"
  have chk: "check ex r w p = Inr (False, None, ?w1)"
    using assms(1-4) by (simp add: check_Finished exit_code_zero_iff Let_def)
  have cmd: "ensure_cmd p = ''apt install '' @ Name p @ '' -y''"
    using assms(2) by (simp add: ensure_cmd_def Let_def)
  show ?thesis
    using Ensure_act_Finished [OF assms(1) chk] assms(5) assms(2) cmd by simp
qed

end
