(* ===== verification/Batch.thy ===== *)
theory Batch
  imports Reconciler
begin

text \<open>
  Batch Operations of \<^verbatim>\<open>src/target/target.go\<close>: \<open>Remove\<close> (275--295),
  \<open>Install\<close> (298--319), \<open>Run\<close> (322--342) and \<open>Restart\<close> (345--365). The four
  loops differ only in the desired status and the messages they print, so they are
  one loop \<open>batch\<close> over the operation; each operation is \<open>batch\<close> with its tag
  and the constant nil error the code returns. The printed lines are the entries of
  \<open>out\<close>. The lemmas give one step of the loop, that a batch leaves the file
  systems alone and that only a panic of \<open>Ensure\<close> stops it; what it prints and
  installs on a Debian host is shown in \<open>DebHost\<close> and the root theory.
\<close>

fun op_status :: "batch_op \<Rightarrow> Status" where
  "op_status OpRemove = StatusNotInstalled"
| "op_status OpInstall = StatusInstalled"
| "op_status OpRun = StatusStarted"
| "op_status OpRestart = StatusRestarted"

fun batch :: "batch_op \<Rightarrow> 'h executor \<Rightarrow> Remote \<Rightarrow> 'h World \<Rightarrow> Rule list \<Rightarrow> 'h World panicking" where
  "batch op ex r w [] = Inr w"
| "batch op ex r w (pkg # pkgs) =
     (let w1 = w\<lparr>out := out w @ [LogTrying op pkg]\<rparr>;
          p = \<lparr>Name = pkg, Status = op_status op, User = activeUser r\<rparr>
      in pbind (Ensure ex r w1 p) (\<lambda>(status, err, w2).
           if err \<noteq> None \<or> \<not> StatusCode_Success status
           then batch op ex r (w2\<lparr>out := out w2 @ [LogFailed op pkg err]\<rparr>) pkgs
           else batch op ex r (w2\<lparr>out := out w2 @ [LogDone op pkg]\<rparr>) pkgs))"

definition Remove :: "'h executor \<Rightarrow> Remote \<Rightarrow> 'h World \<Rightarrow> Rule list \<Rightarrow> (goerror \<times> 'h World) panicking" where
  "Remove ex r w pkgs = pbind (batch OpRemove ex r w pkgs) (\<lambda>w'. Inr (None, w'))"

definition Install :: "'h executor \<Rightarrow> Remote \<Rightarrow> 'h World \<Rightarrow> Rule list \<Rightarrow> (goerror \<times> 'h World) panicking" where
  "Install ex r w pkgs = pbind (batch OpInstall ex r w pkgs) (\<lambda>w'. Inr (None, w'))"

definition Run :: "'h executor \<Rightarrow> Remote \<Rightarrow> 'h World \<Rightarrow> Rule list \<Rightarrow> (goerror \<times> 'h World) panicking" where
  "Run ex r w pkgs = pbind (batch OpRun ex r w pkgs) (\<lambda>w'. Inr (None, w'))"

definition Restart :: "'h executor \<Rightarrow> Remote \<Rightarrow> 'h World \<Rightarrow> Rule list \<Rightarrow> (goerror \<times> 'h World) panicking" where
  "Restart ex r w pkgs = pbind (batch OpRestart ex r w pkgs) (\<lambda>w'. Inr (None, w'))"

definition batch_entry :: "batch_op \<Rightarrow> Rule \<Rightarrow> StatusCode \<times> goerror \<Rightarrow> log_entry" where
  "batch_entry op pkg res =
     (if snd res \<noteq> None \<or> \<not> StatusCode_Success (fst res) then LogFailed op pkg (snd res)
      else LogDone op pkg)"

lemmas batch_ops_defs = Remove_def Install_def Run_def Restart_def

section \<open>One step of the loop\<close>

lemma batch_Cons_Inr:
  assumes "batch op ex r w (pkg # pkgs) = Inr w'"
  obtains s err w2 where
    "Ensure ex r (w\<lparr>out := out w @ [LogTrying op pkg]\<rparr>) \<lparr>Name = pkg, Status = op_status op, User = activeUser r\<rparr>
       = Inr (s, err, w2)"
    "batch op ex r (w2\<lparr>out := out w2 @ [batch_entry op pkg (s, err)]\<rparr>) pkgs = Inr w'"
  using assms by (auto simp: Let_def batch_entry_def pbind_eq_Inr_iff split: if_splits)

lemma batch_Cons_step:
  "Ensure ex r (w\<lparr>out := out w @ [LogTrying op pkg]\<rparr>) \<lparr>Name = pkg, Status = op_status op, User = activeUser r\<rparr>
     = Inr (s, err, w2) \<Longrightarrow>
   batch op ex r w (pkg # pkgs) = batch op ex r (w2\<lparr>out := out w2 @ [batch_entry op pkg (s, err)]\<rparr>) pkgs"
  by (simp add: Let_def batch_entry_def)

section \<open>What a batch leaves alone, and how it stops\<close>

text \<open>Only the file systems of the world outside the machine are untouched by a batch.\<close>

lemma batch_frame:
  "batch op ex r w pkgs = Inr w' \<Longrightarrow> rfs w' = rfs w \<and> lfs w' = lfs w \<and> denied w' = denied w"
proof (induction pkgs arbitrary: w)
  case Nil
  then show ?case by simp
next
  case (Cons pkg pkgs)
  from Cons.prems obtain s err w2 where
    ens: "Ensure ex r (w\<lparr>out := out w @ [LogTrying op pkg]\<rparr>) \<lparr>Name = pkg, Status = op_status op, User = activeUser r\<rparr>
       = Inr (s, err, w2)"
    and rest: "batch op ex r (w2\<lparr>out := out w2 @ [batch_entry op pkg (s, err)]\<rparr>) pkgs = Inr w'"
    by (rule batch_Cons_Inr)
  from Ensure_frame [OF ens] Cons.IH [OF rest] show ?case by simp
qed

text \<open>A batch stops early only by a panic of \<open>Ensure\<close>.\<close>

lemma batch_Inl:
  "batch op ex r w pkgs = Inl p \<Longrightarrow>
     \<exists>pre pkg post w1. pkgs = pre @ pkg # post \<and>
       Ensure ex r w1 \<lparr>Name = pkg, Status = op_status op, User = activeUser r\<rparr> = Inl p"
proof (induction pkgs arbitrary: w)
  case Nil
  then show ?case by simp
next
  case (Cons pkg pkgs)
  show ?case
  proof (cases "Ensure ex r (w\<lparr>out := out w @ [LogTrying op pkg]\<rparr>) \<lparr>Name = pkg, Status = op_status op, User = activeUser r\<rparr>")
    case (Inl q)
    with Cons.prems have "q = p" by (simp add: Let_def)
    moreover have "pkg # pkgs = [] @ pkg # pkgs" by simp
    ultimately show ?thesis using Inl by blast
  next
    case (Inr res)
    obtain s err w2 where res: "res = (s, err, w2)" by (cases res) blast
    with Inr Cons.prems have "batch op ex r (w2\<lparr>out := out w2 @ [batch_entry op pkg (s, err)]\<rparr>) pkgs = Inl p"
      by (auto simp: Let_def batch_entry_def split: if_splits)
    from Cons.IH [OF this] obtain pre pkg' post w1 where
      "pkgs = pre @ pkg' # post"
      "Ensure ex r w1 \<lparr>Name = pkg', Status = op_status op, User = activeUser r\<rparr> = Inl p"
      by blast
    moreover from this(1) have "pkg # pkgs = (pkg # pre) @ pkg' # post" by simp
    ultimately show ?thesis by blast
  qed
qed

end
