(* ===== verification/Distributor.thy ===== *)
theory Distributor
  imports Runner "HOL-Library.Multiset"
begin

text \<open>
  The File Distributor: \<open>Remote.Push\<close> (\<^verbatim>\<open>src/target/target.go\<close> lines 114--201).
  \<open>Push\<close> takes the acting user's SFTP client, launches one task per file in an
  \<open>errgroup\<close>, waits for all of them, and closes the client on return
  (\<open>defer sftp.Close()\<close>). A task opens the local file, creates the remote one,
  copies, compares the byte count with the local size, applies the mode, resolves
  the owner and the group with \<^verbatim>\<open>id -u\<close> and \<^verbatim>\<open>id -g\<close> through \<open>run\<close>, and
  applies the ownership.

  Tasks are atomic here and run in the order in which they complete, a
  \<^emph>\<open>schedule\<close>: a permutation of the file indices. \<open>errgroup.Wait\<close> returns the
  error of the first task that fails in that order. The SFTP operations act on the
  \<open>rfs\<close> field of the world as \<^verbatim>\<open>github.com/pkg/sftp\<close> and an OpenSSH server do.
\<close>

unbundle bit_operations_syntax

section \<open>The SFTP client and server\<close>

text \<open>
  \<open>toChmodPerm\<close> of \<^verbatim>\<open>pkg/sftp\<close>: the permission, setuid, setgid and sticky bits
  (mask \<open>0o7777\<close>), plus the POSIX bits for Go's \<open>ModeSetuid\<close> (bit 23),
  \<open>ModeSetgid\<close> (22) and \<open>ModeSticky\<close> (20).
\<close>

definition to_chmod_perm :: "32 word \<Rightarrow> 32 word" where
  "to_chmod_perm m =
     (m AND 0xFFF) OR (if bit m 23 then 0x800 else 0) OR (if bit m 22 then 0x400 else 0)
       OR (if bit m 20 then 0x200 else 0)"

text \<open>
  \<open>Client.Create\<close>: fails on a closed client (\<open>connection lost\<close>) and where the
  server refuses to create the file; truncates an existing file, and gives a new
  one the default mode \<open>0o644\<close> and the ids the session logged in with.
\<close>

definition sftp_create :: "bool \<Rightarrow> 'h World \<Rightarrow> string \<Rightarrow> gerr + 'h World" where
  "sftp_create open w p =
     (if \<not> open then Inl (Msg ''connection lost'')
      else if p \<in> set (denied w) then Inl (Msg ''permission denied'')
      else Inr (w\<lparr>rfs := (rfs w)(p \<mapsto>
             (case rfs w p of
                Some f \<Rightarrow> f\<lparr>rdata := []\<rparr>
              | None \<Rightarrow> \<lparr>rdata = [], rmode = 0x1A4, ruid = fst (login_ids w),
                         rgid = snd (login_ids w)\<rparr>))\<rparr>))"

text \<open>\<open>io.Copy\<close> into the created file: its contents become the source's bytes.\<close>

definition sftp_write :: "string \<Rightarrow> string \<Rightarrow> 'h World \<Rightarrow> 'h World" where
  "sftp_write p d w = w\<lparr>rfs := (rfs w)(p := map_option (\<lambda>f. f\<lparr>rdata := d\<rparr>) (rfs w p))\<rparr>"

definition sftp_chmod :: "bool \<Rightarrow> 'h World \<Rightarrow> string \<Rightarrow> 32 word \<Rightarrow> gerr + 'h World" where
  "sftp_chmod open w p m =
     (if \<not> open then Inl (Msg ''connection lost'')
      else case rfs w p of
             None \<Rightarrow> Inl (Msg ''file does not exist'')
           | Some f \<Rightarrow> Inr (w\<lparr>rfs := (rfs w)(p \<mapsto> f\<lparr>rmode := to_chmod_perm m\<rparr>)\<rparr>))"

text \<open>
  \<open>Client.Chown\<close> sends \<open>uint32(uid)\<close> and \<open>uint32(gid)\<close>; the server calls
  \<open>chown(2)\<close>, where \<open>-1\<close> keeps the current id, and only root may give a file
  to other ids than its own.
\<close>

definition sftp_chown :: "bool \<Rightarrow> 'h World \<Rightarrow> string \<Rightarrow> int \<Rightarrow> int \<Rightarrow> gerr + 'h World" where
  "sftp_chown open w p uid gid =
     (if \<not> open then Inl (Msg ''connection lost'')
      else case rfs w p of
             None \<Rightarrow> Inl (Msg ''file does not exist'')
           | Some f \<Rightarrow>
               (let u = (if go_uint32 uid = - 1 then ruid f else go_uint32 uid);
                    g = (if go_uint32 gid = - 1 then rgid f else go_uint32 gid)
                in if fst (login_ids w) = 0 \<or> (u = fst (login_ids w) \<and> g = snd (login_ids w))
                   then Inr (w\<lparr>rfs := (rfs w)(p \<mapsto> f\<lparr>ruid := u, rgid := g\<rparr>)\<rparr>)
                   else Inl (Msg ''permission denied'')))"

section \<open>One task\<close>

text \<open>
  Lines 171--172 (and 183--184): the output of \<^verbatim>\<open>id\<close> without its newlines,
  trimmed and parsed as a decimal \<open>int\<close>.
\<close>

definition parse_id :: "string \<Rightarrow> int option" where
  "parse_id s = go_atoi (trim_space (remove_newlines s))"

text \<open>
  Lines 164--175 (and 177--187): run \<open>id -u owner\<close> with an empty stdin; a
  failed or unsuccessful run is an error carrying the command's stderr, an
  unparsable output is an \<open>Atoi\<close> error. The result is the id or the error.
\<close>

definition resolve_id ::
  "'h executor \<Rightarrow> Remote \<Rightarrow> 'h World \<Rightarrow> string \<Rightarrow> string \<Rightarrow> string \<Rightarrow> string \<Rightarrow>
     ((gerr + int) \<times> 'h World) panicking" where
  "resolve_id ex r w cmd name run_msg parse_msg =
     pbind (run ex r w (cmd @ name) []) (\<lambda>(res, err, w').
       if err \<noteq> None \<or> \<not> Response_Success res
       then Inr (Inl (Wrap run_msg (Msg (Stderr res))), w')
       else (let s = trim_space (remove_newlines (Stdout res))
             in case parse_id (Stdout res) of
                  None \<Rightarrow> Inr (Inl (Wrap parse_msg (Msg (go_atoi_error s))), w')
                | Some v \<Rightarrow> Inr (Inr v, w')))"

text \<open>
  Lines 164--195 of the closure: resolve the owner's uid and the group's gid, give
  the file to them, and report the push.
\<close>

definition push_owner :: "'h executor \<Rightarrow> Remote \<Rightarrow> bool \<Rightarrow> 'h World \<Rightarrow> File \<Rightarrow> (goerror \<times> 'h World) panicking" where
  "push_owner ex r cl w f =
     pbind (resolve_id ex r w ''id -u '' (Owner f) ''owner error'' ''uid error'') (\<lambda>(u, w4).
       case u of
         Inl e \<Rightarrow> Inr (Some e, w4)
       | Inr uid \<Rightarrow>
           pbind (resolve_id ex r w4 ''id -g '' (Group f) ''group error'' ''gid error'') (\<lambda>(g, w5).
             case g of
               Inl e \<Rightarrow> Inr (Some e, w5)
             | Inr gid \<Rightarrow>
                 (case sftp_chown cl w5 (RemotePath f) uid gid of
                    Inl e \<Rightarrow> Inr (Some (Wrap ''chown error'' e), w5)
                  | Inr w6 \<Rightarrow> Inr (None, w6\<lparr>out := out w6 @ [LogPushed (RemotePath f)]\<rparr>))))"

text \<open>
  The closure of lines 130--196 for one file (up to line 162), with the client \<open>c\<close> of \<open>Push\<close>.
  The local file cannot change during the task, so \<open>os.Stat\<close> succeeds and its
  size is the one recorded in \<open>lfs\<close>.
\<close>

definition push_file :: "'h executor \<Rightarrow> Remote \<Rightarrow> nat \<Rightarrow> 'h World \<Rightarrow> File \<Rightarrow> (goerror \<times> 'h World) panicking" where
  "push_file ex r c w f =
     (let lp = LocalPath f; rp = RemotePath f; cl = clients r ! c in
      case lfs w lp of
        None \<Rightarrow>
          Inr (Some (Wrap (''unable to open file '' @ lp) (Msg (''open '' @ lp @ '': no such file or directory''))), w)
      | Some src \<Rightarrow>
          (case sftp_create cl w rp of
             Inl e \<Rightarrow> Inr (Some (Wrap (''unable to create file '' @ rp) e), w)
           | Inr w1 \<Rightarrow>
               (let w2 = sftp_write rp (ldata src) (w1\<lparr>out := out w1 @ [LogPushing rp]\<rparr>);
                    n = int (length (ldata src))
                in if n \<noteq> lsize src
                   then Inr (Some (Msg (''wrote '' @ go_itoa n @ '' of '' @ go_itoa (lsize src) @ '' bytes to file'')), w2)
                   else
                     (case sftp_chmod cl w2 rp (go_filemode (Mode f)) of
                        Inl e \<Rightarrow> Inr (Some (Wrap ''chmod error'' e), w2)
                      | Inr w3 \<Rightarrow> push_owner ex r cl w3 f))))"

section \<open>Push\<close>

text \<open>
  The tasks in completion order; the group's error is the first one returned
  (\<open>errOnce\<close>), and every task runs whatever the others return. A panic in a task
  ends the program.
\<close>

fun push_all :: "'h executor \<Rightarrow> Remote \<Rightarrow> nat \<Rightarrow> 'h World \<Rightarrow> goerror \<Rightarrow> File list \<Rightarrow> (goerror \<times> 'h World) panicking" where
  "push_all ex r c w e [] = Inr (e, w)"
| "push_all ex r c w e (f # fs) =
     pbind (push_file ex r c w f) (\<lambda>(e1, w1). push_all ex r c w1 (if e = None then e1 else e) fs)"

text \<open>A schedule of \<open>n\<close> tasks: each index below \<open>n\<close> exactly once.\<close>

definition is_schedule :: "nat \<Rightarrow> nat list \<Rightarrow> bool" where
  "is_schedule n sched \<longleftrightarrow> mset sched = mset [0..<n]"

definition Push :: "'h executor \<Rightarrow> Remote \<Rightarrow> 'h World \<Rightarrow> File list \<Rightarrow> nat list \<Rightarrow> (goerror \<times> Remote \<times> 'h World) panicking" where
  "Push ex r w files sched =
     pbind (sftpClient r) (\<lambda>(c, err, r1).
       if err \<noteq> None then Inr (wrap ''could not get sftp client'' err, r1, w)
       else case c of
              None \<Rightarrow> Inr (wrap ''sftp client is not ready or not found'' err, r1, w)
            | Some h \<Rightarrow>
                pbind (push_all ex r1 h w None (map (\<lambda>i. files ! i) sched)) (\<lambda>(e, w').
                  Inr (e, r1\<lparr>clients := (clients r1)[h := False]\<rparr>, w')))"

section \<open>What a task reads\<close>

text \<open>
  An executor answers \<^verbatim>\<open>id\<close> without changing the machine.
\<close>

definition pure_ids :: "'h executor \<Rightarrow> bool" where
  "pure_ids ex \<longleftrightarrow> (\<forall>h n s. fst (ex h (''id -u '' @ n) s) = h \<and> fst (ex h (''id -g '' @ n) s) = h)"

text \<open>
  Two worlds a task on remote path \<open>p\<close> cannot tell apart: the task reads the
  machine, the local files, the refused paths, the login ids and its own path.
\<close>

definition agree_at :: "string \<Rightarrow> 'h World \<Rightarrow> 'h World \<Rightarrow> bool" where
  "agree_at p w1 w2 \<longleftrightarrow>
     host w1 = host w2 \<and> lfs w1 = lfs w2 \<and> denied w1 = denied w2 \<and>
     login_ids w1 = login_ids w2 \<and> rfs w1 p = rfs w2 p"

text \<open>The error a task returns, and the file it leaves, when it runs on \<open>w\<close>.\<close>

definition task_err :: "'h executor \<Rightarrow> Remote \<Rightarrow> nat \<Rightarrow> 'h World \<Rightarrow> File \<Rightarrow> goerror" where
  "task_err ex r c w f = (case push_file ex r c w f of Inr (e, _) \<Rightarrow> e | Inl _ \<Rightarrow> None)"

definition task_rfs :: "'h executor \<Rightarrow> Remote \<Rightarrow> nat \<Rightarrow> 'h World \<Rightarrow> File \<Rightarrow> RFile option" where
  "task_rfs ex r c w f = (case push_file ex r c w f of Inr (_, w') \<Rightarrow> rfs w' (RemotePath f) | Inl _ \<Rightarrow> None)"

text \<open>The first non-nil error of a sequence, as \<open>errOnce\<close> keeps it.\<close>

fun first_err :: "goerror list \<Rightarrow> goerror" where
  "first_err [] = None"
| "first_err (e # es) = (if e = None then first_err es else e)"

section \<open>The SFTP operations\<close>

lemma agree_at_refl [simp]: "agree_at p w w"
  by (simp add: agree_at_def)

lemma agree_at_out [simp]:
  "agree_at p (w1\<lparr>out := o1\<rparr>) w2 \<longleftrightarrow> agree_at p w1 w2"
  "agree_at p w1 (w2\<lparr>out := o2\<rparr>) \<longleftrightarrow> agree_at p w1 w2"
  by (simp_all add: agree_at_def)

lemma sftp_create_agree:
  "agree_at p w1 w2 \<Longrightarrow> rel_sum (=) (agree_at p) (sftp_create cl w1 p) (sftp_create cl w2 p)"
  unfolding agree_at_def sftp_create_def by (cases "rfs w2 p") auto

lemma sftp_write_agree:
  "agree_at p w1 w2 \<Longrightarrow> agree_at p (sftp_write p d w1) (sftp_write p d w2)"
  by (simp add: sftp_write_def agree_at_def)

lemma sftp_chmod_agree:
  "agree_at p w1 w2 \<Longrightarrow> rel_sum (=) (agree_at p) (sftp_chmod cl w1 p m) (sftp_chmod cl w2 p m)"
  by (auto simp: sftp_chmod_def agree_at_def split: option.split)

lemma sftp_chown_agree:
  "agree_at p w1 w2 \<Longrightarrow> rel_sum (=) (agree_at p) (sftp_chown cl w1 p u g) (sftp_chown cl w2 p u g)"
  by (auto simp: sftp_chown_def agree_at_def Let_def split: option.split)

text \<open>Each operation changes the remote file system at its own path only.\<close>

lemma sftp_create_Inr:
  "sftp_create cl w p = Inr w' \<Longrightarrow> \<exists>x. w' = w\<lparr>rfs := (rfs w)(p \<mapsto> x)\<rparr>"
  by (auto simp: sftp_create_def split: if_splits)

lemma sftp_chmod_Inr:
  "sftp_chmod cl w p m = Inr w' \<Longrightarrow> \<exists>x. w' = w\<lparr>rfs := (rfs w)(p \<mapsto> x)\<rparr>"
  by (auto simp: sftp_chmod_def split: if_splits option.splits)

lemma sftp_chown_Inr:
  "sftp_chown cl w p u g = Inr w' \<Longrightarrow> \<exists>x. w' = w\<lparr>rfs := (rfs w)(p \<mapsto> x)\<rparr>"
  by (auto simp: sftp_chown_def Let_def split: if_splits option.splits)


section \<open>Tasks depend only on what they read\<close>

lemma run_agree:
  assumes "agree_at p w1 w2"
  shows "rel_sum (=) (\<lambda>(a1, e1, v1) (a2, e2, v2). a1 = a2 \<and> e1 = e2 \<and> agree_at p v1 v2)
           (run ex r w1 cmd s) (run ex r w2 cmd s)"
proof -
  from assms have h: "host w2 = host w1" by (simp add: agree_at_def)
  obtain h' rep where ex: "ex (host w1) cmd s = (h', rep)" by fastforce
  show ?thesis
    using assms ex h
    by (cases rep) (auto simp: run_def agree_at_def Let_def split: conn_state.split wait_result.split)
qed

lemma resolve_id_agree:
  assumes "agree_at p w1 w2"
  shows "rel_sum (=) (\<lambda>(a1, v1) (a2, v2). a1 = a2 \<and> agree_at p v1 v2)
           (resolve_id ex r w1 cmd n m1 m2) (resolve_id ex r w2 cmd n m1 m2)"
  unfolding resolve_id_def
  by (rule pbind_rel_sum [OF run_agree [OF assms]])
     (auto simp: Let_def split: option.split)

lemma owner_tail_agree:
  assumes "agree_at p z1 z2"
  shows "rel_sum (=) (\<lambda>(e1, v1) (e2, v2). e1 = e2 \<and> agree_at p v1 v2)
           (case g of
              Inl e \<Rightarrow> Inr (Some e, z1)
            | Inr gid \<Rightarrow>
                (case sftp_chown cl z1 p uid gid of
                   Inl e \<Rightarrow> Inr (Some (Wrap ''chown error'' e), z1)
                 | Inr w6 \<Rightarrow> Inr (None, w6\<lparr>out := out w6 @ [LogPushed p]\<rparr>)))
           (case g of
              Inl e \<Rightarrow> Inr (Some e, z2)
            | Inr gid \<Rightarrow>
                (case sftp_chown cl z2 p uid gid of
                   Inl e \<Rightarrow> Inr (Some (Wrap ''chown error'' e), z2)
                 | Inr w6 \<Rightarrow> Inr (None, w6\<lparr>out := out w6 @ [LogPushed p]\<rparr>)))"
proof (cases g)
  case (Inr gid)
  from sftp_chown_agree [OF assms, of cl uid gid] show ?thesis
    by (cases rule: rel_sum_eq_cases) (simp_all add: Inr assms)
qed (simp add: assms)

lemma push_owner_agree:
  assumes "agree_at (RemotePath f) w1 w2"
  shows "rel_sum (=) (\<lambda>(e1, v1) (e2, v2). e1 = e2 \<and> agree_at (RemotePath f) v1 v2)
           (push_owner ex r cl w1 f) (push_owner ex r cl w2 f)"
  unfolding push_owner_def
  apply (rule pbind_rel_sum [OF resolve_id_agree [OF assms]])
  apply clarify
  subgoal for u0 v1 u v2
    by (cases u) (auto intro!: pbind_rel_sum [OF resolve_id_agree] owner_tail_agree)
  done

lemma push_file_agree:
  assumes "agree_at (RemotePath f) w1 w2"
  shows "rel_sum (=) (\<lambda>(e1, v1) (e2, v2). e1 = e2 \<and> agree_at (RemotePath f) v1 v2)
           (push_file ex r c w1 f) (push_file ex r c w2 f)"
proof -
  let ?p = "RemotePath f" and ?cl = "clients r ! c"
  from assms have l: "lfs w2 = lfs w1" by (simp add: agree_at_def)
  show ?thesis
  proof (cases "lfs w1 (LocalPath f)")
    case None
    with assms l show ?thesis by (simp add: push_file_def Let_def)
  next
    case (Some src)
    from sftp_create_agree [OF assms, of ?cl] show ?thesis
    proof (cases rule: rel_sum_eq_cases)
      case (Inl e)
      with assms Some l show ?thesis by (simp add: push_file_def Let_def)
    next
      case (Inr v1 v2)
      let ?u1 = "sftp_write ?p (ldata src) (v1\<lparr>out := out v1 @ [LogPushing ?p]\<rparr>)"
      let ?u2 = "sftp_write ?p (ldata src) (v2\<lparr>out := out v2 @ [LogPushing ?p]\<rparr>)"
      from Inr(3) have u: "agree_at ?p ?u1 ?u2" by (intro sftp_write_agree) simp
      note created = Inr
      from sftp_chmod_agree [OF u, of ?cl "go_filemode (Mode f)"]
      show ?thesis
      proof (cases rule: rel_sum_eq_cases)
        case (Inl e)
        with Some l created(1,2) u show ?thesis by (simp add: push_file_def Let_def)
      next
        case (Inr x y)
        with Some l created(1,2) u push_owner_agree [OF Inr(3), of ex r ?cl]
        show ?thesis by (simp add: push_file_def Let_def)
      qed
    qed
  qed
qed

lemma run_host:
  "run ex r w cmd s = Inr (res, e, w') \<Longrightarrow> host w' = host w \<or> host w' = fst (ex (host w) cmd s)"
  by (auto simp: run_def Let_def split: conn_state.splits prod.splits ssh_reply.splits wait_result.splits)

lemma resolve_id_frame:
  assumes "resolve_id ex r w cmd n m1 m2 = Inr (v, w')"
  shows "rfs w' = rfs w \<and> lfs w' = lfs w \<and> out w' = out w \<and> denied w' = denied w \<and>
         login_ids w' = login_ids w \<and> (host w' = host w \<or> host w' = fst (ex (host w) (cmd @ n) []))"
proof -
  from assms obtain res e where "run ex r w (cmd @ n) [] = Inr (res, e, w')"
    by (auto simp: resolve_id_def pbind_eq_Inr_iff Let_def split: if_splits option.splits)
  from run_frame [OF this] run_host [OF this] show ?thesis by simp
qed

lemma resolve_id_no_panic:
  "conn r \<noteq> ConnNil \<Longrightarrow> \<exists>v. resolve_id ex r w cmd n m1 m2 = Inr v"
  using run_panics_iff [of ex r w "cmd @ n" "[]"]
  by (cases "run ex r w (cmd @ n) []") (auto simp: resolve_id_def Let_def split: option.split)

lemma push_owner_Inr:
  assumes "push_owner ex r cl w f = Inr (e, w')"
  obtains (owner_failed) u w4 where
      "resolve_id ex r w ''id -u '' (Owner f) ''owner error'' ''uid error'' = Inr (u, w4)" "w' = w4"
      "e \<noteq> None"
  | (group_failed) u w4 g where
      "resolve_id ex r w ''id -u '' (Owner f) ''owner error'' ''uid error'' = Inr (u, w4)"
      "resolve_id ex r w4 ''id -g '' (Group f) ''group error'' ''gid error'' = Inr (g, w')"
      "e \<noteq> None"
  | (chowned) u w4 g w5 uid gid w6 where
      "resolve_id ex r w ''id -u '' (Owner f) ''owner error'' ''uid error'' = Inr (u, w4)"
      "resolve_id ex r w4 ''id -g '' (Group f) ''group error'' ''gid error'' = Inr (g, w5)"
      "sftp_chown cl w5 (RemotePath f) uid gid = Inr w6"
      "w' = w6\<lparr>out := out w6 @ [LogPushed (RemotePath f)]\<rparr>" "e = None"
proof -
  from assms obtain u w4 where 1: "resolve_id ex r w ''id -u '' (Owner f) ''owner error'' ''uid error'' = Inr (u, w4)"
    by (cases "resolve_id ex r w ''id -u '' (Owner f) ''owner error'' ''uid error''")
       (auto simp: push_owner_def)
  from assms 1 have 2: "(case u of Inl e \<Rightarrow> Inr (Some e, w4) | Inr uid \<Rightarrow> pbind (resolve_id ex r w4 ''id -g '' (Group f) ''group error'' ''gid error'') (\<lambda>(g, w5).
           case g of Inl e \<Rightarrow> Inr (Some e, w5)
           | Inr gid \<Rightarrow> (case sftp_chown cl w5 (RemotePath f) uid gid of
                Inl e \<Rightarrow> Inr (Some (Wrap ''chown error'' e), w5)
              | Inr w6 \<Rightarrow> Inr (None, w6\<lparr>out := out w6 @ [LogPushed (RemotePath f)]\<rparr>)))) = Inr (e, w')"
    by (simp add: push_owner_def)
  show ?thesis
  proof (cases u)
    case Inl
    with 1 2 show ?thesis by (auto intro: owner_failed)
  next
    case (Inr uid)
    note u = this
    with 2 obtain g w5 where 3: "resolve_id ex r w4 ''id -g '' (Group f) ''group error'' ''gid error'' = Inr (g, w5)"
      by (cases "resolve_id ex r w4 ''id -g '' (Group f) ''group error'' ''gid error''") auto
    show ?thesis
    proof (cases g)
      case Inl
      with 2 3 u have "w' = w5 \<and> e \<noteq> None" by auto
      with 1 3 show ?thesis by (auto intro: group_failed)
    next
      case (Inr gid)
      note g = this
      show ?thesis
      proof (cases "sftp_chown cl w5 (RemotePath f) uid gid")
        case Inl
        with 2 3 u g have "w' = w5 \<and> e \<noteq> None" by auto
        with 1 3 show ?thesis by (auto intro: group_failed)
      next
        case (Inr w6)
        with 2 3 u g have "w' = w6\<lparr>out := out w6 @ [LogPushed (RemotePath f)]\<rparr>" "e = None" by simp_all
        with 1 3 Inr show ?thesis by (rule chowned)
      qed
    qed
  qed
qed

lemma push_owner_frame:
  assumes "push_owner ex r cl w f = Inr (e, w')"
  shows "lfs w' = lfs w \<and> denied w' = denied w \<and> login_ids w' = login_ids w \<and>
         (\<forall>q. q \<noteq> RemotePath f \<longrightarrow> rfs w' q = rfs w q) \<and> (pure_ids ex \<longrightarrow> host w' = host w)"
  using assms
proof (cases rule: push_owner_Inr)
  case (owner_failed u w4)
  then show ?thesis using resolve_id_frame [OF owner_failed(1)] by (auto simp: pure_ids_def)
next
  case (group_failed u w4 g)
  then show ?thesis
    using resolve_id_frame [OF group_failed(1)] resolve_id_frame [OF group_failed(2)]
    by (auto simp: pure_ids_def)
next
  case (chowned u w4 g w5 uid gid w6)
  then show ?thesis
    using resolve_id_frame [OF chowned(1)] resolve_id_frame [OF chowned(2)] sftp_chown_Inr [OF chowned(3)]
    by (auto simp: pure_ids_def)
qed

lemma push_file_Inr:
  assumes "push_file ex r c w f = Inr (e, w')"
  obtains (unopened) "w' = w" "e \<noteq> None"
  | (created) src w1 w3 where "lfs w (LocalPath f) = Some src"
      "sftp_create (clients r ! c) w (RemotePath f) = Inr w1"
      "w3 = sftp_write (RemotePath f) (ldata src) (w1\<lparr>out := out w1 @ [LogPushing (RemotePath f)]\<rparr>)"
      "(w' = w3 \<and> e \<noteq> None) \<or> (\<exists>w4. sftp_chmod (clients r ! c) w3 (RemotePath f) (go_filemode (Mode f)) = Inr w4 \<and>
                      push_owner ex r (clients r ! c) w4 f = Inr (e, w'))"
  using assms
  by (auto simp: push_file_def Let_def split: option.splits sum.splits if_splits)

lemma push_file_frame:
  assumes "push_file ex r c w f = Inr (e, w')"
  shows "lfs w' = lfs w \<and> denied w' = denied w \<and> login_ids w' = login_ids w \<and>
         (\<forall>q. q \<noteq> RemotePath f \<longrightarrow> rfs w' q = rfs w q) \<and> (pure_ids ex \<longrightarrow> host w' = host w)"
  using assms
proof (cases rule: push_file_Inr)
  case (created src w1 w3)
  from sftp_create_Inr [OF created(2)] obtain x where w1: "w1 = w\<lparr>rfs := (rfs w)(RemotePath f \<mapsto> x)\<rparr>" ..
  have f3: "lfs w3 = lfs w \<and> denied w3 = denied w \<and> login_ids w3 = login_ids w \<and> host w3 = host w \<and>
            (\<forall>q. q \<noteq> RemotePath f \<longrightarrow> rfs w3 q = rfs w q)"
    using created(3) w1 by (simp add: sftp_write_def)
  from created(4) show ?thesis
  proof
    assume "w' = w3 \<and> e \<noteq> None"
    with f3 show ?thesis by simp
  next
    assume "\<exists>w4. sftp_chmod (clients r ! c) w3 (RemotePath f) (go_filemode (Mode f)) = Inr w4 \<and>
                      push_owner ex r (clients r ! c) w4 f = Inr (e, w')"
    then obtain w4 where m: "sftp_chmod (clients r ! c) w3 (RemotePath f) (go_filemode (Mode f)) = Inr w4"
      and o: "push_owner ex r (clients r ! c) w4 f = Inr (e, w')" by blast
    from sftp_chmod_Inr [OF m] f3 push_owner_frame [OF o] show ?thesis by auto
  qed
qed simp

lemma push_owner_no_panic:
  assumes "conn r \<noteq> ConnNil"
  shows "\<exists>v. push_owner ex r cl w f = Inr v"
proof -
  obtain u w4 where 1: "resolve_id ex r w ''id -u '' (Owner f) ''owner error'' ''uid error'' = Inr (u, w4)"
    using resolve_id_no_panic [OF assms] by fastforce
  show ?thesis
  proof (cases u)
    case (Inr uid)
    obtain g w5 where 2: "resolve_id ex r w4 ''id -g '' (Group f) ''group error'' ''gid error'' = Inr (g, w5)"
      using resolve_id_no_panic [OF assms] by fastforce
    with 1 Inr show ?thesis by (simp add: push_owner_def split: sum.split)
  qed (use 1 in \<open>simp add: push_owner_def\<close>)
qed

lemma push_file_no_panic:
  "conn r \<noteq> ConnNil \<Longrightarrow> \<exists>v. push_file ex r c w f = Inr v"
  using push_owner_no_panic [of r ex]
  by (auto simp: push_file_def Let_def split: option.split sum.split)

lemma to_chmod_perm_small:
  assumes "0 \<le> m" and "m < 4096"
  shows "to_chmod_perm (go_filemode m) = word_of_int m"
proof -
  from assms have "take_bit 12 m = m" by (simp add: take_bit_int_eq_self)
  then have low: "(word_of_int m :: 32 word) AND 0xFFF = word_of_int m"
    unfolding mask_0xFFF take_bit_eq_mask [symmetric] by (metis of_int_take_bit)
  have "\<not> bit (word_of_int m :: 32 word) n" if "12 \<le> n" for n
    using small_int_bits [OF assms that] by (simp add: bit_word_of_int_iff)
  then show ?thesis
    by (simp add: to_chmod_perm_def go_filemode_eq go_uint32_def low)
qed

lemma task_agree:
  assumes "agree_at (RemotePath f) w1 w2"
  shows "task_err ex r c w1 f = task_err ex r c w2 f \<and> task_rfs ex r c w1 f = task_rfs ex r c w2 f"
  using push_file_agree [OF assms, of ex r c]
  by (cases rule: rel_sum_eq_cases) (auto simp: task_err_def task_rfs_def agree_at_def)

lemma push_file_agree_other:
  assumes "push_file ex r c w g = Inr (e, w')" and "pure_ids ex" and "RemotePath f \<noteq> RemotePath g"
  shows "agree_at (RemotePath f) w w'"
  using push_file_frame [OF assms(1)] assms(2,3) by (simp add: agree_at_def)

lemma push_all_outcome:
  assumes "pure_ids ex" and "conn r \<noteq> ConnNil" and "distinct (map RemotePath fs)"
  shows "\<exists>w'. push_all ex r c w e fs = Inr (first_err (e # map (task_err ex r c w) fs), w') \<and>
           (\<forall>f \<in> set fs. rfs w' (RemotePath f) = task_rfs ex r c w f) \<and>
           (\<forall>q. q \<notin> RemotePath ` set fs \<longrightarrow> rfs w' q = rfs w q) \<and>
           lfs w' = lfs w \<and> denied w' = denied w \<and> login_ids w' = login_ids w \<and> host w' = host w"
  using assms(3)
proof (induction fs arbitrary: w e)
  case Nil
  then show ?case by simp
next
  case (Cons g gs)
  obtain e1 w1 where pf: "push_file ex r c w g = Inr (e1, w1)"
    using push_file_no_panic [OF assms(2)] by fastforce
  note fr = push_file_frame [OF pf]
  from Cons.prems have d: "distinct (map RemotePath gs)" and g: "RemotePath g \<notin> RemotePath ` set gs" by auto
  have same: "task_err ex r c w1 f = task_err ex r c w f \<and> task_rfs ex r c w1 f = task_rfs ex r c w f"
    if "f \<in> set gs" for f
  proof -
    from that g have "RemotePath f \<noteq> RemotePath g" by (metis image_eqI)
    from task_agree [OF push_file_agree_other [OF pf assms(1) this]] show ?thesis by simp
  qed
  from Cons.IH [OF d, of w1 "if e = None then e1 else e"] obtain w' where
    rest: "push_all ex r c w1 (if e = None then e1 else e) gs =
             Inr (first_err ((if e = None then e1 else e) # map (task_err ex r c w1) gs), w')"
    and rf: "\<forall>f \<in> set gs. rfs w' (RemotePath f) = task_rfs ex r c w1 f"
    and ro: "\<forall>q. q \<notin> RemotePath ` set gs \<longrightarrow> rfs w' q = rfs w1 q"
    and env: "lfs w' = lfs w1 \<and> denied w' = denied w1 \<and> login_ids w' = login_ids w1 \<and> host w' = host w1"
    by blast
  have m: "map (task_err ex r c w1) gs = map (task_err ex r c w) gs"
    using same by simp
  have te: "task_err ex r c w g = e1" and tr: "task_rfs ex r c w g = rfs w1 (RemotePath g)"
    using pf by (simp_all add: task_err_def task_rfs_def)
  show ?case
  proof (intro exI conjI)
    show "push_all ex r c w e (g # gs) = Inr (first_err (e # map (task_err ex r c w) (g # gs)), w')"
      using pf rest m te by (cases e) auto
    show "\<forall>f \<in> set (g # gs). rfs w' (RemotePath f) = task_rfs ex r c w f"
      using rf ro same g tr by auto
    show "\<forall>q. q \<notin> RemotePath ` set (g # gs) \<longrightarrow> rfs w' q = rfs w q"
      using ro fr by auto
  qed (use env fr assms(1) in auto)
qed


section \<open>Push as a whole\<close>

lemma first_err_None_iff: "first_err es = None \<longleftrightarrow> (\<forall>e \<in> set es. e = None)"
  by (induction es) auto

lemma schedule_mset:
  "is_schedule (length xs) sched \<Longrightarrow> mset (map (\<lambda>i. xs ! i) sched) = mset xs"
proof -
  assume "is_schedule (length xs) sched"
  then have "mset sched = mset [0..<length xs]" by (simp only: is_schedule_def)
  then have "mset (map (\<lambda>i. xs ! i) sched) = mset (map (\<lambda>i. xs ! i) [0..<length xs])"
    by (simp only: mset_map)
  then show ?thesis by (simp only: map_nth)
qed

lemma schedule_set:
  "is_schedule (length xs) sched \<Longrightarrow> set (map (\<lambda>i. xs ! i) sched) = set xs"
  by (rule mset_eq_setD [OF schedule_mset])

lemma schedule_length: "is_schedule n sched \<Longrightarrow> length sched = n"
  by (metis is_schedule_def length_upt minus_nat.diff_0 size_mset)

lemma Push_tasks:
  assumes "sftpClient r = Inr (Some h, None, r1)" and "pure_ids ex" and "conn r \<noteq> ConnNil"
    and "distinct (map RemotePath files)" and "is_schedule (length files) sched"
  shows "\<exists>w'. Push ex r w files sched =
             Inr (first_err (map (\<lambda>i. task_err ex r1 h w (files ! i)) sched),
                  r1\<lparr>clients := (clients r1)[h := False]\<rparr>, w') \<and>
           (\<forall>f \<in> set files. rfs w' (RemotePath f) = task_rfs ex r1 h w f) \<and>
           (\<forall>q. q \<notin> RemotePath ` set files \<longrightarrow> rfs w' q = rfs w q)"
proof -
  let ?fs = "map (\<lambda>i. files ! i) sched"
  have m: "mset ?fs = mset files" using assms(5) by (rule schedule_mset)
  then have s: "set ?fs = set files" by (rule mset_eq_setD)
  from m have e: "mset (map RemotePath ?fs) = mset (map RemotePath files)"
    by (simp only: mset_map [of RemotePath])
  have d: "distinct (map RemotePath ?fs)"
    using mset_eq_imp_distinct_iff [OF e] assms(4) by blast
  from sftpClient_ok [OF assms(1)] assms(3) have c: "conn r1 \<noteq> ConnNil" by simp
  from push_all_outcome [OF assms(2) c d, of h w None] obtain w' where
    pa: "push_all ex r1 h w None ?fs = Inr (first_err (None # map (task_err ex r1 h w) ?fs), w')"
    and rf: "\<forall>f \<in> set ?fs. rfs w' (RemotePath f) = task_rfs ex r1 h w f"
    and ro: "\<forall>q. q \<notin> RemotePath ` set ?fs \<longrightarrow> rfs w' q = rfs w q"
    by blast
  from rf have rf': "\<forall>f \<in> set files. rfs w' (RemotePath f) = task_rfs ex r1 h w f"
    unfolding s .
  from ro have ro': "\<forall>q. q \<notin> RemotePath ` set files \<longrightarrow> rfs w' q = rfs w q"
    unfolding s .
  have "Push ex r w files sched =
          Inr (first_err (map (\<lambda>i. task_err ex r1 h w (files ! i)) sched),
               r1\<lparr>clients := (clients r1)[h := False]\<rparr>, w')"
    using pa assms(1) by (simp add: Push_def comp_def)
  with rf' ro' show ?thesis by blast
qed

lemma RFile_update_all [simp]:
  "x\<lparr>rdata := a, rmode := b, ruid := c, rgid := d\<rparr> = \<lparr>rdata = a, rmode = b, ruid = c, rgid = d\<rparr>"
  by (cases x) simp

lemma sftp_chmod_at:
  "sftp_chmod cl w p m = Inr w' \<Longrightarrow> \<exists>x. rfs w p = Some x \<and> rfs w' p = Some (x\<lparr>rmode := to_chmod_perm m\<rparr>)"
  by (auto simp: sftp_chmod_def split: if_splits option.splits)

lemma sftp_chown_at:
  "sftp_chown cl w p u g = Inr w' \<Longrightarrow>
     \<exists>x. rfs w p = Some x \<and>
       rfs w' p = Some (x\<lparr>ruid := (if go_uint32 u = - 1 then ruid x else go_uint32 u),
                            rgid := (if go_uint32 g = - 1 then rgid x else go_uint32 g)\<rparr>)"
  by (auto simp: sftp_chown_def Let_def split: if_splits option.splits)

lemma push_owner_None:
  assumes "push_owner ex r cl w f = Inr (None, w')"
  shows "\<exists>x u g. rfs w (RemotePath f) = Some x \<and> rfs w' (RemotePath f) = Some (x\<lparr>ruid := u, rgid := g\<rparr>)"
  using assms
proof (cases rule: push_owner_Inr)
  case (chowned u w4 g w5 uid gid w6)
  have "rfs w5 = rfs w"
    using resolve_id_frame [OF chowned(1)] resolve_id_frame [OF chowned(2)] by simp
  with sftp_chown_at [OF chowned(3)] chowned(4) show ?thesis by auto
qed simp_all

lemma push_file_success:
  assumes "push_file ex r c w f = Inr (None, w')"
  shows "\<exists>src u g. lfs w (LocalPath f) = Some src \<and>
           rfs w' (RemotePath f) =
             Some \<lparr>rdata = ldata src, rmode = to_chmod_perm (go_filemode (Mode f)), ruid = u, rgid = g\<rparr>"
  using assms
proof (cases rule: push_file_Inr)
  case (created src w1 w3)
  from created(4) obtain w4 where m: "sftp_chmod (clients r ! c) w3 (RemotePath f) (go_filemode (Mode f)) = Inr w4"
    and o: "push_owner ex r (clients r ! c) w4 f = Inr (None, w')" by auto
  from sftp_create_Inr [OF created(2)] obtain y where "rfs w1 (RemotePath f) = Some y" by fastforce
  with created(3) have "rfs w3 (RemotePath f) = Some (y\<lparr>rdata := ldata src\<rparr>)"
    by (simp add: sftp_write_def)
  with sftp_chmod_at [OF m] push_owner_None [OF o] created(1) show ?thesis by auto
qed simp

lemma Push_client_error:
  "sftpClient r = Inr (c, Some e, r1) \<Longrightarrow> Push ex r w files sched = Inr (Some (Wrap ''could not get sftp client'' e), r1, w)"
  by (simp add: Push_def)

lemma push_file_closed:
  "\<not> clients r ! c \<Longrightarrow> \<exists>e'. push_file ex r c w f = Inr (Some e', w)"
  by (simp add: push_file_def Let_def sftp_create_def split: option.split)

lemma push_all_closed:
  assumes "\<not> clients r ! c"
  shows "\<exists>e'. push_all ex r c w e fs = Inr (e', w) \<and> (fs \<noteq> [] \<or> e \<noteq> None \<longrightarrow> e' \<noteq> None)"
proof (induction fs arbitrary: e)
  case (Cons f fs)
  from push_file_closed [OF assms] obtain e1 where "push_file ex r c w f = Inr (Some e1, w)" ..
  with Cons.IH [of "if e = None then Some e1 else e"] show ?case by auto
qed simp

lemma first_err_filter: "first_err es = (case filter (\<lambda>e. e \<noteq> None) es of [] \<Rightarrow> None | e # _ \<Rightarrow> e)"
  by (induction es) auto

lemma first_err_schedule_single:
  assumes "is_schedule (length xs) sched" and "filter (\<lambda>e. e \<noteq> None) (map g xs) = [e]"
  shows "first_err (map (\<lambda>i. g (xs ! i)) sched) = e"
proof -
  have "map (\<lambda>i. g (xs ! i)) sched = map g (map (\<lambda>i. xs ! i) sched)" by simp
  then have "mset (map (\<lambda>i. g (xs ! i)) sched) = mset (map g xs)"
    using schedule_mset [OF assms(1)] by (simp only: mset_map)
  then have "mset (filter (\<lambda>e. e \<noteq> None) (map (\<lambda>i. g (xs ! i)) sched)) =
               mset (filter (\<lambda>e. e \<noteq> None) (map g xs))"
    by (simp only: mset_filter)
  with assms(2) have "mset (filter (\<lambda>e. e \<noteq> None) (map (\<lambda>i. g (xs ! i)) sched)) = {#e#}"
    by simp
  then have "filter (\<lambda>e. e \<noteq> None) (map (\<lambda>i. g (xs ! i)) sched) = [e]"
    by (rule mset_single_iff [THEN iffD1])
  then show ?thesis by (simp add: first_err_filter)
qed

text \<open>What \<open>Push\<close> does to the target: only the client cache changes.\<close>

lemma Push_remote:
  assumes "Push ex r w files sched = Inr (e, r', w')"
  shows "conn r' = conn r \<and> addr r' = addr r \<and> activeUser r' = activeUser r \<and>
         sudopass r' = sudopass r \<and> connuser r' = connuser r \<and> (session_inv r \<longrightarrow> session_inv r')"
proof -
  from assms obtain c err r1 where sc: "sftpClient r = Inr (c, err, r1)"
    and r': "r' = r1 \<or> (\<exists>h. r' = r1\<lparr>clients := (clients r1)[h := False]\<rparr>)"
    by (auto simp: Push_def pbind_eq_Inr_iff split: if_splits option.splits)
  have "session_inv r1 \<Longrightarrow> session_inv r'"
    using r' by (elim disjE exE) (simp_all add: session_inv_def)
  with sftpClient_frame [OF sc] sftpClient_session_inv [OF _ sc] r' show ?thesis
    by auto
qed

text \<open>With an executor that answers \<^verbatim>\<open>id\<close> purely, \<open>Push\<close> returns and leaves the machine alone.\<close>

lemma push_all_pure:
  assumes "pure_ids ex" and "conn r \<noteq> ConnNil"
  shows "\<exists>e' w'. push_all ex r c w e fs = Inr (e', w') \<and> host w' = host w"
proof (induction fs arbitrary: w e)
  case (Cons f fs)
  from push_file_no_panic [OF assms(2)] obtain e1 w1 where pf: "push_file ex r c w f = Inr (e1, w1)"
    by fastforce
  from push_file_frame [OF pf] assms(1) have "host w1 = host w" by simp
  with pf Cons.IH [of w1 "if e = None then e1 else e"] show ?case by auto
qed simp

lemma Push_pure:
  assumes "pure_ids ex" and "conn r \<noteq> ConnNil"
  shows "\<exists>e r' w'. Push ex r w files sched = Inr (e, r', w') \<and> host w' = host w"
proof -
  from sftpClient_no_panic [OF assms(2)] obtain c err r1 where sc: "sftpClient r = Inr (c, err, r1)"
    by fastforce
  show ?thesis
  proof (cases "err = None \<and> c \<noteq> None")
    case True
    then obtain h where e: "err = None" and h: "c = Some h" by blast
    from sftpClient_frame [OF sc] assms(2) have "conn r1 \<noteq> ConnNil" by simp
    from push_all_pure [OF assms(1) this, of h w None "map (\<lambda>i. files ! i) sched"] obtain e' w'
      where "push_all ex r1 h w None (map (\<lambda>i. files ! i) sched) = Inr (e', w')" "host w' = host w"
      by blast
    with sc e h show ?thesis by (simp add: Push_def)
  next
    case False
    with sc show ?thesis by (cases c) (auto simp: Push_def)
  qed
qed

section \<open>Properties of the File Distributor\<close>

text \<open>
  C14: a round trip through \<open>Push\<close>: when it returns a nil error, every file of
  the list reads back at its remote path with the bytes of its local source, and
  with the requested mode when that is a permission value (below \<open>0o10000\<close>).
\<close>

theorem Push_roundtrip:
  assumes "Push ex r w files sched = Inr (None, r', w')" and "pure_ids ex" and "conn r \<noteq> ConnNil"
    and "distinct (map RemotePath files)" and "is_schedule (length files) sched"
    and "f \<in> set files" and "0 \<le> Mode f" and "Mode f < 4096"
  shows "\<exists>src u g. lfs w (LocalPath f) = Some src \<and>
           rfs w' (RemotePath f) = Some \<lparr>rdata = ldata src, rmode = word_of_int (Mode f), ruid = u, rgid = g\<rparr>"
proof -
  obtain c err r1 where sc: "sftpClient r = Inr (c, err, r1)"
    using assms(1) by (cases "sftpClient r") (auto simp: Push_def)
  with assms(1) have "err = None" by (cases err) (simp_all add: Push_client_error)
  with sc sftpClient_ok obtain h where sc': "sftpClient r = Inr (Some h, None, r1)" by blast
  from Push_tasks [OF sc' assms(2-5), of w] obtain w'' where
    p: "Push ex r w files sched = Inr (first_err (map (\<lambda>i. task_err ex r1 h w (files ! i)) sched),
                  r1\<lparr>clients := (clients r1)[h := False]\<rparr>, w'')"
    and rf: "\<forall>f \<in> set files. rfs w'' (RemotePath f) = task_rfs ex r1 h w f" by blast
  from p assms(1) have "first_err (map (\<lambda>i. task_err ex r1 h w (files ! i)) sched) = None" and w: "w'' = w'"
    by simp_all
  then have "\<forall>x \<in> set (map (\<lambda>i. files ! i) sched). task_err ex r1 h w x = None"
    by (simp add: first_err_None_iff)
  moreover have "f \<in> set (map (\<lambda>i. files ! i) sched)"
    using assms(6) mset_eq_setD [OF schedule_mset [OF assms(5)]] by simp
  ultimately have te: "task_err ex r1 h w f = None" by blast
  from sftpClient_ok [OF sc'] assms(3) have "conn r1 \<noteq> ConnNil" by simp
  from push_file_no_panic [OF this] obtain e1 w1 where pf: "push_file ex r1 h w f = Inr (e1, w1)"
    by fastforce
  with te have "push_file ex r1 h w f = Inr (None, w1)" by (simp add: task_err_def)
  from push_file_success [OF this] obtain src u g where "lfs w (LocalPath f) = Some src"
    and "rfs w1 (RemotePath f) = Some \<lparr>rdata = ldata src, rmode = to_chmod_perm (go_filemode (Mode f)), ruid = u, rgid = g\<rparr>"
    by blast
  moreover have "rfs w' (RemotePath f) = rfs w1 (RemotePath f)"
    using rf assms(6) w pf by (simp add: task_rfs_def)
  ultimately show ?thesis using to_chmod_perm_small [OF assms(7,8)] by auto
qed

text \<open>
  C15: the outcome of \<open>Push\<close> does not depend on the order in which its tasks
  complete: for any two schedules the remote file system and the target are the
  same, and either both runs return a nil error or neither does.
\<close>

theorem Push_schedule_independent:
  assumes "pure_ids ex" and "conn r \<noteq> ConnNil" and "distinct (map RemotePath files)"
    and "is_schedule (length files) s1" and "is_schedule (length files) s2"
    and "Push ex r w files s1 = Inr (e1, r1, w1)" and "Push ex r w files s2 = Inr (e2, r2, w2)"
  shows "rfs w1 = rfs w2 \<and> r1 = r2 \<and> (e1 = None \<longleftrightarrow> e2 = None)"
proof -
  obtain c err r0 where sc: "sftpClient r = Inr (c, err, r0)"
    using assms(6) by (cases "sftpClient r") (auto simp: Push_def)
  show ?thesis
  proof (cases err)
    case (Some e)
    with sc assms(6,7) show ?thesis by (simp add: Push_client_error)
  next
    case None
    with sc sftpClient_ok obtain h where sc': "sftpClient r = Inr (Some h, None, r0)" by blast
    from Push_tasks [OF sc' assms(1-4), of w] assms(6) obtain v1 where
      "e1 = first_err (map (\<lambda>i. task_err ex r0 h w (files ! i)) s1)"
      "r1 = r0\<lparr>clients := (clients r0)[h := False]\<rparr>" "w1 = v1"
      and f1: "\<forall>f \<in> set files. rfs v1 (RemotePath f) = task_rfs ex r0 h w f"
      and o1: "\<forall>q. q \<notin> RemotePath ` set files \<longrightarrow> rfs v1 q = rfs w q"
      by auto
    moreover from Push_tasks [OF sc' assms(1-3,5), of w] assms(7) obtain v2 where
      "e2 = first_err (map (\<lambda>i. task_err ex r0 h w (files ! i)) s2)"
      "r2 = r0\<lparr>clients := (clients r0)[h := False]\<rparr>" "w2 = v2"
      and f2: "\<forall>f \<in> set files. rfs v2 (RemotePath f) = task_rfs ex r0 h w f"
      and o2: "\<forall>q. q \<notin> RemotePath ` set files \<longrightarrow> rfs v2 q = rfs w q"
      by auto
    moreover have "rfs v1 = rfs v2"
    proof
      fix q
      show "rfs v1 q = rfs v2 q"
        by (cases "q \<in> RemotePath ` set files") (use f1 f2 o1 o2 in auto)
    qed
    moreover have "set (map (\<lambda>i. task_err ex r0 h w (files ! i)) s) = task_err ex r0 h w ` set files"
      if "is_schedule (length files) s" for s
      using schedule_set [OF that] by (metis image_image list.set_map)
    ultimately show ?thesis
      using assms(4,5) by (simp add: first_err_None_iff)
  qed
qed

text \<open>
  C16: \<open>Push\<close> closes the client it shares with later calls: the deferred
  \<open>sftp.Close()\<close> closes the client that stays cached in \<open>r.sftp\<close>, so every later
  \<open>Push\<close> of a non-empty list returns an error and changes nothing.
\<close>

theorem Push_closes_cached_client:
  assumes "session_inv r" and "conn r = ConnOpen"
    and "Push ex r w files s = Inr (e, r1, w1)"
    and "files2 \<noteq> []" and "is_schedule (length files2) s2"
  shows "\<exists>e2. Push ex r1 w2 files2 s2 = Inr (Some e2, r1, w2)"
proof -
  obtain c err r0 where sc: "sftpClient r = Inr (c, err, r0)"
    using assms(3) by (cases "sftpClient r") (auto simp: Push_def)
  have "err = None"
    using sc assms(2) by (auto simp: sftpClient_def Let_def split: option.splits)
  with sc sftpClient_ok obtain h where sc': "sftpClient r = Inr (Some h, None, r0)" by blast
  from sftpClient_Some [OF assms(1) sc'] have cached: "map_of (sftp r0) (activeUser r0) = Some h"
    and hl: "h < length (clients r0)" by blast+
  from assms(3) sc' have r1: "r1 = r0\<lparr>clients := (clients r0)[h := False]\<rparr>"
    by (auto simp: Push_def pbind_eq_Inr_iff)
  with cached have sc1: "sftpClient r1 = Inr (Some h, None, r1)" by (simp add: sftpClient_cached)
  from r1 hl have closed: "\<not> clients r1 ! h" by simp
  from assms(4,5) have "map (\<lambda>i. files2 ! i) s2 \<noteq> []"
    using schedule_length [OF assms(5)] by auto
  with push_all_closed [OF closed, of ex w2 None] obtain e' where
    "push_all ex r1 h w2 None (map (\<lambda>i. files2 ! i) s2) = Inr (e', w2)" "e' \<noteq> None" by blast
  moreover from r1 hl have "r1\<lparr>clients := (clients r1)[h := False]\<rparr> = r1" by simp
  ultimately show ?thesis using sc1 by (auto simp: Push_def)
qed

text \<open>
  C17: the ownership lookup reads back what \<^verbatim>\<open>id\<close> prints: when the command exits
  0 with a decimal \<open>int64\<close> followed by a newline, the lookup returns that number.
\<close>

theorem resolve_id_roundtrip:
  assumes "conn r = ConnOpen"
    and "ex (host w) (cmd @ name) [] = (h', Finished (Some 0) sg (go_itoa n @ [NL]) se)"
    and "- (2 ^ 63) \<le> n" and "n < 2 ^ 63"
  shows "resolve_id ex r w cmd name m1 m2 = Inr (Inr n, w\<lparr>host := h', issued := issued w @ [cmd @ name]\<rparr>)"
  using run_Finished [of r ex w "cmd @ name" "[]" h' "Some 0" sg "go_itoa n @ [NL]" se, OF assms(1,2)]
    id_output_roundtrip [OF assms(3,4)]
  by (simp add: resolve_id_def exit_code_cases Response_Success_def parse_id_def)

end
