(* ===== verification/Bootstrap.thy ===== *)
theory Bootstrap
  imports Batch Distributor
begin

text \<open>
  The Bootstrap client of \<^verbatim>\<open>src/bootstrap/bootstrap.go\<close>: \<open>Client.Run\<close> (25--89)
  loads the per-host configurations of a directory, appends the default rules to
  each, drops those without an address and records each kept one under
  \<^verbatim>\<open>tmp/\<close>; \<open>CheckDir\<close> (91--100) creates \<^verbatim>\<open>tmp\<close>; \<open>defaultConfig\<close>
  (165--178) loads the defaults; \<open>Client.Apply\<close> (102--163) connects to each host
  in turn and runs Remove, Install, Run, Restart, Push and a restart of
  \<^verbatim>\<open>apache2\<close> on it, deferring the close of every session to its own return.

  The local file system (\<open>os.ReadDir\<close>, \<open>os.ReadFile\<close>, \<open>os.Stat\<close>,
  \<open>os.Mkdir\<close>, \<open>ioutil.WriteFile\<close>) is the record \<open>LocalFS\<close>, modelled from the
  documented behaviour of the \<open>os\<close> package; the YAML codec is an input
  (\<open>Yaml\<close>), since the code only calls it. The program's own lines on standard
  output are \<open>boot_line\<close>s.
\<close>

section \<open>The local file system and the YAML codec\<close>

text \<open>
  \<open>ldirs\<close> lists each directory's entries in the order \<open>os.ReadDir\<close> returns
  them (sorted by name); \<open>readonly\<close> makes every creation fail.
\<close>

record LocalFS =
  lfiles :: "string \<Rightarrow> string option"
  ldirs :: "string \<Rightarrow> string list option"
  readonly :: bool

record Yaml =
  unmarshal :: "string \<Rightarrow> gerr + Config"
  marshal :: "Config \<Rightarrow> gerr + string"

definition os_ReadDir :: "LocalFS \<Rightarrow> string \<Rightarrow> gerr + string list" where
  "os_ReadDir fs p =
     (case ldirs fs p of
        Some ns \<Rightarrow> Inr ns
      | None \<Rightarrow> Inl (Msg (''open '' @ p @ '': no such file or directory'')))"

definition os_ReadFile :: "LocalFS \<Rightarrow> string \<Rightarrow> gerr + string" where
  "os_ReadFile fs p =
     (case lfiles fs p of
        Some s \<Rightarrow> Inr s
      | None \<Rightarrow> Inl (Msg (''open '' @ p @ '': no such file or directory'')))"

text \<open>\<open>ioutil.WriteFile(dir/name, ...)\<close> creates or truncates the file.\<close>

definition os_WriteFile :: "LocalFS \<Rightarrow> string \<Rightarrow> string \<Rightarrow> string \<Rightarrow> gerr + LocalFS" where
  "os_WriteFile fs dir name s =
     (let p = dir @ ''/'' @ name in
      case ldirs fs dir of
        None \<Rightarrow> Inl (Msg (''open '' @ p @ '': no such file or directory''))
      | Some ns \<Rightarrow>
          if readonly fs then Inl (Msg (''open '' @ p @ '': read-only file system''))
          else Inr (fs\<lparr>lfiles := (lfiles fs)(p \<mapsto> s),
                       ldirs := (ldirs fs)(dir \<mapsto> (if name \<in> set ns then ns else ns @ [name]))\<rparr>))"

section \<open>Standard output\<close>

datatype boot_line =
    BootHeader
  | BootConfig string
  | BootSep
  | BootNoHost Remote gerr
  | BootFailed string string gerr
  | BootDone string

section \<open>Loading the configurations\<close>

abbreviation tmp :: string where "tmp \<equiv> ''tmp''"

text \<open>
  \<open>CheckDir\<close>: \<open>os.Stat\<close> succeeds on any existing entry, file or directory,
  and only a missing one is created.
\<close>

definition CheckDir :: "LocalFS \<Rightarrow> string \<Rightarrow> goerror \<times> LocalFS" where
  "CheckDir fs dir =
     (if ldirs fs dir \<noteq> None \<or> lfiles fs dir \<noteq> None then (None, fs)
      else if readonly fs
      then (Some (Wrap ''unable to create tmp directory''
                    (Msg (''mkdir '' @ dir @ '': read-only file system''))), fs)
      else (None, fs\<lparr>ldirs := (ldirs fs)(dir \<mapsto> [])\<rparr>))"

definition defaultConfig :: "Yaml \<Rightarrow> LocalFS \<Rightarrow> string \<Rightarrow> gerr + Config" where
  "defaultConfig y fs p =
     (case os_ReadFile fs p of
        Inl e \<Rightarrow> Inl (Wrap (''not able to read '' @ p @ '', err= '' @ err_str e) e)
      | Inr s \<Rightarrow>
          (case unmarshal y s of
             Inl e \<Rightarrow> Inl (Wrap (''default configs '' @ p @ '' is corrupted, err='' @ err_str e) e)
           | Inr d \<Rightarrow> Inr d))"

text \<open>Lines 64--66: the defaults' rules and files go after the host's own.\<close>

definition merge_defaults :: "Config \<Rightarrow> Config \<Rightarrow> Config" where
  "merge_defaults d c =
     c\<lparr>InstallRules := InstallRules c @ InstallRules d,
       RunRules := RunRules c @ RunRules d,
       Files := Files c @ Files d\<rparr>"

text \<open>
  The loop of lines 50--87 over the directory's entries: it appends each kept
  configuration to \<open>bs.Configs\<close> as it goes, so that an error returns with the
  configurations before it already in place.
\<close>

fun load_configs :: "Yaml \<Rightarrow> Config \<Rightarrow> string \<Rightarrow> string list \<Rightarrow> LocalFS \<Rightarrow> Config list \<Rightarrow> boot_line list \<Rightarrow>
                     goerror \<times> LocalFS \<times> Config list \<times> boot_line list" where
  "load_configs y d cpath [] fs cs lines = (None, fs, cs, lines)"
| "load_configs y d cpath (n # ns) fs cs lines =
     (let p = cpath @ ''/'' @ n in
      case os_ReadFile fs p of
        Inl e \<Rightarrow> (Some (Wrap (''not able to read '' @ p @ '', err='' @ err_str e) e), fs, cs, lines)
      | Inr s \<Rightarrow>
          (case unmarshal y s of
             Inl e \<Rightarrow> (Some (Wrap (''config file '' @ p @ '' is corrupted, err='' @ err_str e) e), fs, cs, lines)
           | Inr c0 \<Rightarrow>
               (let c = merge_defaults d c0 in
                if Address (ConfigHost c) = [] then load_configs y d cpath ns fs cs lines
                else case marshal y c of
                  Inl e \<Rightarrow> (Some (Wrap (''marshaling config '' @ p) e), fs, cs, lines)
                | Inr b \<Rightarrow>
                    (case os_WriteFile fs tmp (Address (ConfigHost c) @ ''.yaml'') b of
                       Inl e \<Rightarrow> (Some (Wrap (''writing tmp config for '' @ p) e), fs, cs, lines)
                     | Inr fs' \<Rightarrow> load_configs y d cpath ns fs' (cs @ [c]) (lines @ [BootConfig b, BootSep])))))"

text \<open>\<open>Client.Run\<close>, from the configurations already held (\<open>bs.Configs\<close>).\<close>

definition Client_Run :: "Yaml \<Rightarrow> LocalFS \<Rightarrow> Config list \<Rightarrow> string \<Rightarrow> string \<Rightarrow>
                          goerror \<times> LocalFS \<times> Config list \<times> boot_line list" where
  "Client_Run y fs cs cpath dpath =
     (case os_ReadDir fs cpath of
        Inl e \<Rightarrow> (Some (Wrap ''config dir. is not found'' e), fs, cs, [])
      | Inr names \<Rightarrow>
          (case CheckDir fs tmp of
             (Some e, fs1) \<Rightarrow> (Some e, fs1, cs, [])
           | (None, fs1) \<Rightarrow>
               (case defaultConfig y fs1 dpath of
                  Inl e \<Rightarrow> (Some e, fs1, cs, [])
                | Inr d \<Rightarrow> load_configs y d cpath names fs1 cs [BootHeader])))"

section \<open>Applying the configurations\<close>

text \<open>Line 105: \<open>fmt.Sprintf("%s:%v", Address, Port)\<close>.\<close>

definition host_addr :: "Config \<Rightarrow> string" where
  "host_addr cfg = Address (ConfigHost cfg) @ '':'' @ go_itoa (Port (ConfigHost cfg))"

definition report :: "string \<Rightarrow> string \<Rightarrow> goerror \<Rightarrow> boot_line list" where
  "report what a e = (case e of None \<Rightarrow> [] | Some g \<Rightarrow> [BootFailed what a g])"

text \<open>
  Lines 123--159 on one connected host. The target is a pointer: \<open>Push\<close>'s
  update of the client cache is seen by the restart after it and by the deferred
  \<open>Close\<close>, so the host's run returns the target as \<open>Push\<close> left it.
\<close>

definition apply_host :: "'h executor \<Rightarrow> Remote \<Rightarrow> 'h World \<Rightarrow> Config \<Rightarrow> nat list \<Rightarrow>
                          (Remote \<times> 'h World \<times> boot_line list) panicking" where
  "apply_host ex r w cfg sched =
     (let a = Address (ConfigHost cfg) in
      pbind (Remove ex r w (RemoveRules cfg)) (\<lambda>(e1, w1).
      pbind (Install ex r w1 (InstallRules cfg)) (\<lambda>(e2, w2).
      pbind (Run ex r w2 (RunRules cfg)) (\<lambda>(e3, w3).
      pbind (Restart ex r w3 (RestartRules cfg)) (\<lambda>(e4, w4).
      pbind (Push ex r w4 (Files cfg) sched) (\<lambda>(e5, r5, w5).
      pbind (Restart ex r5 w5 [''apache2'']) (\<lambda>(e6, w6).
      Inr (r5, w6, report ''could not remove pkg on '' a e1 @ report ''could not install pkg on '' a e2 @
                   report ''could not start services on '' a e3 @
                   report ''could not restart services on '' a e4 @
                   report ''could not push file on '' a e5 @ report ''could not push file on '' a e6 @
                   [BootDone a]))))))))"

text \<open>
  The loop of lines 104--160. The machines are reached by their address: \<open>exs a\<close>
  is the executor and \<open>ws a\<close> the world of the machine at \<open>a\<close>; \<open>dial i\<close> and
  \<open>sched i\<close> are the outcome of \<open>ssh.Dial\<close> and the completion order of the push
  tasks for the \<open>i\<close>-th configuration. A failed connection is printed and
  skipped; a connected target is put on the list of deferred closes, newest first.
\<close>

fun apply_loop :: "(string \<Rightarrow> 'h executor) \<Rightarrow> (nat \<Rightarrow> goerror) \<Rightarrow> (nat \<Rightarrow> nat list) \<Rightarrow> nat \<Rightarrow> Config list \<Rightarrow>
                   (string \<Rightarrow> 'h World) \<Rightarrow> boot_line list \<Rightarrow> Remote list \<Rightarrow>
                   ((string \<Rightarrow> 'h World) \<times> boot_line list \<times> Remote list) panicking" where
  "apply_loop exs dial sched i [] ws lines ds = Inr (ws, lines, ds)"
| "apply_loop exs dial sched i (cfg # cfgs) ws lines ds =
     (let a = host_addr cfg in
      case New a (HostUser (ConfigHost cfg)) (Password (ConfigHost cfg)) (dial i) of
        (r, Some e) \<Rightarrow> apply_loop exs dial sched (Suc i) cfgs ws (lines @ [BootNoHost r e]) ds
      | (r, None) \<Rightarrow>
          pbind (apply_host (exs a) r (ws a) cfg (sched i)) (\<lambda>(r', w', l).
            apply_loop exs dial sched (Suc i) cfgs (ws(a := w')) (lines @ l) (r' # ds)))"

text \<open>The deferred \<open>rmt.Close()\<close> calls, run at return, newest first; their errors are dropped.\<close>

fun run_deferred :: "Remote list \<Rightarrow> Remote list panicking" where
  "run_deferred [] = Inr []"
| "run_deferred (r # rs) =
     pbind (Close r) (\<lambda>(_, r'). pbind (run_deferred rs) (\<lambda>rs'. Inr (r' # rs')))"

definition Apply :: "(string \<Rightarrow> 'h executor) \<Rightarrow> (nat \<Rightarrow> goerror) \<Rightarrow> (nat \<Rightarrow> nat list) \<Rightarrow> Config list \<Rightarrow>
                     (string \<Rightarrow> 'h World) \<Rightarrow>
                     (goerror \<times> (string \<Rightarrow> 'h World) \<times> boot_line list \<times> Remote list) panicking" where
  "Apply exs dial sched cfgs ws =
     pbind (apply_loop exs dial sched 0 cfgs ws [] []) (\<lambda>(ws', lines, ds).
       pbind (run_deferred ds) (\<lambda>rs. Inr (None, ws', lines, rs)))"

text \<open>The addresses of the configurations whose connection succeeds, in order.\<close>

definition reached :: "(nat \<Rightarrow> goerror) \<Rightarrow> nat \<Rightarrow> Config list \<Rightarrow> string list" where
  "reached dial i cfgs = [host_addr c. (c, j) \<leftarrow> zip cfgs [i..<i + length cfgs], dial j = None]"

text \<open>
  What loading promises: the parsed configurations with an address, in directory
  order, each followed by the defaults' install rules, run rules and files.
\<close>

definition configs_spec :: "Config \<Rightarrow> Config list \<Rightarrow> Config list" where
  "configs_spec d cfgs =
     [c\<lparr>InstallRules := InstallRules c @ InstallRules d, RunRules := RunRules c @ RunRules d,
        Files := Files c @ Files d\<rparr>. c \<leftarrow> cfgs, Address (ConfigHost c) \<noteq> []]"

text \<open>
  The well-formedness of \<open>bs.Configs\<close>: every configuration held names a host, as
  the check of line 69 ensures; \<open>Apply\<close> dials \<open>Address:Port\<close> of each.
\<close>

definition configs_wf :: "Config list \<Rightarrow> bool" where
  "configs_wf cs \<longleftrightarrow> (\<forall>c \<in> set cs. Address (ConfigHost c) \<noteq> [])"

section \<open>What a host's run does to its target\<close>

lemma apply_host_remote:
  assumes "apply_host ex r w cfg s = Inr (r', w', l)"
  shows "conn r' = conn r \<and> addr r' = addr r \<and> (session_inv r \<longrightarrow> session_inv r')"
proof -
  from assms obtain e5 w4 w5 where "Push ex r w4 (Files cfg) s = Inr (e5, r', w5)"
    by (auto simp: apply_host_def Let_def pbind_eq_Inr_iff)
  then show ?thesis by (blast dest: Push_remote)
qed

lemma New_addr: "addr (fst (New a user pass dial)) = a"
  by (cases dial) (simp_all add: New_def)

lemma reached_Nil [simp]: "reached dial i [] = []"
  and reached_Cons [simp]:
    "reached dial i (c # cs) = (if dial i = None then host_addr c # reached dial (Suc i) cs else reached dial (Suc i) cs)"
proof -
  have "[i..<i + length (c # cs)] = i # [Suc i..<Suc i + length cs]"
    by (simp del: upt_Suc add: upt_conv_Cons)
  then show "reached dial i (c # cs) =
      (if dial i = None then host_addr c # reached dial (Suc i) cs else reached dial (Suc i) cs)"
    unfolding reached_def by simp
qed (simp add: reached_def)

lemma New_open:
  assumes "New a user pass dial = (r, None)"
  shows "conn r = ConnOpen \<and> session_inv r \<and> addr r = a \<and> dial = None"
  using assms New_result [OF assms] New_session_inv [of a user pass dial] New_addr [of a user pass dial]
  by simp

lemma apply_loop_Inr:
  assumes "apply_loop exs dial sched i cfgs ws ls ds = Inr (ws', ls', ds')"
    and "\<forall>r \<in> set ds. conn r = ConnOpen \<and> session_inv r"
  shows "(\<forall>r \<in> set ds'. conn r = ConnOpen \<and> session_inv r) \<and>
         map addr ds' = rev (reached dial i cfgs) @ map addr ds"
  using assms
proof (induction cfgs arbitrary: i ws ls ds)
  case Nil
  then show ?case by simp
next
  case (Cons cfg cfgs)
  let ?a = "host_addr cfg"
  obtain r e where nw: "New ?a (HostUser (ConfigHost cfg)) (Password (ConfigHost cfg)) (dial i) = (r, e)"
    by fastforce
  show ?case
  proof (cases e)
    case (Some g)
    with nw New_result have d: "dial i \<noteq> None" by blast
    from Cons.prems(1) nw Some
    have "apply_loop exs dial sched (Suc i) cfgs ws (ls @ [BootNoHost r g]) ds = Inr (ws', ls', ds')"
      by simp
    from Cons.IH [OF this Cons.prems(2)] d show ?thesis by simp
  next
    case None
    with nw have r: "conn r = ConnOpen \<and> session_inv r \<and> addr r = ?a \<and> dial i = None"
      by (blast dest: New_open)
    from Cons.prems(1) nw None obtain r' w' l
      where ah: "apply_host (exs ?a) r (ws ?a) cfg (sched i) = Inr (r', w', l)"
        and rest: "apply_loop exs dial sched (Suc i) cfgs (ws(?a := w')) (ls @ l) (r' # ds) = Inr (ws', ls', ds')"
      by (auto simp: Let_def pbind_eq_Inr_iff)
    from apply_host_remote [OF ah] r Cons.prems(2)
    have "\<forall>x \<in> set (r' # ds). conn x = ConnOpen \<and> session_inv x" and "addr r' = ?a"
      by auto
    from Cons.IH [OF rest this(1)] this(2) r show ?thesis by auto
  qed
qed

text \<open>A host's run is the six operations in order, each on the world the one before left.\<close>

lemma apply_host_seq:
  assumes "batch OpRemove ex r w (RemoveRules cfg) = Inr w1"
    and "batch OpInstall ex r w1 (InstallRules cfg) = Inr w2"
    and "batch OpRun ex r w2 (RunRules cfg) = Inr w3"
    and "batch OpRestart ex r w3 (RestartRules cfg) = Inr w4"
    and "Push ex r w4 (Files cfg) s = Inr (e5, r5, w5)"
    and "batch OpRestart ex r5 w5 [''apache2''] = Inr w6"
  shows "\<exists>l. apply_host ex r w cfg s = Inr (r5, w6, l)"
  unfolding apply_host_def Let_def batch_ops_defs
  using assms by (simp del: batch.simps)

lemma apply_loop_frame:
  assumes "apply_loop exs dial sched i cfgs ws ls ds = Inr (ws', ls', ds')"
    and "a \<notin> set (reached dial i cfgs)"
  shows "ws' a = ws a"
  using assms
proof (induction cfgs arbitrary: i ws ls ds)
  case (Cons cfg cfgs)
  obtain r e where nw: "New (host_addr cfg) (HostUser (ConfigHost cfg)) (Password (ConfigHost cfg)) (dial i) = (r, e)"
    by fastforce
  show ?case
  proof (cases e)
    case (Some g)
    with nw New_result have "dial i \<noteq> None" by blast
    with Cons.prems(1) Cons.IH [of "Suc i" ws "ls @ [BootNoHost r g]" ds] nw Some Cons.prems(2)
    show ?thesis by simp
  next
    case None
    with nw have "dial i = None" by (blast dest: New_open)
    moreover from Cons.prems(1) nw None obtain r' w' l
      where "apply_loop exs dial sched (Suc i) cfgs (ws(host_addr cfg := w')) (ls @ l) (r' # ds) = Inr (ws', ls', ds')"
      by (auto simp: Let_def pbind_eq_Inr_iff)
    ultimately show ?thesis using Cons.IH Cons.prems(2) by fastforce
  qed
qed simp

lemma Close_Inr: "conn r \<noteq> ConnNil \<Longrightarrow> \<exists>e r'. Close r = Inr (e, r')"
  using Close_panics_iff [of r] by (cases "Close r") auto

lemma run_deferred_closes:
  assumes "\<forall>r \<in> set ds. conn r \<noteq> ConnNil \<and> session_inv r"
  shows "\<exists>rs. run_deferred ds = Inr rs \<and> map addr rs = map addr ds \<and>
           (\<forall>r \<in> set rs. conn r = ConnClosed \<and> (\<forall>c \<in> set (clients r). \<not> c))"
  using assms
proof (induction ds)
  case (Cons r ds)
  from Cons.prems Close_Inr [of r] obtain e r' where cl: "Close r = Inr (e, r')"
    by auto
  from Cons.IH Cons.prems obtain rs where "run_deferred ds = Inr rs" "map addr rs = map addr ds"
    "\<forall>x \<in> set rs. conn x = ConnClosed \<and> (\<forall>c \<in> set (clients x). \<not> c)"
    by auto
  with cl Close_conn [OF cl] Close_addr [OF cl] Close_all_clients_closed [OF _ cl] Cons.prems
  show ?case by auto
qed simp

section \<open>Loading\<close>

lemma ConfigHost_merge_defaults [simp]: "ConfigHost (merge_defaults d c) = ConfigHost c"
  by (simp add: merge_defaults_def)

lemma os_WriteFile_ok:
  assumes "ldirs fs dir \<noteq> None" and "\<not> readonly fs"
  shows "\<exists>fs'. os_WriteFile fs dir name s = Inr fs' \<and> ldirs fs' dir \<noteq> None \<and> \<not> readonly fs' \<and>
           lfiles fs' = (lfiles fs)(dir @ ''/'' @ name \<mapsto> s)"
  using assms by (auto simp: os_WriteFile_def)

lemma CheckDir_ok:
  assumes "lfiles fs dir = None" and "\<not> readonly fs"
  shows "\<exists>fs'. CheckDir fs dir = (None, fs') \<and> ldirs fs' dir \<noteq> None \<and> \<not> readonly fs' \<and>
           lfiles fs' = lfiles fs"
  using assms by (auto simp: CheckDir_def)

text \<open>
  A run of good entries: each is read and parsed, the kept ones are written under
  \<^verbatim>\<open>tmp/\<close> and appended, and the loop goes on with the rest.
\<close>

lemma load_configs_prefix:
  assumes "\<forall>n \<in> set pre. lfiles fs (cpath @ ''/'' @ n) = Some (src n) \<and> unmarshal y (src n) = Inr (cfg n) \<and>
                         take 4 (cpath @ ''/'' @ n) \<noteq> ''tmp/''"
    and "\<forall>c. \<exists>b. marshal y c = Inr b"
    and "ldirs fs tmp \<noteq> None" and "\<not> readonly fs"
  shows "\<exists>fs' ls. ldirs fs' tmp \<noteq> None \<and> \<not> readonly fs' \<and>
           (\<forall>q. take 4 q \<noteq> ''tmp/'' \<longrightarrow> lfiles fs' q = lfiles fs q) \<and>
           load_configs y d cpath (pre @ rest) fs cs lines =
           load_configs y d cpath rest fs'
             (cs @ [merge_defaults d (cfg n). n \<leftarrow> pre, Address (ConfigHost (cfg n)) \<noteq> []]) ls"
  using assms(1,3,4)
proof (induction pre arbitrary: fs cs lines)
  case Nil
  then show ?case by auto
next
  case (Cons n pre)
  let ?p = "cpath @ ''/'' @ n"
  let ?c = "merge_defaults d (cfg n)"
  from Cons.prems(1) have rd: "os_ReadFile fs ?p = Inr (src n)" and um: "unmarshal y (src n) = Inr (cfg n)"
    by (simp_all add: os_ReadFile_def)
  show ?case
  proof (cases "Address (ConfigHost (cfg n)) = []")
    case True
    with rd um have "load_configs y d cpath ((n # pre) @ rest) fs cs lines = load_configs y d cpath (pre @ rest) fs cs lines"
      by (simp add: Let_def)
    with Cons.IH [of fs cs lines] Cons.prems True show ?thesis by auto
  next
    case False
    from assms(2) obtain b where mb: "marshal y ?c = Inr b" by blast
    from os_WriteFile_ok [OF Cons.prems(2,3)] obtain fs1
      where wf: "os_WriteFile fs tmp (Address (ConfigHost ?c) @ ''.yaml'') b = Inr fs1"
        and fs1: "ldirs fs1 tmp \<noteq> None" "\<not> readonly fs1"
        "lfiles fs1 = (lfiles fs)(tmp @ ''/'' @ Address (ConfigHost ?c) @ ''.yaml'' \<mapsto> b)"
      by blast
    have fr: "\<forall>q. take 4 q \<noteq> ''tmp/'' \<longrightarrow> lfiles fs1 q = lfiles fs q"
      using fs1(3) by auto
    with Cons.prems(1) have "\<forall>m \<in> set pre. lfiles fs1 (cpath @ ''/'' @ m) = Some (src m) \<and>
        unmarshal y (src m) = Inr (cfg m) \<and> take 4 (cpath @ ''/'' @ m) \<noteq> ''tmp/''"
      by auto
    from Cons.IH [OF this fs1(1,2), of "cs @ [?c]" "lines @ [BootConfig b, BootSep]"]
    obtain fs' ls where ih: "ldirs fs' tmp \<noteq> None" "\<not> readonly fs'"
      "\<forall>q. take 4 q \<noteq> ''tmp/'' \<longrightarrow> lfiles fs' q = lfiles fs1 q"
      "load_configs y d cpath (pre @ rest) fs1 (cs @ [?c]) (lines @ [BootConfig b, BootSep]) =
       load_configs y d cpath rest fs'
         ((cs @ [?c]) @ [merge_defaults d (cfg n). n \<leftarrow> pre, Address (ConfigHost (cfg n)) \<noteq> []]) ls"
      by blast
    have "load_configs y d cpath ((n # pre) @ rest) fs cs lines =
          load_configs y d cpath (pre @ rest) fs1 (cs @ [?c]) (lines @ [BootConfig b, BootSep])"
      using rd um False mb wf by (simp add: Let_def)
    with ih fr False show ?thesis by auto
  qed
qed

lemma Client_Run_prefix:
  assumes "ldirs fs cpath = Some names" and "\<not> readonly fs" and "lfiles fs tmp = None"
    and "lfiles fs dpath = Some dsrc" and "unmarshal y dsrc = Inr d"
    and "\<forall>n \<in> set pre. lfiles fs (cpath @ ''/'' @ n) = Some (src n) \<and> unmarshal y (src n) = Inr (cfg n) \<and>
                         take 4 (cpath @ ''/'' @ n) \<noteq> ''tmp/''"
    and "\<forall>c. \<exists>b. marshal y c = Inr b" and "names = pre @ rest"
  shows "\<exists>fs' ls. (\<forall>q. take 4 q \<noteq> ''tmp/'' \<longrightarrow> lfiles fs' q = lfiles fs q) \<and>
           Client_Run y fs cs cpath dpath =
           load_configs y d cpath rest fs'
             (cs @ [merge_defaults d (cfg n). n \<leftarrow> pre, Address (ConfigHost (cfg n)) \<noteq> []]) ls"
proof -
  from CheckDir_ok [OF assms(3,2)] obtain fs1 where cd: "CheckDir fs tmp = (None, fs1)"
    and fs1: "ldirs fs1 tmp \<noteq> None" "\<not> readonly fs1" "lfiles fs1 = lfiles fs"
    by blast
  from fs1(3) assms(4,5) have "defaultConfig y fs1 dpath = Inr d"
    by (simp add: defaultConfig_def os_ReadFile_def)
  with assms(1) cd have run: "Client_Run y fs cs cpath dpath = load_configs y d cpath names fs1 cs [BootHeader]"
    by (simp add: Client_Run_def os_ReadDir_def)
  from assms(6) fs1(3) have "\<forall>n \<in> set pre. lfiles fs1 (cpath @ ''/'' @ n) = Some (src n) \<and>
      unmarshal y (src n) = Inr (cfg n) \<and> take 4 (cpath @ ''/'' @ n) \<noteq> ''tmp/''"
    by simp
  from load_configs_prefix [OF this assms(7) fs1(1,2), of d rest cs "[BootHeader]"] run assms(8) fs1(3)
  show ?thesis by auto
qed

lemma Apply_of_loop:
  assumes "apply_loop exs dial sched 0 cfgs ws [] [] = Inr (ws', ls, ds)"
  shows "\<exists>rs. Apply exs dial sched cfgs ws = Inr (None, ws', ls, rs)"
proof -
  from apply_loop_Inr [OF assms] have "\<forall>r \<in> set ds. conn r \<noteq> ConnNil \<and> session_inv r" by auto
  from run_deferred_closes [OF this] assms show ?thesis by (auto simp: Apply_def)
qed

text \<open>The loop only appends, and only configurations that name a host.\<close>

lemma load_configs_wf:
  "load_configs y d cpath ns fs cs lines = (e, fs', cs', ls) \<Longrightarrow> configs_wf cs \<Longrightarrow>
     configs_wf cs' \<and> (\<exists>more. cs' = cs @ more)"
proof (induction y d cpath ns fs cs lines arbitrary: e fs' cs' ls rule: load_configs.induct)
  case (1 y d cpath fs cs lines)
  then show ?case by simp
next
  case (2 y d cpath n ns fs cs lines)
  show ?case
  proof (cases "\<exists>s c0 b fs1. os_ReadFile fs (cpath @ ''/'' @ n) = Inr s \<and> unmarshal y s = Inr c0 \<and>
                   Address (ConfigHost (merge_defaults d c0)) \<noteq> [] \<and>
                   marshal y (merge_defaults d c0) = Inr b \<and>
                   os_WriteFile fs tmp (Address (ConfigHost (merge_defaults d c0)) @ ''.yaml'') b = Inr fs1")
    case True
    then obtain s c0 b fs1 where "os_ReadFile fs (cpath @ ''/'' @ n) = Inr s" "unmarshal y s = Inr c0"
      "Address (ConfigHost (merge_defaults d c0)) \<noteq> []" "marshal y (merge_defaults d c0) = Inr b"
      "os_WriteFile fs tmp (Address (ConfigHost (merge_defaults d c0)) @ ''.yaml'') b = Inr fs1"
      by blast
    moreover from this "2.prems" have "configs_wf (cs @ [merge_defaults d c0])"
      by (simp add: configs_wf_def)
    ultimately show ?thesis using "2.IH"(2) "2.prems"(1)
      by (fastforce simp: Let_def)
  next
    case False
    then show ?thesis using "2.IH"(1) "2.prems"
      by (auto simp: Let_def split: sum.splits if_splits)
  qed
qed

section \<open>Properties of the Bootstrap client\<close>

text \<open>
  C20: Run refines the abstract loading \<open>configs_spec\<close>. When the directory
  lists its entries, every entry reads and parses, the defaults load and
  \<^verbatim>\<open>tmp\<close> can be created, Run returns nil and appends to the configurations
  already held the parsed ones that have an address, in directory order, each
  followed by the defaults' install rules, run rules and files.
\<close>

theorem Client_Run_loads:
  assumes "ldirs fs cpath = Some names" and "\<not> readonly fs" and "lfiles fs tmp = None"
    and "lfiles fs dpath = Some dsrc" and "unmarshal y dsrc = Inr d"
    and "\<forall>n \<in> set names. lfiles fs (cpath @ ''/'' @ n) = Some (src n) \<and> unmarshal y (src n) = Inr (cfg n) \<and>
                           take 4 (cpath @ ''/'' @ n) \<noteq> ''tmp/''"
    and "\<forall>c. \<exists>b. marshal y c = Inr b"
  shows "\<exists>fs' ls. Client_Run y fs cs cpath dpath = (None, fs', cs @ configs_spec d (map cfg names), ls)"
  using Client_Run_prefix [OF assms(1-7), where rest = "[]" and cs = cs]
  unfolding merge_defaults_def configs_spec_def by (auto simp: comp_def)

text \<open>
  C21: a corrupt configuration file stops Run with the wrapped parse error, and
  the configurations loaded before it stay appended to those held.
\<close>

theorem Client_Run_corrupt:
  assumes "ldirs fs cpath = Some (pre @ n # post)" and "\<not> readonly fs" and "lfiles fs tmp = None"
    and "lfiles fs dpath = Some dsrc" and "unmarshal y dsrc = Inr d"
    and "\<forall>m \<in> set pre. lfiles fs (cpath @ ''/'' @ m) = Some (src m) \<and> unmarshal y (src m) = Inr (cfg m) \<and>
                         take 4 (cpath @ ''/'' @ m) \<noteq> ''tmp/''"
    and "\<forall>c. \<exists>b. marshal y c = Inr b"
    and "lfiles fs (cpath @ ''/'' @ n) = Some s" and "take 4 (cpath @ ''/'' @ n) \<noteq> ''tmp/''"
    and "unmarshal y s = Inl e"
  shows "\<exists>fs' ls. Client_Run y fs cs cpath dpath =
           (Some (Wrap (''config file '' @ cpath @ ''/'' @ n @ '' is corrupted, err='' @ err_str e) e), fs',
            cs @ configs_spec d (map cfg pre), ls)"
proof -
  from Client_Run_prefix [OF assms(1-7), of "n # post" cs] obtain fs' ls
    where fr: "\<forall>q. take 4 q \<noteq> ''tmp/'' \<longrightarrow> lfiles fs' q = lfiles fs q"
      and run: "Client_Run y fs cs cpath dpath = load_configs y d cpath (n # post) fs'
             (cs @ [merge_defaults d (cfg m). m \<leftarrow> pre, Address (ConfigHost (cfg m)) \<noteq> []]) ls"
    by blast
  from fr assms(8,9) have "os_ReadFile fs' (cpath @ ''/'' @ n) = Inr s" by (simp add: os_ReadFile_def)
  moreover have "[merge_defaults d (cfg m). m \<leftarrow> pre, Address (ConfigHost (cfg m)) \<noteq> []] =
      configs_spec d (map cfg pre)"
    unfolding merge_defaults_def configs_spec_def by (simp add: comp_def)
  ultimately show ?thesis using run assms(10) by (simp add: Let_def)
qed

text \<open>
  C22: Apply returns nil, and when it returns every session it opened is closed,
  newest first, together with all of its SFTP clients.
\<close>

theorem Apply_closes_every_session:
  assumes "Apply exs dial sched cfgs ws = Inr (e, ws', ls, rs)"
  shows "e = None \<and> map addr rs = rev (reached dial 0 cfgs) \<and>
         (\<forall>r \<in> set rs. conn r = ConnClosed \<and> (\<forall>c \<in> set (clients r). \<not> c))"
proof -
  from assms obtain ws1 ls1 ds where lp: "apply_loop exs dial sched 0 cfgs ws [] [] = Inr (ws1, ls1, ds)"
    and rd: "run_deferred ds = Inr rs" and e: "e = None"
    by (auto simp: Apply_def pbind_eq_Inr_iff)
  from apply_loop_Inr [OF lp] have "\<forall>r \<in> set ds. conn r = ConnOpen \<and> session_inv r"
    and "map addr ds = rev (reached dial 0 cfgs)" by simp_all
  with run_deferred_closes [of ds] rd e show ?thesis by auto
qed

text \<open>
  C23: the sessions are closed only when Apply returns. After the loop over the
  configurations every connected target is still open, one per reached
  configuration: each \<open>defer rmt.Close()\<close> waits for the end of Apply.
\<close>

theorem Apply_holds_sessions:
  assumes "apply_loop exs dial sched 0 cfgs ws [] [] = Inr (ws', ls, ds)"
  shows "map addr ds = rev (reached dial 0 cfgs) \<and> (\<forall>r \<in> set ds. conn r = ConnOpen \<and> session_inv r)"
  using apply_loop_Inr [OF assms] by simp

text \<open>
  C32: \<open>Client.Run\<close> keeps \<open>bs.Configs\<close> well formed on every path, errors
  included: from well-formed configurations it leaves a well-formed list that
  extends them.
\<close>

theorem Client_Run_wf:
  assumes "configs_wf cs" and "Client_Run y fs cs cpath dpath = (e, fs', cs', ls)"
  shows "configs_wf cs' \<and> (\<exists>more. cs' = cs @ more)"
  using assms load_configs_wf [of y _ cpath _ _ cs]
  by (auto simp: Client_Run_def split: sum.splits prod.splits option.splits)

end
