(* ===== verification/DebHost.thy ===== *)
theory DebHost
  imports Bootstrap
begin

text \<open>
  A model of the remote Debian machine, written from the specification's external
  interfaces (section 6), not from code of the repository: it instantiates the
  \<open>executor\<close> interface of \<open>Transport\<close> so that the properties that need a real
  host (idempotence, the batch scenario, ownership resolution) can be stated. The
  command line is split into words at blanks, as the shell does for these commands,
  and each form the target sends is answered:
  \<^item> \<^verbatim>\<open>dpkg-query -f FMT -W n\<close>: the record \<open>n TAB abbrev TAB version TAB n\<close> and
    exit 0 if dpkg knows \<open>n\<close>, otherwise nothing on stdout and exit 1;
  \<^item> \<^verbatim>\<open>apt install n -y\<close>: installs \<open>n\<close> if the repository has it (exit 100 otherwise);
  \<^item> \<^verbatim>\<open>apt purge n -y && apt autoremove -y\<close>: forgets \<open>n\<close> and stops its service;
  \<^item> \<^verbatim>\<open>sudo service n start|restart\<close>: needs password-less sudo, an installed
    package that ships the service;
  \<^item> \<^verbatim>\<open>id -u n\<close>, \<^verbatim>\<open>id -g n\<close>: the uid and the primary gid of the \<^emph>\<open>user\<close> \<open>n\<close>
    (\<open>users\<close> is the password database; \<open>groups\<close>, the group database, is
    not consulted by \<^verbatim>\<open>id\<close>);
  \<^item> anything else: exit 127.

  The later sections run the components on this host: \<open>Ensure\<close> and the batches
  return and keep the package database well formed, \<open>Push\<close> leaves the machine
  alone, and a run of \<open>Client.Apply\<close> installs every install rule the repository
  has, whatever the remove rules said.
\<close>

record Deb =
  dpkg :: "(string \<times> string) list"
  repo :: "string list"
  services :: "string list"
  running :: "string list"
  users :: "(string \<times> int \<times> int) list"
  groups :: "(string \<times> int) list"
  nopasswd_sudo :: bool

definition words :: "string \<Rightarrow> string list" where
  "words s = filter (\<lambda>x. x \<noteq> []) (split_on CHR '' '' s)"

definition exit_with :: "32 word \<Rightarrow> string \<Rightarrow> string \<Rightarrow> ssh_reply" where
  "exit_with c so se = Finished (Some c) [] so se"

definition deb_query :: "Deb \<Rightarrow> string \<Rightarrow> Deb \<times> ssh_reply" where
  "deb_query d n =
     (case map_of (dpkg d) n of
        Some ab \<Rightarrow> (d, exit_with 0 (n @ TAB # ab @ TAB # ''1.0'' @ TAB # n) [])
      | None \<Rightarrow> (d, exit_with 1 [] (''dpkg-query: no packages found matching '' @ n @ [NL])))"

definition deb_install :: "Deb \<Rightarrow> string \<Rightarrow> Deb \<times> ssh_reply" where
  "deb_install d n =
     (if n \<in> set (repo d) then (d\<lparr>dpkg := AList.update n ''ii '' (dpkg d)\<rparr>, exit_with 0 [] [])
      else (d, exit_with 100 [] (''E: Unable to locate package '' @ n @ [NL])))"

definition deb_purge :: "Deb \<Rightarrow> string \<Rightarrow> Deb \<times> ssh_reply" where
  "deb_purge d n =
     (if n \<in> set (repo d) \<or> n \<in> fst ` set (dpkg d)
      then (d\<lparr>dpkg := AList.delete n (dpkg d), running := removeAll n (running d)\<rparr>, exit_with 0 [] [])
      else (d, exit_with 100 [] (''E: Unable to locate package '' @ n @ [NL])))"

definition deb_service :: "Deb \<Rightarrow> string \<Rightarrow> Deb \<times> ssh_reply" where
  "deb_service d n =
     (if \<not> nopasswd_sudo d then (d, exit_with 1 [] ''sudo: a terminal is required to read the password'')
      else if n \<in> set (services d) \<and> map_of (dpkg d) n = Some ''ii ''
      then (d\<lparr>running := n # removeAll n (running d)\<rparr>, exit_with 0 [] [])
      else (d, exit_with 1 [] (n @ '': unrecognized service'')))"

definition deb_id :: "Deb \<Rightarrow> bool \<Rightarrow> string \<Rightarrow> Deb \<times> ssh_reply" where
  "deb_id d is_gid n =
     (case map_of (users d) n of
        Some (u, g) \<Rightarrow> (d, exit_with 0 (go_itoa (if is_gid then g else u) @ [NL]) [])
      | None \<Rightarrow> (d, exit_with 1 [] (''id: '' @ n @ '': no such user'' @ [NL])))"

definition deb_unknown :: "Deb \<Rightarrow> Deb \<times> ssh_reply" where
  "deb_unknown d = (d, exit_with 127 [] ''command not found'')"

definition deb_run :: "Deb \<Rightarrow> string list \<Rightarrow> Deb \<times> ssh_reply" where
  "deb_run d ws =
     (case ws of
        [c0, c1, n] \<Rightarrow>
          (if c0 = ''id'' \<and> c1 = ''-u'' then deb_id d False n
           else if c0 = ''id'' \<and> c1 = ''-g'' then deb_id d True n else deb_unknown d)
      | [c0, c1, n, c3] \<Rightarrow>
          (if c0 = ''apt'' \<and> c1 = ''install'' \<and> c3 = ''-y'' then deb_install d n
           else if c0 = ''sudo'' \<and> c1 = ''service'' \<and> (c3 = ''start'' \<or> c3 = ''restart'')
           then deb_service d n else deb_unknown d)
      | [c0, c1, f, c3, n] \<Rightarrow>
          (if c0 = ''dpkg-query'' \<and> c1 = ''-f'' \<and> f = dpkg_query_fmt \<and> c3 = ''-W''
           then deb_query d n else deb_unknown d)
      | [c0, c1, n, c3, c4, c5, c6, c7] \<Rightarrow>
          (if [c0, c1, c3, c4, c5, c6, c7] = [''apt'', ''purge'', ''-y'', ''&&'', ''apt'', ''autoremove'', ''-y'']
           then deb_purge d n else deb_unknown d)
      | _ \<Rightarrow> deb_unknown d)"

definition deb_exec :: "Deb executor" where
  "deb_exec d cmd stdin = deb_run d (words cmd)"

text \<open>
  A package name the shell passes as one word: not empty, no blank, and no tab
  (a tab would break the parsing of dpkg's record).
\<close>

definition simple_name :: "string \<Rightarrow> bool" where
  "simple_name n \<longleftrightarrow> n \<noteq> [] \<and> CHR '' '' \<notin> set n \<and> TAB \<notin> set n"

text \<open>dpkg's status abbreviations are three bytes without tabs.\<close>

definition deb_wf :: "Deb \<Rightarrow> bool" where
  "deb_wf d \<longleftrightarrow> (\<forall>(n, ab) \<in> set (dpkg d). length ab = 3 \<and> TAB \<notin> set ab)"

definition deb_installed :: "Deb \<Rightarrow> string \<Rightarrow> bool" where
  "deb_installed d n \<longleftrightarrow> (case map_of (dpkg d) n of Some ab \<Rightarrow> ab ! 1 = CHR ''i'' | None \<Rightarrow> False)"

section \<open>The commands the target sends, as words\<close>

lemma words_join:
  assumes "\<forall>x \<in> set ws. x \<noteq> [] \<and> CHR '' '' \<notin> set x" and "ws \<noteq> []"
  shows "words (join_on CHR '' '' ws) = ws"
proof -
  have "split_on CHR '' '' (join_on CHR '' '' ws) = ws"
    using assms by (intro split_on_join) auto
  with assms show ?thesis by (simp add: words_def filter_id_conv)
qed

lemma dpkg_query_fmt_word: "dpkg_query_fmt \<noteq> [] \<and> CHR '' '' \<notin> set dpkg_query_fmt"
  by (simp add: dpkg_query_fmt_def)

lemma check_cmd_join: "check_cmd n = join_on CHR '' '' [''dpkg-query'', ''-f'', dpkg_query_fmt, ''-W'', n]"
  by (simp add: check_cmd_def)

lemma words_check_cmd:
  assumes "simple_name n"
  shows "words (check_cmd n) = [''dpkg-query'', ''-f'', dpkg_query_fmt, ''-W'', n]"
  unfolding check_cmd_join
  by (rule words_join) (use assms in \<open>simp_all add: simple_name_def dpkg_query_fmt_word\<close>)

lemma ensure_cmd_forms:
  "Status p = StatusInstalled \<Longrightarrow> ensure_cmd p = join_on CHR '' '' [''apt'', ''install'', Name p, ''-y'']"
  "Status p = StatusNotInstalled \<Longrightarrow>
     ensure_cmd p = join_on CHR '' '' [''apt'', ''purge'', Name p, ''-y'', ''&&'', ''apt'', ''autoremove'', ''-y'']"
  "Status p = StatusStarted \<Longrightarrow> ensure_cmd p = join_on CHR '' '' [''sudo'', ''service'', Name p, ''start'']"
  "Status p = StatusRestarted \<Longrightarrow> ensure_cmd p = join_on CHR '' '' [''sudo'', ''service'', Name p, ''restart'']"
  by (simp_all add: ensure_cmd_def Let_def)

lemma words_ensure_cmd:
  assumes "simple_name (Name p)"
  shows "Status p = StatusInstalled \<Longrightarrow> words (ensure_cmd p) = [''apt'', ''install'', Name p, ''-y'']"
    and "Status p = StatusNotInstalled \<Longrightarrow>
           words (ensure_cmd p) = [''apt'', ''purge'', Name p, ''-y'', ''&&'', ''apt'', ''autoremove'', ''-y'']"
    and "Status p = StatusStarted \<Longrightarrow> words (ensure_cmd p) = [''sudo'', ''service'', Name p, ''start'']"
    and "Status p = StatusRestarted \<Longrightarrow> words (ensure_cmd p) = [''sudo'', ''service'', Name p, ''restart'']"
proof -
  from assms have n: "Name p \<noteq> []" "CHR '' '' \<notin> set (Name p)" by (simp_all add: simple_name_def)
  have w: "\<And>ws. \<forall>x \<in> set ws. x \<noteq> [] \<and> CHR '' '' \<notin> set x \<Longrightarrow> ws \<noteq> [] \<Longrightarrow>
      words (join_on CHR '' '' ws) = ws"
    by (rule words_join)
  show "Status p = StatusInstalled \<Longrightarrow> words (ensure_cmd p) = [''apt'', ''install'', Name p, ''-y'']"
    by (simp only: ensure_cmd_forms(1)) (rule w, use n in simp_all)
  show "Status p = StatusNotInstalled \<Longrightarrow>
           words (ensure_cmd p) = [''apt'', ''purge'', Name p, ''-y'', ''&&'', ''apt'', ''autoremove'', ''-y'']"
    by (simp only: ensure_cmd_forms(2)) (rule w, use n in simp_all)
  show "Status p = StatusStarted \<Longrightarrow> words (ensure_cmd p) = [''sudo'', ''service'', Name p, ''start'']"
    by (simp only: ensure_cmd_forms(3)) (rule w, use n in simp_all)
  show "Status p = StatusRestarted \<Longrightarrow> words (ensure_cmd p) = [''sudo'', ''service'', Name p, ''restart'']"
    by (simp only: ensure_cmd_forms(4)) (rule w, use n in simp_all)
qed

section \<open>The Debian host answers the target's commands\<close>

lemma deb_exec_query: "simple_name n \<Longrightarrow> deb_exec d (check_cmd n) i = deb_query d n"
  by (simp add: deb_exec_def words_check_cmd deb_run_def)

lemma deb_exec_ensure:
  assumes "simple_name (Name p)"
  shows "Status p = StatusInstalled \<Longrightarrow> deb_exec d (ensure_cmd p) i = deb_install d (Name p)"
    and "Status p = StatusNotInstalled \<Longrightarrow> deb_exec d (ensure_cmd p) i = deb_purge d (Name p)"
    and "Status p = StatusStarted \<Longrightarrow> deb_exec d (ensure_cmd p) i = deb_service d (Name p)"
    and "Status p = StatusRestarted \<Longrightarrow> deb_exec d (ensure_cmd p) i = deb_service d (Name p)"
  using words_ensure_cmd [OF assms] by (simp_all add: deb_exec_def deb_run_def)

lemma Status_installed_byte: "(of_char x :: 8 word) = StatusInstalled \<longleftrightarrow> x = CHR ''i''"
  by (simp only: Status_consts_chars of_char_word8_eq_iff)

text \<open>On a Debian host, \<open>check\<close> for an installed package reports exactly whether dpkg has it installed.\<close>

lemma check_deb_installed:
  assumes "conn r = ConnOpen" and "simple_name (Name p)" and "Status p = StatusInstalled"
    and "deb_wf (host w)"
  shows "check deb_exec r w p =
           Inr (deb_installed (host w) (Name p), None, w\<lparr>issued := issued w @ [check_cmd (Name p)]\<rparr>)"
proof (cases "map_of (dpkg (host w)) (Name p)")
  case None
  then have "deb_exec (host w) (check_cmd (Name p)) [] =
      (host w, Finished (Some 1) [] [] (''dpkg-query: no packages found matching '' @ Name p @ [NL]))"
    using assms(2) by (simp add: deb_exec_query deb_query_def exit_with_def)
  with assms(1,3) None show ?thesis
    by (simp add: check_Finished exit_code_cases deb_installed_def)
next
  case (Some ab)
  with assms(4) have ab: "length ab = 3" "TAB \<notin> set ab"
    by (auto simp: deb_wf_def dest: map_of_SomeD)
  from Some assms(2) have q: "deb_exec (host w) (check_cmd (Name p)) [] =
      (host w, Finished (Some 0) [] (Name p @ TAB # ab @ TAB # ''1.0'' @ TAB # Name p) [])"
    by (simp add: deb_exec_query deb_query_def exit_with_def)
  have "status_byte (Name p @ TAB # ab @ TAB # (''1.0'' @ TAB # Name p)) = Inr (of_char (ab ! 1))"
    using ab assms(2) by (intro status_byte_record) (simp_all add: simple_name_def)
  with q assms(1,3) Some show ?thesis
    by (simp add: check_Finished exit_code_cases deb_installed_def Status_installed_byte)
qed

text \<open>The outcome of \<open>Ensure\<close> for a package to install, on a Debian host.\<close>

lemma Ensure_deb_install:
  assumes "conn r = ConnOpen" and "simple_name (Name p)" and "Status p = StatusInstalled"
    and "deb_wf (host w)"
  shows "Ensure deb_exec r w p =
    (if deb_installed (host w) (Name p)
     then Inr (StatusSatisfied, None, w\<lparr>issued := issued w @ [check_cmd (Name p)]\<rparr>)
     else Inr (if Name p \<in> set (repo (host w)) then StatusEnforced else StatusFailed, None,
               w\<lparr>host := fst (deb_install (host w) (Name p)),
                 issued := issued w @ [check_cmd (Name p), ensure_cmd p]\<rparr>))"
proof -
  note chk = check_deb_installed [OF assms]
  show ?thesis
  proof (cases "deb_installed (host w) (Name p)")
    case True
    with chk assms(3) show ?thesis by (simp add: Ensure_check_ok)
  next
    case False
    have ex: "deb_exec (host (w\<lparr>issued := issued w @ [check_cmd (Name p)]\<rparr>)) (ensure_cmd p) [] =
      (fst (deb_install (host w) (Name p)),
       Finished (Some (if Name p \<in> set (repo (host w)) then 0 else 100)) [] []
         (if Name p \<in> set (repo (host w)) then [] else ''E: Unable to locate package '' @ Name p @ [NL]))"
      using deb_exec_ensure(1) [OF assms(2,3)] by (simp add: deb_install_def exit_with_def)
    from Ensure_act_Finished [OF assms(1) chk _ ex] False assms(3) show ?thesis
      by simp
  qed
qed

section \<open>What installing does to the host\<close>

lemma set_update_subset: "set (AList.update k v al) \<subseteq> insert (k, v) (set al)"
  by (induction al) auto

lemma deb_install_wf: "deb_wf d \<Longrightarrow> deb_wf (fst (deb_install d n))"
  using set_update_subset [of n "''ii ''" "dpkg d"]
  by (auto simp: deb_install_def deb_wf_def)

lemma deb_install_repo [simp]: "repo (fst (deb_install d n)) = repo d"
  by (simp add: deb_install_def)

lemma deb_install_installed_iff:
  "deb_installed (fst (deb_install d n)) m \<longleftrightarrow> deb_installed d m \<or> (m = n \<and> n \<in> set (repo d))"
  by (cases "m = n") (auto simp: deb_install_def deb_installed_def)

lemma deb_install_available [simp]:
  "(deb_installed (fst (deb_install d n)) m \<or> m \<in> set (repo d)) \<longleftrightarrow> deb_installed d m \<or> m \<in> set (repo d)"
  by (auto simp: deb_install_installed_iff)

text \<open>
  A batch install on a Debian host never panics, returns, and leaves installed
  exactly what was installed before and every listed package the repository has,
  whatever happened to the other rules.
\<close>

lemma batch_deb_install:
  assumes "conn r = ConnOpen" and "\<forall>n \<in> set pkgs. simple_name n" and "deb_wf (host w)"
  shows "\<exists>w'. batch OpInstall deb_exec r w pkgs = Inr w' \<and> deb_wf (host w') \<and>
           repo (host w') = repo (host w) \<and>
           (\<forall>m. deb_installed (host w') m \<longleftrightarrow>
                  deb_installed (host w) m \<or> (m \<in> set pkgs \<and> m \<in> set (repo (host w)))) \<and>
           out w' = out w @ concat (map (\<lambda>n. [LogTrying OpInstall n,
              if deb_installed (host w) n \<or> n \<in> set (repo (host w)) then LogDone OpInstall n
              else LogFailed OpInstall n None]) pkgs)"
  using assms(2,3)
proof (induction pkgs arbitrary: w)
  case Nil
  then show ?case by simp
next
  case (Cons pkg pkgs)
  let ?w1 = "w\<lparr>out := out w @ [LogTrying OpInstall pkg]\<rparr>"
  let ?p = "\<lparr>Name = pkg, Status = op_status OpInstall, User = activeUser r\<rparr>"
  have ens: "Ensure deb_exec r ?w1 ?p =
    (if deb_installed (host w) pkg
     then Inr (StatusSatisfied, None, ?w1\<lparr>issued := issued ?w1 @ [check_cmd pkg]\<rparr>)
     else Inr (if pkg \<in> set (repo (host w)) then StatusEnforced else StatusFailed, None,
               ?w1\<lparr>host := fst (deb_install (host w) pkg),
                 issued := issued ?w1 @ [check_cmd pkg, ensure_cmd ?p]\<rparr>))"
    using Ensure_deb_install [OF assms(1), of ?p ?w1] Cons.prems by simp
  show ?case
  proof (cases "deb_installed (host w) pkg")
    case True
    let ?w2 = "?w1\<lparr>issued := issued ?w1 @ [check_cmd pkg]\<rparr>"
    from ens True have step: "batch OpInstall deb_exec r w (pkg # pkgs) =
        batch OpInstall deb_exec r (?w2\<lparr>out := out ?w2 @ [batch_entry OpInstall pkg (StatusSatisfied, None)]\<rparr>) pkgs"
      by (simp add: batch_Cons_step batch_entry_def)
    from Cons.IH [of "?w2\<lparr>out := out ?w2 @ [batch_entry OpInstall pkg (StatusSatisfied, None)]\<rparr>"] Cons.prems
    obtain w' where "batch OpInstall deb_exec r (?w2\<lparr>out := out ?w2 @ [batch_entry OpInstall pkg (StatusSatisfied, None)]\<rparr>) pkgs = Inr w'"
      "deb_wf (host w')" "repo (host w') = repo (host w)"
      "\<forall>m. deb_installed (host w') m \<longleftrightarrow> deb_installed (host w) m \<or> (m \<in> set pkgs \<and> m \<in> set (repo (host w)))"
      "out w' = out w @ [LogTrying OpInstall pkg, LogDone OpInstall pkg] @ concat (map (\<lambda>n. [LogTrying OpInstall n,
              if deb_installed (host w) n \<or> n \<in> set (repo (host w)) then LogDone OpInstall n
              else LogFailed OpInstall n None]) pkgs)"
      by (auto simp: batch_entry_def)
    with step True show ?thesis by auto
  next
    case False
    let ?s = "if pkg \<in> set (repo (host w)) then StatusEnforced else StatusFailed"
    let ?w2 = "?w1\<lparr>host := fst (deb_install (host w) pkg), issued := issued ?w1 @ [check_cmd pkg, ensure_cmd ?p]\<rparr>"
    from ens False have step: "batch OpInstall deb_exec r w (pkg # pkgs) =
        batch OpInstall deb_exec r (?w2\<lparr>out := out ?w2 @ [batch_entry OpInstall pkg (?s, None)]\<rparr>) pkgs"
      by (simp add: batch_Cons_step batch_entry_def)
    have wf2: "deb_wf (host ?w2)" using Cons.prems by (simp add: deb_install_wf)
    from Cons.IH [of "?w2\<lparr>out := out ?w2 @ [batch_entry OpInstall pkg (?s, None)]\<rparr>"] Cons.prems wf2
    obtain w' where "batch OpInstall deb_exec r (?w2\<lparr>out := out ?w2 @ [batch_entry OpInstall pkg (?s, None)]\<rparr>) pkgs = Inr w'"
      "deb_wf (host w')" "repo (host w') = repo (host w)"
      "\<forall>m. deb_installed (host w') m \<longleftrightarrow> deb_installed (host ?w2) m \<or> (m \<in> set pkgs \<and> m \<in> set (repo (host w)))"
      "out w' = out w @ [LogTrying OpInstall pkg, batch_entry OpInstall pkg (?s, None)] @ concat (map (\<lambda>n. [LogTrying OpInstall n,
              if deb_installed (host w) n \<or> n \<in> set (repo (host w)) then LogDone OpInstall n
              else LogFailed OpInstall n None]) pkgs)"
      by auto
    moreover from False have "batch_entry OpInstall pkg (?s, None) =
        (if deb_installed (host w) pkg \<or> pkg \<in> set (repo (host w)) then LogDone OpInstall pkg
         else LogFailed OpInstall pkg None)"
      by (simp add: batch_entry_def)
    ultimately show ?thesis using step by (auto simp: deb_install_installed_iff)
  qed
qed

section \<open>Ownership lookup and push tasks on the Debian host\<close>

lemma words_id:
  "words (''id -u '' @ n) = ''id'' # ''-u'' # words n"
  "words (''id -g '' @ n) = ''id'' # ''-g'' # words n"
proof -
  have "''id -u '' @ n = ''id'' @ CHR '' '' # ''-u'' @ CHR '' '' # n"
       "''id -g '' @ n = ''id'' @ CHR '' '' # ''-g'' @ CHR '' '' # n" by simp_all
  then show "words (''id -u '' @ n) = ''id'' # ''-u'' # words n"
            "words (''id -g '' @ n) = ''id'' # ''-g'' # words n"
    by (simp_all only:) (simp_all add: words_def split_on_append_sep)
qed

lemma deb_run_id_host: "fst (deb_run d (''id'' # ws)) = d"
  by (auto simp: deb_run_def deb_id_def deb_unknown_def split: list.split option.split)

lemma pure_ids_deb: "pure_ids deb_exec"
  unfolding pure_ids_def deb_exec_def words_id by (simp add: deb_run_id_host)

lemma words_simple: "simple_name n \<Longrightarrow> words n = [n]"
  by (simp add: words_def simple_name_def split_on_no_sep)

lemma deb_exec_id:
  assumes "simple_name n"
  shows "deb_exec d (''id -u '' @ n) s = deb_id d False n"
    and "deb_exec d (''id -g '' @ n) s = deb_id d True n"
  unfolding deb_exec_def words_id using words_simple [OF assms] by (simp_all add: deb_run_def)

lemma resolve_id_deb:
  assumes "conn r = ConnOpen" and "deb_exec (host w) (cmd @ n) [] = deb_id (host w) b n"
    and "map_of (users (host w)) n = Some (u, g)"
    and "- (2 ^ 63) \<le> (if b then g else u)" and "(if b then g else u) < 2 ^ 63"
  shows "resolve_id deb_exec r w cmd n m1 m2 =
           Inr (Inr (if b then g else u), w\<lparr>issued := issued w @ [cmd @ n]\<rparr>)"
proof -
  let ?v = "if b then g else u"
  have "deb_exec (host w) (cmd @ n) [] = (host w, Finished (Some 0) [] (go_itoa ?v @ [NL]) [])"
    using assms(2,3) by (simp add: deb_id_def exit_with_def)
  from run_Finished [of r deb_exec w "cmd @ n" "[]" "host w" "Some 0" "[]" "go_itoa ?v @ [NL]" "[]", OF assms(1) this]
  show ?thesis
    using id_output_roundtrip [OF assms(4,5)]
    by (simp add: resolve_id_def exit_code_cases Response_Success_def parse_id_def)
qed

lemma resolve_id_deb_unknown:
  assumes "conn r = ConnOpen" and "deb_exec (host w) (cmd @ n) [] = deb_id (host w) b n"
    and "map_of (users (host w)) n = None"
  shows "resolve_id deb_exec r w cmd n m1 m2 =
           Inr (Inl (Wrap m1 (Msg (''id: '' @ n @ '': no such user'' @ [NL]))), w\<lparr>issued := issued w @ [cmd @ n]\<rparr>)"
proof -
  have "deb_exec (host w) (cmd @ n) [] = (host w, Finished (Some 1) [] [] (''id: '' @ n @ '': no such user'' @ [NL]))"
    using assms(2,3) by (simp add: deb_id_def exit_with_def)
  from run_Finished [of r deb_exec w "cmd @ n" "[]" "host w" "Some 1" "[]" "[]" _, OF assms(1) this]
  show ?thesis by (simp add: resolve_id_def exit_code_cases Response_Success_def)
qed

lemma go_uint32_not_all_ones:
  "0 \<le> x \<Longrightarrow> x < 2 ^ 32 - 1 \<Longrightarrow> go_uint32 x \<noteq> - 1"
proof
  assume "0 \<le> x" "x < 2 ^ 32 - 1" "go_uint32 x = - 1"
  then have "x = uint (- 1 :: 32 word)" using uint_go_uint32_in_range [of x] by simp
  also have "\<dots> = 2 ^ 32 - 1" by (simp add: uint_word_ariths)
  finally show False using \<open>x < 2 ^ 32 - 1\<close> by simp
qed

lemma push_owner_deb:
  assumes "conn r = ConnOpen" and "cl" and "simple_name (Owner f)" and "simple_name (Group f)"
    and "map_of (users (host w)) (Owner f) = Some (u, g0)" and "map_of (users (host w)) (Group f) = Some (u1, g)"
    and "0 \<le> u" "u < 2 ^ 32 - 1" "0 \<le> g" "g < 2 ^ 32 - 1"
    and "fst (login_ids w) = 0" and "rfs w (RemotePath f) = Some x"
  shows "push_owner deb_exec r cl w f =
           Inr (None, w\<lparr>rfs := (rfs w)(RemotePath f \<mapsto> x\<lparr>ruid := go_uint32 u, rgid := go_uint32 g\<rparr>),
                        issued := issued w @ [''id -u '' @ Owner f, ''id -g '' @ Group f],
                        out := out w @ [LogPushed (RemotePath f)]\<rparr>)"
proof -
  let ?w1 = "w\<lparr>issued := issued w @ [''id -u '' @ Owner f]\<rparr>"
  have r1: "resolve_id deb_exec r w ''id -u '' (Owner f) ''owner error'' ''uid error'' = Inr (Inr u, ?w1)"
    using resolve_id_deb [of r w "''id -u ''" "Owner f" False u g0, OF assms(1) deb_exec_id(1) [OF assms(3)] assms(5)]
      assms(7,8) by simp
  have r2: "resolve_id deb_exec r ?w1 ''id -g '' (Group f) ''group error'' ''gid error'' =
              Inr (Inr g, ?w1\<lparr>issued := issued ?w1 @ [''id -g '' @ Group f]\<rparr>)"
    using resolve_id_deb [of r ?w1 "''id -g ''" "Group f" True u1 g, OF assms(1) deb_exec_id(2) [OF assms(4)]]
      assms(6,9,10) by simp
  have "go_uint32 u \<noteq> - 1" "go_uint32 g \<noteq> - 1"
    using go_uint32_not_all_ones assms(7-10) by simp_all
  with r1 r2 assms(2,11,12) show ?thesis
    by (simp add: push_owner_def sftp_chown_def)
qed

lemma push_owner_deb_group_unknown:
  assumes "conn r = ConnOpen" and "simple_name (Owner f)" and "simple_name (Group f)"
    and "map_of (users (host w)) (Owner f) = Some (u, g0)" and "- (2 ^ 63) \<le> u" "u < 2 ^ 63"
    and "map_of (users (host w)) (Group f) = None"
  shows "push_owner deb_exec r cl w f =
           Inr (Some (Wrap ''group error'' (Msg (''id: '' @ Group f @ '': no such user'' @ [NL]))),
                w\<lparr>issued := issued w @ [''id -u '' @ Owner f, ''id -g '' @ Group f]\<rparr>)"
proof -
  let ?w1 = "w\<lparr>issued := issued w @ [''id -u '' @ Owner f]\<rparr>"
  have r1: "resolve_id deb_exec r w ''id -u '' (Owner f) ''owner error'' ''uid error'' = Inr (Inr u, ?w1)"
    using resolve_id_deb [of r w "''id -u ''" "Owner f" False u g0, OF assms(1) deb_exec_id(1) [OF assms(2)] assms(4)]
      assms(5,6) by simp
  have r2: "resolve_id deb_exec r ?w1 ''id -g '' (Group f) ''group error'' ''gid error'' =
              Inr (Inl (Wrap ''group error'' (Msg (''id: '' @ Group f @ '': no such user'' @ [NL]))),
                   ?w1\<lparr>issued := issued ?w1 @ [''id -g '' @ Group f]\<rparr>)"
    using resolve_id_deb_unknown [of r ?w1 "''id -g ''" "Group f" True, OF assms(1) deb_exec_id(2) [OF assms(3)]]
      assms(7) by simp
  from r1 r2 show ?thesis by (simp add: push_owner_def)
qed

text \<open>A push task on the Debian host up to the ownership lookup: the file is created, filled and chmodded.\<close>

lemma push_file_deb_upto_owner:
  assumes "clients r ! c" and "lfs w (LocalPath f) = Some src"
    and "RemotePath f \<notin> set (denied w)" and "int (length (ldata src)) = lsize src"
  obtains w4 y where "push_file deb_exec r c w f = push_owner deb_exec r (clients r ! c) w4 f"
    "host w4 = host w" "login_ids w4 = login_ids w"
    "rfs w4 (RemotePath f) = Some (y\<lparr>rdata := ldata src, rmode := to_chmod_perm (go_filemode (Mode f))\<rparr>)"
proof -
  let ?p = "RemotePath f"
  obtain y where y: "sftp_create (clients r ! c) w ?p = Inr (w\<lparr>rfs := (rfs w)(?p \<mapsto> y)\<rparr>)"
    using assms(1,3) by (simp add: sftp_create_def)
  let ?w3 = "sftp_write ?p (ldata src) ((w\<lparr>rfs := (rfs w)(?p \<mapsto> y)\<rparr>)\<lparr>out := out w @ [LogPushing ?p]\<rparr>)"
  let ?x = "y\<lparr>rdata := ldata src, rmode := to_chmod_perm (go_filemode (Mode f))\<rparr>"
  have m: "sftp_chmod (clients r ! c) ?w3 ?p (go_filemode (Mode f)) = Inr (?w3\<lparr>rfs := (rfs ?w3)(?p \<mapsto> ?x)\<rparr>)"
    using assms(1) by (simp add: sftp_chmod_def sftp_write_def)
  show ?thesis
  proof (rule that)
    show "push_file deb_exec r c w f = push_owner deb_exec r (clients r ! c) (?w3\<lparr>rfs := (rfs ?w3)(?p \<mapsto> ?x)\<rparr>) f"
      using assms(2,4) y m by (simp add: push_file_def Let_def)
  qed (simp_all add: sftp_write_def)
qed


lemma push_file_deb:
  assumes "conn r = ConnOpen" and "clients r ! c" and "lfs w (LocalPath f) = Some src"
    and "RemotePath f \<notin> set (denied w)" and "int (length (ldata src)) = lsize src"
    and "simple_name (Owner f)" and "simple_name (Group f)"
    and "map_of (users (host w)) (Owner f) = Some (u, g0)" and "map_of (users (host w)) (Group f) = Some (u1, g)"
    and "0 \<le> u" "u < 2 ^ 32 - 1" "0 \<le> g" "g < 2 ^ 32 - 1" and "fst (login_ids w) = 0"
  shows "\<exists>w'. push_file deb_exec r c w f = Inr (None, w') \<and>
           rfs w' (RemotePath f) =
             Some \<lparr>rdata = ldata src, rmode = to_chmod_perm (go_filemode (Mode f)),
                   ruid = go_uint32 u, rgid = go_uint32 g\<rparr>"
proof -
  obtain w4 y where pf: "push_file deb_exec r c w f = push_owner deb_exec r (clients r ! c) w4 f"
    and h: "host w4 = host w" "login_ids w4 = login_ids w"
    and y: "rfs w4 (RemotePath f) = Some (y\<lparr>rdata := ldata src, rmode := to_chmod_perm (go_filemode (Mode f))\<rparr>)"
    using push_file_deb_upto_owner [OF assms(2-5)] by blast
  have "push_owner deb_exec r (clients r ! c) w4 f =
          Inr (None, w4\<lparr>rfs := (rfs w4)(RemotePath f \<mapsto>
                  y\<lparr>rdata := ldata src, rmode := to_chmod_perm (go_filemode (Mode f)),
                     ruid := go_uint32 u, rgid := go_uint32 g\<rparr>),
                issued := issued w4 @ [''id -u '' @ Owner f, ''id -g '' @ Group f],
                out := out w4 @ [LogPushed (RemotePath f)]\<rparr>)"
    by (rule push_owner_deb) (use assms h y in simp_all)
  with pf show ?thesis by simp
qed


section \<open>Applying configurations to Debian hosts\<close>

lemma deb_exec_ensure_Finished:
  assumes "simple_name (Name p)" and "Status p \<in> {StatusInstalled, StatusNotInstalled, StatusStarted, StatusRestarted}"
  shows "\<exists>c so se. snd (deb_exec d (ensure_cmd p) i) = Finished (Some c) [] so se"
  using assms deb_exec_ensure [OF assms(1), of d i]
  by (auto simp: deb_install_def deb_purge_def deb_service_def exit_with_def)

lemma check_deb:
  assumes "conn r = ConnOpen" and "simple_name (Name p)" and "deb_wf (host w)"
  shows "\<exists>ok. check deb_exec r w p = Inr (ok, None, w\<lparr>issued := issued w @ [check_cmd (Name p)]\<rparr>)"
proof (cases "map_of (dpkg (host w)) (Name p)")
  case None
  then have "deb_exec (host w) (check_cmd (Name p)) [] =
      (host w, Finished (Some 1) [] [] (''dpkg-query: no packages found matching '' @ Name p @ [NL]))"
    using assms(2) by (simp add: deb_exec_query deb_query_def exit_with_def)
  with assms(1) show ?thesis
    by (auto simp: check_Finished status_byte_no_tab Let_def)
next
  case (Some ab)
  with assms(3) have ab: "length ab = 3" "TAB \<notin> set ab"
    by (auto simp: deb_wf_def dest: map_of_SomeD)
  from Some assms(2) have q: "deb_exec (host w) (check_cmd (Name p)) [] =
      (host w, Finished (Some 0) [] (Name p @ TAB # ab @ TAB # ''1.0'' @ TAB # Name p) [])"
    by (simp add: deb_exec_query deb_query_def exit_with_def)
  have "status_byte (Name p @ TAB # ab @ TAB # (''1.0'' @ TAB # Name p)) = Inr (of_char (ab ! 1))"
    using ab assms(2) by (intro status_byte_record) (simp_all add: simple_name_def)
  with q assms(1) show ?thesis
    by (auto simp: check_Finished Let_def)
qed

text \<open>On a Debian host \<open>Ensure\<close> returns, and leaves the machine as it was or as the corrective command left it.\<close>

lemma Ensure_deb_step:
  assumes "conn r = ConnOpen" and "simple_name (Name p)" and "deb_wf (host w)"
    and "Status p \<in> {StatusInstalled, StatusNotInstalled, StatusStarted, StatusRestarted}"
  shows "\<exists>s e w'. Ensure deb_exec r w p = Inr (s, e, w') \<and>
           (host w' = host w \<or> host w' = fst (deb_exec (host w) (ensure_cmd p) []))"
proof -
  from check_deb [OF assms(1-3)] obtain ok
    where ck: "check deb_exec r w p = Inr (ok, None, w\<lparr>issued := issued w @ [check_cmd (Name p)]\<rparr>)" ..
  show ?thesis
  proof (cases "ok \<and> \<not> APT_Service p")
    case True
    with ck show ?thesis by (simp add: Ensure_check_ok)
  next
    case False
    from deb_exec_ensure_Finished [OF assms(2,4), of "host w" "[]"] obtain c so se
      where "snd (deb_exec (host w) (ensure_cmd p) []) = Finished (Some c) [] so se" by blast
    then have ex: "deb_exec (host (w\<lparr>issued := issued w @ [check_cmd (Name p)]\<rparr>)) (ensure_cmd p) [] =
        (fst (deb_exec (host w) (ensure_cmd p) []), Finished (Some c) [] so se)"
      by (simp add: prod_eq_iff)
    from Ensure_act_Finished [OF assms(1) ck False ex] show ?thesis by simp
  qed
qed

lemma op_status_cases: "op_status op \<in> {StatusInstalled, StatusNotInstalled, StatusStarted, StatusRestarted}"
  by (cases op) simp_all

text \<open>
  A batch on a Debian host returns, and keeps every property of the machine that
  each corrective command of the batch keeps.
\<close>

lemma batch_deb_inv:
  assumes "conn r = ConnOpen" and "\<forall>n \<in> set pkgs. simple_name n" and "deb_wf (host w)" and "P (host w)"
    and step: "\<And>d n. simple_name n \<Longrightarrow> deb_wf d \<Longrightarrow> P d \<Longrightarrow>
                 deb_wf (fst (deb_exec d (ensure_cmd \<lparr>Name = n, Status = op_status op, User = activeUser r\<rparr>) [])) \<and>
                 P (fst (deb_exec d (ensure_cmd \<lparr>Name = n, Status = op_status op, User = activeUser r\<rparr>) []))"
  shows "\<exists>w'. batch op deb_exec r w pkgs = Inr w' \<and> deb_wf (host w') \<and> P (host w')"
  using assms(2-4)
proof (induction pkgs arbitrary: w)
  case (Cons pkg pkgs)
  let ?w1 = "w\<lparr>out := out w @ [LogTrying op pkg]\<rparr>"
  let ?p = "\<lparr>Name = pkg, Status = op_status op, User = activeUser r\<rparr>"
  from Ensure_deb_step [OF assms(1), of ?p ?w1] Cons.prems op_status_cases [of op]
  obtain s e w2 where ens: "Ensure deb_exec r ?w1 ?p = Inr (s, e, w2)"
    and h: "host w2 = host w \<or> host w2 = fst (deb_exec (host w) (ensure_cmd ?p) [])"
    by auto
  from h step [where d = "host w" and n = pkg] Cons.prems have "deb_wf (host w2) \<and> P (host w2)" by auto
  with Cons.IH [of "w2\<lparr>out := out w2 @ [batch_entry op pkg (s, e)]\<rparr>"] Cons.prems batch_Cons_step [OF ens]
  show ?case by auto
qed simp

lemma deb_purge_keeps: "deb_wf d \<Longrightarrow> deb_wf (fst (deb_purge d n)) \<and> repo (fst (deb_purge d n)) = repo d"
  by (auto simp: deb_purge_def deb_wf_def AList.delete_eq)

lemma deb_service_keeps: "dpkg (fst (deb_service d n)) = dpkg d \<and> repo (fst (deb_service d n)) = repo d"
  by (simp add: deb_service_def)

lemma batch_deb_remove:
  assumes "conn r = ConnOpen" and "\<forall>n \<in> set pkgs. simple_name n" and "deb_wf (host w)"
  shows "\<exists>w'. batch OpRemove deb_exec r w pkgs = Inr w' \<and> deb_wf (host w') \<and> repo (host w') = repo (host w)"
  using deb_exec_ensure(2) deb_purge_keeps
  by (intro batch_deb_inv [OF assms, where P = "\<lambda>d. repo d = repo (host w)"]) simp_all

lemma batch_deb_service:
  assumes "conn r = ConnOpen" and "\<forall>n \<in> set pkgs. simple_name n" and "deb_wf (host w)"
    and "op = OpRun \<or> op = OpRestart"
  shows "\<exists>w'. batch op deb_exec r w pkgs = Inr w' \<and> dpkg (host w') = dpkg (host w) \<and> repo (host w') = repo (host w)"
proof -
  have "\<exists>w'. batch op deb_exec r w pkgs = Inr w' \<and> deb_wf (host w') \<and>
           dpkg (host w') = dpkg (host w) \<and> repo (host w') = repo (host w)"
    using assms(4) deb_exec_ensure(3,4) deb_service_keeps
    by (intro batch_deb_inv [OF assms(1-3), where P = "\<lambda>d. dpkg d = dpkg (host w) \<and> repo d = repo (host w)"])
       (auto simp: deb_wf_def)
  then show ?thesis by blast
qed

lemma deb_installed_dpkg: "dpkg d' = dpkg d \<Longrightarrow> deb_installed d' m = deb_installed d m"
  by (simp add: deb_installed_def)

lemma deb_wf_dpkg: "dpkg d' = dpkg d \<Longrightarrow> deb_wf d' = deb_wf d"
  by (simp add: deb_wf_def)

text \<open>
  One host's run on a Debian machine returns; it leaves installed every install
  rule the repository has, whatever the remove rules said.
\<close>

lemma apply_host_deb:
  assumes "conn r = ConnOpen" and "deb_wf (host w)"
    and "\<forall>n \<in> set (RemoveRules cfg @ InstallRules cfg @ RunRules cfg @ RestartRules cfg). simple_name n"
  shows "\<exists>r' w' l. apply_host deb_exec r w cfg s = Inr (r', w', l) \<and> deb_wf (host w') \<and>
           repo (host w') = repo (host w) \<and>
           (\<forall>m \<in> set (InstallRules cfg). m \<in> set (repo (host w)) \<longrightarrow> deb_installed (host w') m)"
proof -
  from assms(3) have sn: "\<forall>n \<in> set (RemoveRules cfg). simple_name n" "\<forall>n \<in> set (InstallRules cfg). simple_name n"
    "\<forall>n \<in> set (RunRules cfg). simple_name n" "\<forall>n \<in> set (RestartRules cfg). simple_name n"
    by simp_all
  from batch_deb_remove [OF assms(1) sn(1) assms(2)] obtain w1
    where b1: "batch OpRemove deb_exec r w (RemoveRules cfg) = Inr w1" "deb_wf (host w1)" "repo (host w1) = repo (host w)"
    by blast
  from batch_deb_install [OF assms(1) sn(2) b1(2)] obtain w2
    where b2: "batch OpInstall deb_exec r w1 (InstallRules cfg) = Inr w2" "deb_wf (host w2)" "repo (host w2) = repo (host w1)"
      "\<forall>m. deb_installed (host w2) m \<longleftrightarrow> deb_installed (host w1) m \<or> (m \<in> set (InstallRules cfg) \<and> m \<in> set (repo (host w1)))"
    by blast
  from batch_deb_service [OF assms(1) sn(3) b2(2) disjI1 [OF refl]] obtain w3
    where b3: "batch OpRun deb_exec r w2 (RunRules cfg) = Inr w3" "dpkg (host w3) = dpkg (host w2)" "repo (host w3) = repo (host w2)"
    by blast
  from deb_wf_dpkg [OF b3(2)] b2(2) have wf3: "deb_wf (host w3)" by simp
  from batch_deb_service [OF assms(1) sn(4) wf3 disjI2 [OF refl]] obtain w4
    where b4: "batch OpRestart deb_exec r w3 (RestartRules cfg) = Inr w4" "dpkg (host w4) = dpkg (host w3)" "repo (host w4) = repo (host w3)"
    by blast
  from assms(1) have "conn r \<noteq> ConnNil" by simp
  from Push_pure [OF pure_ids_deb this, of w4 "Files cfg" s] obtain e5 r5 w5
    where p5: "Push deb_exec r w4 (Files cfg) s = Inr (e5, r5, w5)" "host w5 = host w4"
    by blast
  from Push_remote [OF p5(1)] assms(1) have c5: "conn r5 = ConnOpen" by simp
  have d5: "dpkg (host w5) = dpkg (host w2)" using p5(2) b4(2) b3(2) by simp
  from deb_wf_dpkg [OF d5] b2(2) have wf5: "deb_wf (host w5)" by simp
  have "\<forall>n \<in> set [''apache2'']. simple_name n" by (simp add: simple_name_def)
  from batch_deb_service [OF c5 this wf5 disjI2 [OF refl]] obtain w6
    where b6: "batch OpRestart deb_exec r5 w5 [''apache2''] = Inr w6" "dpkg (host w6) = dpkg (host w5)" "repo (host w6) = repo (host w5)"
    by blast
  have d6: "dpkg (host w6) = dpkg (host w2)" using b6(2) d5 by simp
  from apply_host_seq [OF b1(1) b2(1) b3(1) b4(1) p5(1) b6(1)]
  have "\<exists>l. apply_host deb_exec r w cfg s = Inr (r5, w6, l)" .
  moreover from deb_wf_dpkg [OF d6] b2(2) have "deb_wf (host w6)" by simp
  moreover have "repo (host w6) = repo (host w)" using b6(3) p5(2) b4(3) b3(3) b2(3) b1(3) by simp
  moreover have "\<forall>m \<in> set (InstallRules cfg). m \<in> set (repo (host w)) \<longrightarrow> deb_installed (host w6) m"
    using deb_installed_dpkg [OF d6] b2(4) b1(3) by simp
  ultimately show ?thesis by blast
qed


text \<open>
  The loop on Debian machines, each reached at most once: it returns, and every
  reached host ends with its install rules installed as far as its repository has them.
\<close>

lemma apply_loop_deb:
  assumes "\<forall>c \<in> set cfgs. \<forall>n \<in> set (RemoveRules c @ InstallRules c @ RunRules c @ RestartRules c). simple_name n"
    and "\<forall>a. deb_wf (host (ws a))" and "distinct (reached dial i cfgs)"
  shows "\<exists>ws' ls' ds'. apply_loop (\<lambda>_. deb_exec) dial sched i cfgs ws ls ds = Inr (ws', ls', ds') \<and>
           (\<forall>a. deb_wf (host (ws' a)) \<and> repo (host (ws' a)) = repo (host (ws a))) \<and>
           (\<forall>k < length cfgs. dial (i + k) = None \<longrightarrow>
              (\<forall>m \<in> set (InstallRules (cfgs ! k)). m \<in> set (repo (host (ws (host_addr (cfgs ! k))))) \<longrightarrow>
                 deb_installed (host (ws' (host_addr (cfgs ! k)))) m))"
  using assms
proof (induction cfgs arbitrary: i ws ls ds)
  case Nil
  then show ?case by simp
next
  case (Cons cfg cfgs)
  let ?a = "host_addr cfg"
  obtain r e where nw: "New ?a (HostUser (ConfigHost cfg)) (Password (ConfigHost cfg)) (dial i) = (r, e)"
    by fastforce
  show ?case
  proof (cases e)
    case (Some g)
    with nw New_result have d: "dial i \<noteq> None" by blast
    with Cons.prems(3) have "distinct (reached dial (Suc i) cfgs)" by simp
    with Cons.IH [where i = "Suc i" and ws = ws and ls = "ls @ [BootNoHost r g]" and ds = ds] Cons.prems(1,2)
    obtain ws' ls' ds' where ih: "apply_loop (\<lambda>_. deb_exec) dial sched (Suc i) cfgs ws (ls @ [BootNoHost r g]) ds = Inr (ws', ls', ds')"
      "\<forall>a. deb_wf (host (ws' a)) \<and> repo (host (ws' a)) = repo (host (ws a))"
      "\<forall>k < length cfgs. dial (Suc i + k) = None \<longrightarrow>
         (\<forall>m \<in> set (InstallRules (cfgs ! k)). m \<in> set (repo (host (ws (host_addr (cfgs ! k))))) \<longrightarrow>
            deb_installed (host (ws' (host_addr (cfgs ! k)))) m)"
      by auto
    from ih(1) nw Some have run: "apply_loop (\<lambda>_. deb_exec) dial sched i (cfg # cfgs) ws ls ds = Inr (ws', ls', ds')"
      by simp
    have "\<forall>k < length (cfg # cfgs). dial (i + k) = None \<longrightarrow>
         (\<forall>m \<in> set (InstallRules ((cfg # cfgs) ! k)). m \<in> set (repo (host (ws (host_addr ((cfg # cfgs) ! k))))) \<longrightarrow>
            deb_installed (host (ws' (host_addr ((cfg # cfgs) ! k)))) m)"
    proof (intro allI impI)
      fix k assume k: "k < length (cfg # cfgs)" "dial (i + k) = None"
      with d obtain k' where "k = Suc k'" "k' < length cfgs" "dial (Suc i + k') = None"
        by (cases k) auto
      with ih(3) show "\<forall>m \<in> set (InstallRules ((cfg # cfgs) ! k)). m \<in> set (repo (host (ws (host_addr ((cfg # cfgs) ! k))))) \<longrightarrow>
            deb_installed (host (ws' (host_addr ((cfg # cfgs) ! k)))) m" by simp
    qed
    with run ih(2) show ?thesis by blast
  next
    case None
    with nw have r: "conn r = ConnOpen \<and> dial i = None"
      by (blast dest: New_open)
    from Cons.prems(1) have sn: "\<forall>n \<in> set (RemoveRules cfg @ InstallRules cfg @ RunRules cfg @ RestartRules cfg). simple_name n"
      by simp
    from apply_host_deb [OF _ _ sn, of r "ws ?a" "sched i"] r Cons.prems(2)
    obtain r' w' l where ah: "apply_host deb_exec r (ws ?a) cfg (sched i) = Inr (r', w', l)"
      and w': "deb_wf (host w')" "repo (host w') = repo (host (ws ?a))"
        "\<forall>m \<in> set (InstallRules cfg). m \<in> set (repo (host (ws ?a))) \<longrightarrow> deb_installed (host w') m"
      by blast
    let ?ws1 = "ws(?a := w')"
    from Cons.prems(3) r have dist: "distinct (reached dial (Suc i) cfgs)" and fresh: "?a \<notin> set (reached dial (Suc i) cfgs)"
      by simp_all
    from Cons.prems(2) w'(1) have wf1: "\<forall>a. deb_wf (host (?ws1 a))" by simp
    from Cons.prems(1) have sc: "\<forall>c \<in> set cfgs. \<forall>n \<in> set (RemoveRules c @ InstallRules c @ RunRules c @ RestartRules c). simple_name n"
      by simp
    from Cons.IH [OF sc wf1 dist, where ls = "ls @ l" and ds = "r' # ds"]
    obtain ws' ls' ds' where ih: "apply_loop (\<lambda>_. deb_exec) dial sched (Suc i) cfgs ?ws1 (ls @ l) (r' # ds) = Inr (ws', ls', ds')"
      "\<forall>a. deb_wf (host (ws' a)) \<and> repo (host (ws' a)) = repo (host (?ws1 a))"
      "\<forall>k < length cfgs. dial (Suc i + k) = None \<longrightarrow>
         (\<forall>m \<in> set (InstallRules (cfgs ! k)). m \<in> set (repo (host (?ws1 (host_addr (cfgs ! k))))) \<longrightarrow>
            deb_installed (host (ws' (host_addr (cfgs ! k)))) m)"
      by blast
    from ih(1) nw None ah have run: "apply_loop (\<lambda>_. deb_exec) dial sched i (cfg # cfgs) ws ls ds = Inr (ws', ls', ds')"
      by (simp add: Let_def)
    from apply_loop_frame [OF ih(1) fresh] have keep: "ws' ?a = w'" by simp
    have repo1: "\<forall>a. repo (host (?ws1 a)) = repo (host (ws a))" using w'(2) by simp
    have "\<forall>k < length (cfg # cfgs). dial (i + k) = None \<longrightarrow>
         (\<forall>m \<in> set (InstallRules ((cfg # cfgs) ! k)). m \<in> set (repo (host (ws (host_addr ((cfg # cfgs) ! k))))) \<longrightarrow>
            deb_installed (host (ws' (host_addr ((cfg # cfgs) ! k)))) m)"
    proof (intro allI impI)
      fix k assume k: "k < length (cfg # cfgs)" "dial (i + k) = None"
      show "\<forall>m \<in> set (InstallRules ((cfg # cfgs) ! k)). m \<in> set (repo (host (ws (host_addr ((cfg # cfgs) ! k))))) \<longrightarrow>
            deb_installed (host (ws' (host_addr ((cfg # cfgs) ! k)))) m"
      proof (cases k)
        case 0
        with keep w'(3) show ?thesis by simp
      next
        case (Suc k')
        with k ih(3) repo1 show ?thesis by simp
      qed
    qed
    with run ih(2) repo1 show ?thesis by auto
  qed
qed


lemma Apply_deb_returns:
  assumes "\<forall>c \<in> set cfgs. \<forall>n \<in> set (RemoveRules c @ InstallRules c @ RunRules c @ RestartRules c). simple_name n"
    and "\<forall>a. deb_wf (host (ws a))" and "distinct (reached dial 0 cfgs)"
  shows "\<exists>ws' ls ds rs. apply_loop (\<lambda>_. deb_exec) dial sched 0 cfgs ws [] [] = Inr (ws', ls, ds) \<and>
           Apply (\<lambda>_. deb_exec) dial sched cfgs ws = Inr (None, ws', ls, rs)"
proof -
  from apply_loop_deb [OF assms, of sched "[]" "[]"] obtain ws' ls ds
    where lp: "apply_loop (\<lambda>_. deb_exec) dial sched 0 cfgs ws [] [] = Inr (ws', ls, ds)" by blast
  with Apply_of_loop [OF lp] show ?thesis by blast
qed

end
