(* ===== verification/Cli.thy ===== *)
theory Cli
  imports Bootstrap
begin

text \<open>
  The command-line entry point, \<^verbatim>\<open>src/cmd/main.go\<close> (\<open>main\<close>, lines 23--54): load
  the configurations of \<^verbatim>\<open>config\<close> with the defaults of \<^verbatim>\<open>defaults.yaml\<close>
  (\<open>Client.Run\<close>, a panic on error), ask for confirmation on standard input, and
  apply the configurations (\<open>Client.Apply\<close>) only on a \<^verbatim>\<open>y\<close> or \<^verbatim>\<open>yes\<close>. The
  reading of the answer (\<open>bufio.Reader.ReadString\<close>) and \<open>strings.ToLower\<close> are
  modelled from their documentation; standard input is the string the user typed.
\<close>

section \<open>Constants\<close>

text \<open>Lines 13--15: where \<open>main\<close> reads the configurations and their defaults.\<close>

definition DefaultPHPServerConfig :: string where "DefaultPHPServerConfig = ''defaults.yaml''"

definition ConfigDir :: string where "ConfigDir = ''config''"

section \<open>Reading the answer\<close>

text \<open>
  \<open>ReadString('\n')\<close> returns the input up to and including the first newline, or
  the error \<open>EOF\<close> when the input ends before one.
\<close>

definition read_string :: "string \<Rightarrow> gerr + string" where
  "read_string s = (if NL \<in> set s then Inr (takeWhile (\<lambda>c. c \<noteq> NL) s @ [NL]) else Inl (Msg ''EOF''))"

text \<open>
  \<open>strings.ToLower\<close> on ASCII letters; other bytes are kept (Go also lowers
  non-ASCII letters, none of which lowers to an ASCII letter).
\<close>

definition lower_char :: "char \<Rightarrow> char" where
  "lower_char c = (if 65 \<le> (of_char c :: nat) \<and> (of_char c :: nat) \<le> 90 then char_of (of_char c + (32 :: nat)) else c)"

definition go_ToLower :: "string \<Rightarrow> string" where
  "go_ToLower s = map lower_char s"

datatype cli_answer = AnswerNo | AnswerAbort | AnswerYes

text \<open>Lines 38--48: normalise the answer, exit on no, abort on anything but yes.\<close>

definition cli_answer :: "string \<Rightarrow> cli_answer" where
  "cli_answer input =
     (let x = go_ToLower (remove_newlines (trim_space input)) in
      if x = ''n'' \<or> x = ''no'' then AnswerNo
      else if x \<noteq> ''n'' \<and> x \<noteq> ''no'' \<and> x \<noteq> ''y'' \<and> x \<noteq> ''yes'' then AnswerAbort
      else AnswerYes)"

section \<open>main\<close>

datatype cli_line = CliBoot boot_line | CliPrompt | CliAbort | CliApplyError gerr

text \<open>
  \<open>main\<close>: a panic is the text it prints; otherwise the local file system, the
  machines and the lines printed. \<open>os.Exit(0)\<close> and the normal return both end
  the program with the state reached.
\<close>

definition main_go :: "Yaml \<Rightarrow> LocalFS \<Rightarrow> string \<Rightarrow> (string \<Rightarrow> 'h executor) \<Rightarrow> (nat \<Rightarrow> goerror) \<Rightarrow>
                       (nat \<Rightarrow> nat list) \<Rightarrow> (string \<Rightarrow> 'h World) \<Rightarrow>
                       (LocalFS \<times> (string \<Rightarrow> 'h World) \<times> cli_line list) panicking" where
  "main_go y fs stdin exs dial sched ws =
     (case Client_Run y fs [] ConfigDir DefaultPHPServerConfig of
        (Some e, fs1, cfgs, ls) \<Rightarrow> Inl (err_str e)
      | (None, fs1, cfgs, ls) \<Rightarrow>
          (let out1 = map CliBoot ls @ [CliPrompt] in
           case read_string stdin of
             Inl e \<Rightarrow> Inl (err_str (Wrap ''stdin error'' e))
           | Inr input \<Rightarrow>
               (case cli_answer input of
                  AnswerNo \<Rightarrow> Inr (fs1, ws, out1)
                | AnswerAbort \<Rightarrow> Inr (fs1, ws, out1 @ [CliAbort])
                | AnswerYes \<Rightarrow>
                    pbind (Apply exs dial sched cfgs ws) (\<lambda>(e, ws', ls2, rs).
                      Inr (fs1, ws', out1 @ map CliBoot ls2 @
                                     (case e of None \<Rightarrow> [] | Some g \<Rightarrow> [CliApplyError g]))))))"

section \<open>The answer\<close>

lemma trim_space_snoc_space:
  assumes "is_space c"
  shows "trim_space (s @ [c]) = trim_space s"
proof (cases "\<forall>x \<in> set s. is_space x")
  case True
  with assms have "dropWhile is_space s = []" "dropWhile is_space (s @ [c]) = []"
    by (simp_all add: dropWhile_eq_Nil_conv)
  then show ?thesis by (simp only: trim_space_def)
next
  case False
  then have "dropWhile is_space (s @ [c]) = dropWhile is_space s @ [c]"
    by (meson dropWhile_append1)
  with assms show ?thesis by (simp add: trim_space_def)
qed

lemma set_trim_space: "set (trim_space s) \<subseteq> set s"
  by (auto simp: trim_space_def dest!: set_dropWhileD)

lemma read_string_line:
  "NL \<notin> set line \<Longrightarrow> read_string (line @ NL # rest) = Inr (line @ [NL])"
  unfolding read_string_def by (induction line) auto

text \<open>The answer is the first line without surrounding blanks, in any case.\<close>

lemma cli_answer_line:
  assumes "NL \<notin> set line"
  shows "cli_answer (line @ [NL]) =
           (if go_ToLower (trim_space line) \<in> {''n'', ''no''} then AnswerNo
            else if go_ToLower (trim_space line) \<in> {''y'', ''yes''} then AnswerYes else AnswerAbort)"
proof -
  have "is_space NL" by (simp add: is_space_def)
  then have t: "trim_space (line @ [NL]) = trim_space line" by (rule trim_space_snoc_space)
  from assms set_trim_space [of line] have "remove_newlines (trim_space line) = trim_space line"
    by (auto simp: remove_newlines_def filter_id_conv)
  with t show ?thesis by (auto simp: cli_answer_def Let_def)
qed

section \<open>Properties of the entry point\<close>

text \<open>
  C25: once the configurations are loaded, \<open>main\<close> touches no machine unless
  the first line of standard input, without surrounding blanks and in any case,
  is \<^verbatim>\<open>y\<close> or \<^verbatim>\<open>yes\<close>; on such an answer its machines are those
  \<open>Client.Apply\<close> leaves.
\<close>

theorem main_go_confirmation:
  assumes "Client_Run y fs [] ''config'' ''defaults.yaml'' = (None, fs1, cfgs, ls)" and "NL \<notin> set line"
  shows "(go_ToLower (trim_space line) \<notin> {''y'', ''yes''} \<longrightarrow>
            (\<exists>out. main_go y fs (line @ NL # rest) exs dial sched ws = Inr (fs1, ws, out))) \<and>
         (go_ToLower (trim_space line) \<in> {''y'', ''yes''} \<longrightarrow> Apply exs dial sched cfgs ws = Inr (e, ws', ls2, rs) \<longrightarrow>
            (\<exists>out. main_go y fs (line @ NL # rest) exs dial sched ws = Inr (fs1, ws', out)))"
  using assms read_string_line [OF assms(2)] cli_answer_line [OF assms(2)]
  by (auto simp: main_go_def ConfigDir_def DefaultPHPServerConfig_def Let_def)

text \<open>
  C26: \<open>main\<close> panics, before touching any machine, when loading fails, and when
  standard input ends before a newline, even after a \<^verbatim>\<open>y\<close>.
\<close>

theorem main_go_panics:
  "(Client_Run y fs [] ''config'' ''defaults.yaml'' = (Some e, fs1, cs, ls) \<longrightarrow>
      main_go y fs stdin exs dial sched ws = Inl (err_str e)) \<and>
   (Client_Run y fs [] ''config'' ''defaults.yaml'' = (None, fs1, cs, ls) \<longrightarrow> NL \<notin> set stdin \<longrightarrow>
      main_go y fs stdin exs dial sched ws = Inl ''stdin error: EOF'')"
  by (simp add: main_go_def ConfigDir_def DefaultPHPServerConfig_def read_string_def Let_def)

end
