(* ===== verification/TestServer.thy ===== *)
theory TestServer
  imports Bootstrap Reconciler Distributor
begin

text \<open>
  The SSH server the repository's tests run against, \<^verbatim>\<open>src/internal/testutils.go\<close>.
  \<open>SetupTestSSH\<close> (lines 26--64) is a \<open>partial_function (option)\<close> over the
  outcomes of \<open>Accept\<close>, of the key generation of \<open>getServerConfig\<close> and of the
  handshake, one per connection, and over what \<open>done\<close> holds at each \<open>select\<close>:
  \<open>None\<close> is a server that never returns. \<open>handleChannels\<close> and \<open>handleChannel\<close>
  (lines 82--151) give the messages the server sends on each channel for each
  request. Their \<open>exec\<close> branch, seen from the client, is the executor
  \<open>test_exec\<close>: whatever the command, exit status 0 and the output \<^verbatim>\<open>test\<close>, or
  the uid of the user running the server when the request's payload contains
  \<^verbatim>\<open>-u\<close>, or its gid when it contains \<^verbatim>\<open>-g\<close>. The payload is the command as
  SSH marshals a string: four length bytes, big-endian, then the bytes. The
  \<open>subsystem\<close> branch starts an SFTP server on the server's own files, which is
  the \<open>rfs\<close> of the world. \<open>user.Current()\<close> is cached by Go, so every request
  sees the same outcome.
\<close>

section \<open>The exec handler\<close>

text \<open>\<open>strings.Contains(s, t)\<close>: \<open>t\<close> occurs in \<open>s\<close> as a contiguous block.\<close>

fun go_contains :: "string \<Rightarrow> string \<Rightarrow> bool" where
  "go_contains [] t = (t = [])"
| "go_contains (c # s) t = (take (length t) (c # s) = t \<or> go_contains s t)"

text \<open>\<open>ssh.Marshal\<close> of the exec request \<open>struct { Command string }\<close>.\<close>

definition ssh_string :: "string \<Rightarrow> string" where
  "ssh_string s = map (\<lambda>k. char_of (length s div 256 ^ k mod 256)) [3, 2, 1, 0 :: nat] @ s"

definition test_exec :: "string \<Rightarrow> string \<Rightarrow> unit executor" where
  "test_exec uid gid h cmd stdin =
     (let p = ssh_string cmd;
          w1 = (if go_contains p ''-u'' then uid else ''test'');
          w2 = (if go_contains p ''-g'' then gid else w1)
      in (h, Finished (Some 0) [] w2 []))"

section \<open>The server's address\<close>

text \<open>Lines 16--20: where the server listens and the tests connect.\<close>

definition LocalAddr :: string where "LocalAddr = ''localhost''"

definition LocalPort :: int where "LocalPort = 2222"

definition LocalAddrString :: string where "LocalAddrString = ''localhost:2222''"

section \<open>Requests on a channel\<close>

text \<open>
  \<open>handleChannel\<close> (lines 93--151) accepts the channel and answers its requests
  in order. A request has a type, a want-reply flag and a payload; what the
  server sends back on the channel is a list of messages. \<open>user.Current()\<close> is
  the pair (uid, gid) or an error, after which \<open>u\<close> is nil.
\<close>

datatype ssh_req = SshReq (req_type: string) (want_reply: bool) (payload: string)

datatype srv_msg =
    MsgReply bool string
  | MsgData string
  | MsgExitStatus "32 word"
  | MsgCloseWrite
  | MsgClose
  | MsgSftpServe

text \<open>Lines 129--137: \<open>u.Uid\<close> and \<open>u.Gid\<close> are read only on their branch.\<close>

definition exec_output :: "gerr + string \<times> string \<Rightarrow> string \<Rightarrow> string panicking" where
  "exec_output cur p =
     pbind (if go_contains p ''-u''
            then (case cur of Inl e \<Rightarrow> Inl ''nil pointer dereference'' | Inr (uid, gid) \<Rightarrow> Inr uid)
            else Inr ''test'')
       (\<lambda>w. if go_contains p ''-g''
            then (case cur of Inl e \<Rightarrow> Inl ''nil pointer dereference'' | Inr (uid, gid) \<Rightarrow> Inr gid)
            else Inr w)"

text \<open>One request: the lines printed and the messages sent.\<close>

definition handle_request :: "gerr + string \<times> string \<Rightarrow> ssh_req \<Rightarrow> (string list \<times> srv_msg list) panicking" where
  "handle_request cur req =
     (if req_type req = ''subsystem'' then Inr ([], [MsgSftpServe, MsgReply True []])
      else if req_type req = ''exec'' then
        pbind (exec_output cur (payload req)) (\<lambda>w.
          Inr (case cur of Inl e \<Rightarrow> [err_str e] | Inr u \<Rightarrow> [],
               (if want_reply req then [MsgReply True w, MsgData w] else []) @
               [MsgExitStatus 0, MsgCloseWrite, MsgClose]))
      else Inr ([], if want_reply req then [MsgReply False ''unsupported request''] else []))"

fun handle_requests :: "gerr + string \<times> string \<Rightarrow> ssh_req list \<Rightarrow> (string list \<times> srv_msg list) panicking" where
  "handle_requests cur [] = Inr ([], [])"
| "handle_requests cur (req # reqs) =
     pbind (handle_request cur req) (\<lambda>(p1, m1).
       pbind (handle_requests cur reqs) (\<lambda>(p2, m2). Inr (p1 @ p2, m1 @ m2)))"

text \<open>A new channel: the outcome of \<open>Accept\<close> and the requests it then carries.\<close>

datatype new_channel = NewChannel goerror "ssh_req list"

definition handleChannel :: "gerr + string \<times> string \<Rightarrow> new_channel \<Rightarrow> (string list \<times> srv_msg list) panicking" where
  "handleChannel cur ch =
     (case ch of
        NewChannel (Some e) reqs \<Rightarrow> Inr ([err_str e], [])
      | NewChannel None reqs \<Rightarrow> handle_requests cur reqs)"

text \<open>
  \<open>handleChannels\<close> (lines 82--92) starts one \<open>handleChannel\<close> per channel of the
  connection until the connection closes; each channel gets its own messages.
\<close>

definition handleChannels :: "gerr + string \<times> string \<Rightarrow> new_channel list \<Rightarrow> (string list \<times> srv_msg list) panicking list" where
  "handleChannels cur chs = map (handleChannel cur) chs"

section \<open>The accept loop\<close>

text \<open>
  \<open>getServerConfig\<close> (lines 66--80): no client authentication and one fresh RSA
  host key; \<open>kg\<close> is the outcome of the key generation, whose error is fatal.
\<close>

record server_config =
  NoClientAuth :: bool
  HostKeys :: "nat list"

definition getServerConfig :: "gerr + nat \<Rightarrow> gerr + server_config" where
  "getServerConfig kg =
     (case kg of Inl e \<Rightarrow> Inl e | Inr k \<Rightarrow> Inr \<lparr>NoClientAuth = True, HostKeys = [k]\<rparr>)"

text \<open>
  The \<open>i\<close>-th \<open>listener.Accept()\<close> fails, or yields a connection for which the
  key generation has an outcome and the handshake succeeds or not. \<open>done i\<close>
  says whether a value waits in \<open>done\<close> at the \<open>i\<close>-th \<open>select\<close>.
\<close>

datatype accept_ev = AcceptErr gerr | AcceptConn "gerr + nat" bool

text \<open>
  The server's state: the lines printed, the connections closed and those whose
  channels are served (by accept index), and whether the listener is open.
\<close>

record srv_state =
  srv_out :: "string list"
  conns_closed :: "nat list"
  served :: "nat list"
  listening :: bool

datatype srv_exit = SrvFatal string | SrvBreak | SrvDone

text \<open>
  Lines 35--63. \<open>log.Fatalln\<close> exits the process at once: no deferred call runs.
  A loop that never meets its exit does not return: the value \<open>None\<close>.
\<close>

partial_function (option) accept_loop ::
  "(nat \<Rightarrow> accept_ev) \<Rightarrow> (nat \<Rightarrow> bool) \<Rightarrow> nat \<Rightarrow> srv_state \<Rightarrow> (srv_exit \<times> srv_state) option" where
  "accept_loop acc done i s =
     (case acc i of
        AcceptErr e \<Rightarrow> Some (SrvBreak, s\<lparr>srv_out := srv_out s @ [err_str e]\<rparr>)
      | AcceptConn kg ok \<Rightarrow>
          (case getServerConfig kg of
             Inl e \<Rightarrow> Some (SrvFatal (err_str e), s\<lparr>srv_out := srv_out s @ [err_str e]\<rparr>)
           | Inr cfg \<Rightarrow>
               if \<not> ok then accept_loop acc done (Suc i) (s\<lparr>conns_closed := conns_closed s @ [i]\<rparr>)
               else
                 (let s' = s\<lparr>served := served s @ [i]\<rparr> in
                  if done i then Some (SrvDone, s'\<lparr>conns_closed := conns_closed s' @ [i]\<rparr>)
                  else accept_loop acc done (Suc i) s')))"

declare accept_loop.simps [code]

definition srv_init :: srv_state where
  "srv_init = \<lparr>srv_out = [], conns_closed = [], served = [], listening = False\<rparr>"

text \<open>
  \<open>SetupTestSSH\<close> (lines 26--64): \<open>listen\<close> is the outcome of \<open>net.Listen\<close> on
  \<open>LocalAddrString\<close>; the deferred \<open>listener.Close()\<close> runs on \<open>break\<close> and
  \<open>return\<close>.
\<close>

definition SetupTestSSH :: "goerror \<Rightarrow> (nat \<Rightarrow> accept_ev) \<Rightarrow> (nat \<Rightarrow> bool) \<Rightarrow> (srv_exit \<times> srv_state) option" where
  "SetupTestSSH listen acc done =
     (case listen of
        Some e \<Rightarrow> Some (SrvFatal (err_str e), srv_init\<lparr>srv_out := [err_str e]\<rparr>)
      | None \<Rightarrow>
          Option.bind (accept_loop acc done 0 (srv_init\<lparr>listening := True\<rparr>)) (\<lambda>(x, s).
            Some (x, case x of SrvFatal m \<Rightarrow> s | _ \<Rightarrow> s\<lparr>listening := False\<rparr>)))"

text \<open>The accept events after which the loop leaves: it returns iff one occurs.\<close>

definition srv_stops :: "(nat \<Rightarrow> accept_ev) \<Rightarrow> (nat \<Rightarrow> bool) \<Rightarrow> nat \<Rightarrow> bool" where
  "srv_stops acc done i =
     (case acc i of AcceptErr e \<Rightarrow> True | AcceptConn kg ok \<Rightarrow> isl kg \<or> (ok \<and> done i))"

definition accept_ok :: "accept_ev \<Rightarrow> bool" where
  "accept_ok ev = (case ev of AcceptErr e \<Rightarrow> False | AcceptConn kg ok \<Rightarrow> ok)"

section \<open>What the handler answers\<close>

lemma char_of_zero: "char_of (0 :: nat) = CHR 0x00"
  by (simp add: char_of_def)

lemma ssh_string_short:
  assumes "length s < 256"
  shows "ssh_string s = [CHR 0x00, CHR 0x00, CHR 0x00, char_of (length s)] @ s"
  using assms by (simp add: ssh_string_def char_of_zero)

lemma test_exec_output:
  "\<exists>so. test_exec uid gid h cmd i = (h, Finished (Some 0) [] so []) \<and> so \<in> {''test'', uid, gid}"
  by (simp add: test_exec_def Let_def)

lemma status_byte_test_output:
  assumes "TAB \<notin> set uid" and "TAB \<notin> set gid" and "so \<in> {''test'', uid, gid}"
  shows "status_byte so = Inr 0"
  using assms by (auto intro: status_byte_no_tab)

lemma Status_nonzero: "Status p \<in> {StatusInstalled, StatusNotInstalled, StatusStarted, StatusRestarted} \<Longrightarrow> Status p \<noteq> 0"
  by (auto simp: go_consts)

section \<open>How the accept loop runs\<close>

text \<open>
  One step of the loop that does not leave, the step that does, and the
  induction over the accept events that gives termination; \<open>raw_induct\<close> gives
  the converse: a loop that returns met a leaving event.
\<close>

lemma accept_loop_next:
  assumes "acc i = AcceptConn (Inr k) ok" and "\<not> (ok \<and> done i)"
  shows "accept_loop acc done i s =
           accept_loop acc done (Suc i)
             (if ok then s\<lparr>served := served s @ [i]\<rparr> else s\<lparr>conns_closed := conns_closed s @ [i]\<rparr>)"
  using assms by (subst accept_loop.simps) (simp add: getServerConfig_def Let_def)

lemma not_srv_stops_cases:
  assumes "\<not> srv_stops acc done i"
  obtains k ok where "acc i = AcceptConn (Inr k) ok" and "\<not> (ok \<and> done i)"
proof (cases "acc i")
  case (AcceptErr e)
  with assms show ?thesis by (simp add: srv_stops_def)
next
  case (AcceptConn kg ok)
  with assms obtain k where "kg = Inr k" by (cases kg) (simp_all add: srv_stops_def)
  with AcceptConn assms that show ?thesis by (simp add: srv_stops_def)
qed

lemma accept_loop_continues:
  assumes "\<not> srv_stops acc done i"
  shows "\<exists>s'. accept_loop acc done i s = accept_loop acc done (Suc i) s'"
  using assms by (blast elim: not_srv_stops_cases intro: accept_loop_next)

lemma accept_loop_stops:
  assumes "srv_stops acc done i"
  shows "\<exists>r. accept_loop acc done i s = Some r"
  using assms
  by (subst accept_loop.simps)
     (auto simp: srv_stops_def getServerConfig_def Let_def split: accept_ev.splits sum.splits)

lemma accept_loop_terminates:
  "srv_stops acc done (i + n) \<Longrightarrow> \<exists>r. accept_loop acc done i s = Some r"
proof (induction n arbitrary: i s)
  case 0
  then show ?case using accept_loop_stops by simp
next
  case (Suc n)
  show ?case
  proof (cases "srv_stops acc done i")
    case True
    then show ?thesis by (rule accept_loop_stops)
  next
    case False
    then obtain s' where "accept_loop acc done i s = accept_loop acc done (Suc i) s'"
      using accept_loop_continues by blast
    moreover from Suc.prems have "srv_stops acc done (Suc i + n)" by simp
    ultimately show ?thesis using Suc.IH by simp
  qed
qed

lemma accept_loop_returned:
  "accept_loop acc done i s = Some r \<Longrightarrow> \<exists>k\<ge>i. srv_stops acc done k"
proof (induction rule: accept_loop.raw_induct [rotated 1, consumes 1])
  case (1 f acc dn i s r)
  show ?case
  proof (cases "srv_stops acc dn i")
    case True
    then show ?thesis by blast
  next
    case False
    then obtain k ok where "acc i = AcceptConn (Inr k) ok" and "\<not> (ok \<and> dn i)"
      by (rule not_srv_stops_cases)
    with "1"(2) have "\<exists>s'. f acc dn (Suc i) s' = Some r"
      by (auto simp: getServerConfig_def Let_def split: if_splits)
    then obtain k where "k \<ge> Suc i" "srv_stops acc dn k" using "1"(1) by blast
    then show ?thesis by (intro exI [of _ k]) simp
  qed
qed

lemma SetupTestSSH_listening:
  "SetupTestSSH None acc done \<noteq> None \<longleftrightarrow> accept_loop acc done 0 (srv_init\<lparr>listening := True\<rparr>) \<noteq> None"
  by (cases "accept_loop acc done 0 (srv_init\<lparr>listening := True\<rparr>)") (auto simp: SetupTestSSH_def)

lemma accept_loop_done:
  assumes "\<forall>j\<in>{i..<i + n}. \<not> srv_stops acc done j"
    and "acc (i + n) = AcceptConn (Inr key) True" and "done (i + n)"
  shows "accept_loop acc done i s =
           Some (SrvDone, s\<lparr>conns_closed := conns_closed s @ [j \<leftarrow> [i..<i + n]. \<not> accept_ok (acc j)] @ [i + n],
                            served := served s @ [j \<leftarrow> [i..<i + n]. accept_ok (acc j)] @ [i + n]\<rparr>)"
  using assms
proof (induction n arbitrary: i s)
  case 0
  then show ?case by (subst accept_loop.simps) (simp add: getServerConfig_def)
next
  case (Suc n)
  from Suc.prems(1) have "\<not> srv_stops acc done i" by simp
  then obtain k ok where ev: "acc i = AcceptConn (Inr k) ok" and nd: "\<not> (ok \<and> done i)"
    by (rule not_srv_stops_cases)
  have up: "[i..<i + Suc n] = i # [Suc i..<Suc i + n]" by (simp add: upt_rec)
  from Suc.prems have "\<forall>j\<in>{Suc i..<Suc i + n}. \<not> srv_stops acc done j"
    and "acc (Suc i + n) = AcceptConn (Inr key) True" and "done (Suc i + n)" by simp_all
  note IH = Suc.IH [OF this]
  show ?case
    unfolding accept_loop_next [of acc i k ok "done" s, OF ev nd] IH up using ev by (simp add: accept_ok_def)
qed

lemma accept_loop_skip:
  assumes "\<forall>j\<in>{i..<i + n}. \<not> srv_stops acc done j"
  shows "\<exists>s'. accept_loop acc done i s = accept_loop acc done (i + n) s' \<and>
              listening s' = listening s \<and> srv_out s' = srv_out s"
  using assms
proof (induction n arbitrary: i s)
  case (Suc n)
  from Suc.prems have "\<not> srv_stops acc done i" by simp
  then obtain k ok where ev: "acc i = AcceptConn (Inr k) ok" and nd: "\<not> (ok \<and> done i)"
    by (rule not_srv_stops_cases)
  let ?s1 = "if ok then s\<lparr>served := served s @ [i]\<rparr> else s\<lparr>conns_closed := conns_closed s @ [i]\<rparr>"
  from Suc.prems have "\<forall>j\<in>{Suc i..<Suc i + n}. \<not> srv_stops acc done j" by simp
  from Suc.IH [OF this, of ?s1] obtain s' where
    s': "accept_loop acc done (Suc i) ?s1 = accept_loop acc done (Suc i + n) s'"
    "listening s' = listening ?s1" "srv_out s' = srv_out ?s1" by blast
  have "listening ?s1 = listening s" and "srv_out ?s1 = srv_out s" by simp_all
  with s' accept_loop_next [of acc i k ok "done" s, OF ev nd] show ?case
    by (intro exI [of _ s']) simp
qed auto

text \<open>The address the tests configure is the one the server listens on.\<close>

lemma test_host_addr:
  assumes "Address (ConfigHost c) = LocalAddr" and "Port (ConfigHost c) = LocalPort"
  shows "host_addr c = LocalAddrString"
proof -
  have "go_itoa 2222 = ''2222''" by code_simp
  with assms show ?thesis by (simp add: host_addr_def LocalAddr_def LocalPort_def LocalAddrString_def)
qed

section \<open>Properties of the test server\<close>

text \<open>
  C27: against the test server, \<open>Ensure\<close> of any descriptor with one of the four
  desired states runs the query, finds it unsatisfied, runs the corrective
  command and reports \<open>StatusEnforced\<close>: the \<^verbatim>\<open>satisfied\<close> outcome of these
  states cannot be produced by the repository's tests.
\<close>

theorem Ensure_test_server_enforced:
  assumes "conn r = ConnOpen" and "Status p \<in> {StatusInstalled, StatusNotInstalled, StatusStarted, StatusRestarted}"
    and "TAB \<notin> set uid" and "TAB \<notin> set gid"
  shows "Ensure (test_exec uid gid) r w p =
           Inr (StatusEnforced, None, w\<lparr>issued := issued w @ [check_cmd (Name p), ensure_cmd p]\<rparr>)"
proof -
  from test_exec_output [of uid gid "host w" "check_cmd (Name p)" "[]"] obtain so
    where q: "test_exec uid gid (host w) (check_cmd (Name p)) [] = (host w, Finished (Some 0) [] so [])"
      and so: "so \<in> {''test'', uid, gid}"
    by blast
  from status_byte_test_output [OF assms(3,4) so] Status_nonzero [OF assms(2)]
  have ck: "check (test_exec uid gid) r w p = Inr (False, None, w\<lparr>host := host w, issued := issued w @ [check_cmd (Name p)]\<rparr>)"
    by (simp add: check_Finished [of r "test_exec uid gid" w p "host w" "Some 0" "[]" so "[]", OF assms(1) q]
        exit_code_zero_iff Let_def)
  from test_exec_output [of uid gid "host w" "ensure_cmd p" "[]"] obtain so2
    where "test_exec uid gid (host w) (ensure_cmd p) [] = (host w, Finished (Some 0) [] so2 [])"
    by blast
  then have q2: "test_exec uid gid (host (w\<lparr>host := host w, issued := issued w @ [check_cmd (Name p)]\<rparr>)) (ensure_cmd p) [] =
      (host w, Finished (Some 0) [] so2 [])"
    by simp
  from Ensure_act_Finished [OF assms(1) ck _ q2] show ?thesis by simp
qed

text \<open>
  C28: the test server resolves every owner name to the uid of the user running
  it: \<^verbatim>\<open>id -u n\<close> yields that uid for any name \<open>n\<close> (of fewer than 200 bytes)
  that does not contain \<^verbatim>\<open>-g\<close>, so the ownership step of a push is never
  tested against the owner it names.
\<close>

theorem test_server_owner_is_server_user:
  assumes "conn r = ConnOpen" and "\<not> go_contains n ''-g''" and "length n < 200"
    and "0 \<le> k" and "k < 2 ^ 63"
  shows "resolve_id (test_exec (go_itoa k) gid) r w ''id -u '' n m1 m2 =
           Inr (Inr k, w\<lparr>issued := issued w @ [''id -u '' @ n]\<rparr>)"
proof -
  have len: "length (''id -u '' @ n) < 256" using assms(3) by simp
  have "go_contains (ssh_string (''id -u '' @ n)) ''-u''" and "\<not> go_contains (ssh_string (''id -u '' @ n)) ''-g''"
    unfolding ssh_string_short [OF len] using assms(2) by simp_all
  then have q: "test_exec (go_itoa k) gid (host w) (''id -u '' @ n) [] = (host w, Finished (Some 0) [] (go_itoa k) [])"
    by (simp add: test_exec_def)
  have "parse_id (go_itoa k) = Some k"
    using itoa_output_roundtrip [of k "[]"] assms(4,5) by (simp add: parse_id_def)
  with run_Finished [of r "test_exec (go_itoa k) gid" w "''id -u '' @ n" "[]" "host w" "Some 0" "[]" "go_itoa k" "[]", OF assms(1) q]
  show ?thesis by (simp add: resolve_id_def exit_code_cases Response_Success_def)
qed

text \<open>
  C29: \<open>SetupTestSSH\<close> returns exactly when listening fails or some accept event
  makes the loop leave: an accept error, a failed key generation, or a successful
  handshake while a value waits in \<open>done\<close>. Otherwise it runs forever; in
  particular a \<open>done\<close> sent after the last connection of a test is never seen.
\<close>

theorem SetupTestSSH_returns:
  "SetupTestSSH listen acc done \<noteq> None \<longleftrightarrow> listen \<noteq> None \<or> (\<exists>k. srv_stops acc done k)"
proof (cases listen)
  case None
  have "accept_loop acc done 0 (srv_init\<lparr>listening := True\<rparr>) \<noteq> None \<longleftrightarrow> (\<exists>k. srv_stops acc done k)"
  proof
    assume "accept_loop acc done 0 (srv_init\<lparr>listening := True\<rparr>) \<noteq> None"
    then obtain r where "accept_loop acc done 0 (srv_init\<lparr>listening := True\<rparr>) = Some r" by blast
    then show "\<exists>k. srv_stops acc done k" using accept_loop_returned by blast
  next
    assume "\<exists>k. srv_stops acc done k"
    then obtain k where "srv_stops acc done (0 + k)" by auto
    then show "accept_loop acc done 0 (srv_init\<lparr>listening := True\<rparr>) \<noteq> None"
      using accept_loop_terminates by fastforce
  qed
  with None show ?thesis by (metis SetupTestSSH_listening)
qed (simp add: SetupTestSSH_def)

text \<open>
  C30: when \<open>done\<close> is first seen at the handshake of connection \<open>k\<close>, the server
  returns having served every connection whose handshake succeeded, closed the
  others and connection \<open>k\<close>, printed nothing, and closed its listener.
\<close>

theorem SetupTestSSH_done:
  assumes "\<forall>j<k. \<not> srv_stops acc done j"
    and "acc k = AcceptConn (Inr key) True" and "done k"
  shows "SetupTestSSH None acc done =
           Some (SrvDone, \<lparr>srv_out = [], conns_closed = [j \<leftarrow> [0..<k]. \<not> accept_ok (acc j)] @ [k],
                           served = [j \<leftarrow> [0..<k]. accept_ok (acc j)] @ [k], listening = False\<rparr>)"
proof -
  from assms have "accept_loop acc done 0 (srv_init\<lparr>listening := True\<rparr>) =
           Some (SrvDone, (srv_init\<lparr>listening := True\<rparr>)\<lparr>conns_closed := [j \<leftarrow> [0..<k]. \<not> accept_ok (acc j)] @ [k],
                            served := [j \<leftarrow> [0..<k]. accept_ok (acc j)] @ [k]\<rparr>)"
    using accept_loop_done [of 0 k acc "done" key] by (simp add: srv_init_def)
  then show ?thesis by (simp add: SetupTestSSH_def srv_init_def)
qed

text \<open>
  C31: when \<open>user.Current()\<close> fails, the exec handler prints the error and goes
  on with a nil user: a payload containing \<^verbatim>\<open>-u\<close> or \<^verbatim>\<open>-g\<close> panics on the nil
  dereference, any other answers \<^verbatim>\<open>test\<close>.
\<close>

theorem exec_request_user_error:
  "handle_request (Inl e) (SshReq ''exec'' wr p) =
     (if go_contains p ''-u'' \<or> go_contains p ''-g'' then Inl ''nil pointer dereference''
      else Inr ([err_str e], (if wr then [MsgReply True ''test'', MsgData ''test''] else []) @
                             [MsgExitStatus 0, MsgCloseWrite, MsgClose]))"
  by (simp add: handle_request_def exec_output_def)

text \<open>
  C35: a failed key generation is fatal: \<open>log.Fatalln\<close> prints the error and
  exits the process, so the deferred \<open>listener.Close()\<close> never runs and the
  listener is left open, whatever connections came before.
\<close>

theorem SetupTestSSH_keygen_fatal:
  assumes "\<forall>j<k. \<not> srv_stops acc done j" and "acc k = AcceptConn (Inl e) ok"
  shows "\<exists>s. SetupTestSSH None acc done = Some (SrvFatal (err_str e), s) \<and>
             listening s \<and> srv_out s = [err_str e]"
proof -
  from assms(1) have "\<forall>j\<in>{0..<0 + k}. \<not> srv_stops acc done j" by simp
  from accept_loop_skip [OF this, of "srv_init\<lparr>listening := True\<rparr>"] obtain s' where
    eq: "accept_loop acc done 0 (srv_init\<lparr>listening := True\<rparr>) = accept_loop acc done k s'"
    and l: "listening s'" and o: "srv_out s' = []"
    by (auto simp: srv_init_def)
  from assms(2) have "accept_loop acc done k s' = Some (SrvFatal (err_str e), s'\<lparr>srv_out := [err_str e]\<rparr>)"
    using o by (subst accept_loop.simps) (simp add: getServerConfig_def)
  with eq l show ?thesis by (simp add: SetupTestSSH_def)
qed

end
