(* ===== verification/HostInterface.thy ===== *)
theory HostInterface
  imports Batch Distributor
begin

text \<open>
  The \<open>Host\<close> interface of \<^verbatim>\<open>src/target/target.go\<close> (lines 41--49), which
  \<open>*Remote\<close> implements: its methods as a datatype of operations and one step
  function that dispatches each to the target's definition. A sequence of
  operations on one target is a list of them, run in order. The lemmas show that
  a session once closed is inert: whatever operations follow, none panics and
  none reaches the machine or its files.
\<close>

section \<open>Operations and their results\<close>

datatype host_op =
    HRunCmd string string
  | HPush "File list" "nat list"
  | HEnsure APT
  | HRemove "Rule list"
  | HInstall "Rule list"
  | HRun "Rule list"
  | HRestart "Rule list"
  | HClose

datatype host_res =
    ResResponse Response goerror
  | ResStatus StatusCode goerror
  | ResErr goerror

text \<open>
  One method call on the target. \<open>Push\<close> takes the completion order of its
  tasks; the context arguments of the Go methods are not read by the code.
\<close>

definition host_step :: "'h executor \<Rightarrow> host_op \<Rightarrow> Remote \<Rightarrow> 'h World \<Rightarrow> (host_res \<times> Remote \<times> 'h World) panicking" where
  "host_step ex op r w =
     (case op of
        HRunCmd cmd stdin \<Rightarrow> pbind (RunCmd ex r w cmd stdin) (\<lambda>(res, e, w'). Inr (ResResponse res e, r, w'))
      | HPush files sched \<Rightarrow> pbind (Push ex r w files sched) (\<lambda>(e, r', w'). Inr (ResErr e, r', w'))
      | HEnsure p \<Rightarrow> pbind (Ensure ex r w p) (\<lambda>(st, e, w'). Inr (ResStatus st e, r, w'))
      | HRemove pkgs \<Rightarrow> pbind (Remove ex r w pkgs) (\<lambda>(e, w'). Inr (ResErr e, r, w'))
      | HInstall pkgs \<Rightarrow> pbind (Install ex r w pkgs) (\<lambda>(e, w'). Inr (ResErr e, r, w'))
      | HRun pkgs \<Rightarrow> pbind (Run ex r w pkgs) (\<lambda>(e, w'). Inr (ResErr e, r, w'))
      | HRestart pkgs \<Rightarrow> pbind (Restart ex r w pkgs) (\<lambda>(e, w'). Inr (ResErr e, r, w'))
      | HClose \<Rightarrow> pbind (Close r) (\<lambda>(e, r'). Inr (ResErr e, r', w)))"

fun host_steps :: "'h executor \<Rightarrow> host_op list \<Rightarrow> Remote \<Rightarrow> 'h World \<Rightarrow> (host_res list \<times> Remote \<times> 'h World) panicking" where
  "host_steps ex [] r w = Inr ([], r, w)"
| "host_steps ex (op # ops) r w =
     pbind (host_step ex op r w) (\<lambda>(res, r1, w1).
       pbind (host_steps ex ops r1 w1) (\<lambda>(rs, r2, w2). Inr (res # rs, r2, w2)))"

text \<open>A closed session: the connection is closed and so is every client the map holds.\<close>

definition closed_inv :: "Remote \<Rightarrow> bool" where
  "closed_inv r \<longleftrightarrow> conn r = ConnClosed \<and> session_inv r \<and> (\<forall>(u, c) \<in> set (sftp r). \<not> clients r ! c)"

text \<open>The machine, what ran on it, and the remote files.\<close>

definition untouched :: "'h World \<Rightarrow> 'h World \<Rightarrow> bool" where
  "untouched w w' \<longleftrightarrow> host w' = host w \<and> issued w' = issued w \<and> rfs w' = rfs w"

text \<open>
  The targets a program can hold: one built by \<open>New\<close>, and whatever a call of
  the interface leaves, on any machine state.
\<close>

inductive reachable_remote :: "'h executor \<Rightarrow> Remote \<Rightarrow> bool" for ex where
  new: "New a user pass dial = (r, e) \<Longrightarrow> reachable_remote ex r"
| step: "reachable_remote ex r \<Longrightarrow> host_step ex op r w = Inr (res, r', w') \<Longrightarrow> reachable_remote ex r'"

text \<open>The session invariant, and a closed connection holds no open client.\<close>

definition remote_inv :: "Remote \<Rightarrow> bool" where
  "remote_inv r \<longleftrightarrow> session_inv r \<and> (conn r = ConnClosed \<longrightarrow> (\<forall>(u, c) \<in> set (sftp r). \<not> clients r ! c))"

section \<open>A closed session is inert\<close>

lemma untouched_refl [simp]: "untouched w w"
  and untouched_out [simp]: "untouched w (w'\<lparr>out := o'\<rparr>) \<longleftrightarrow> untouched w w'"
  by (simp_all add: untouched_def)

lemma untouched_trans: "untouched w w1 \<Longrightarrow> untouched w1 w2 \<Longrightarrow> untouched w w2"
  by (simp add: untouched_def)

lemma Ensure_closed:
  "conn r = ConnClosed \<Longrightarrow> \<exists>e. Ensure ex r w p = Inr (StatusFailed, Some e, w)"
  by (simp add: Ensure_def check_def RunCmd_def run_def)

lemma batch_closed:
  "conn r = ConnClosed \<Longrightarrow> \<exists>w'. batch op ex r w pkgs = Inr w' \<and> untouched w w'"
proof (induction pkgs arbitrary: w)
  case (Cons pkg pkgs)
  obtain e where "Ensure ex r (w\<lparr>out := out w @ [LogTrying op pkg]\<rparr>) \<lparr>Name = pkg, Status = op_status op, User = activeUser r\<rparr> =
      Inr (StatusFailed, Some e, w\<lparr>out := out w @ [LogTrying op pkg]\<rparr>)"
    using Ensure_closed [OF Cons.prems] by blast
  with Cons.IH [OF Cons.prems] show ?case by (fastforce simp: Let_def untouched_def)
qed simp

lemma closed_inv_client:
  assumes "closed_inv r" and "map_of (sftp r) (activeUser r) = Some c"
  shows "\<not> clients r ! c"
proof -
  from assms(2) have "(activeUser r, c) \<in> set (sftp r)" by (rule map_of_SomeD)
  with assms(1) show ?thesis unfolding closed_inv_def by blast
qed

lemma nth_update_False: "xs[c := False] ! b \<Longrightarrow> xs ! b"
  by (induction xs arbitrary: c b) (auto simp: nth_Cons split: nat.splits)

lemma closed_inv_close_client:
  assumes "closed_inv r"
  shows "closed_inv (r\<lparr>clients := (clients r)[c := False]\<rparr>)"
proof -
  have "\<forall>(u, d) \<in> set (sftp r). \<not> (clients r)[c := False] ! d"
    using assms unfolding closed_inv_def by (blast dest: nth_update_False)
  with assms show ?thesis unfolding closed_inv_def session_inv_def by simp
qed

lemma Push_closed:
  assumes "closed_inv r"
  shows "\<exists>e r'. Push ex r w files sched = Inr (e, r', w) \<and> closed_inv r'"
proof (cases "map_of (sftp r) (activeUser r)")
  case None
  from assms have "conn r = ConnClosed" by (simp add: closed_inv_def)
  with None assms show ?thesis by (simp add: Push_def sftpClient_def)
next
  case (Some c)
  from push_all_closed [OF closed_inv_client [OF assms Some], of ex w None "map (\<lambda>i. files ! i) sched"]
  obtain e' where "push_all ex r c w None (map (\<lambda>i. files ! i) sched) = Inr (e', w)" by blast
  with Some closed_inv_close_client [OF assms, of c] show ?thesis
    by (simp add: Push_def sftpClient_cached)
qed

lemma Close_closed:
  assumes "closed_inv r"
  shows "\<exists>e r'. Close r = Inr (e, r') \<and> closed_inv r'"
proof -
  let ?r' = "r\<lparr>clients := close_clients (map snd (sftp r)) (clients r)\<rparr>"
  from assms have cl: "conn r = ConnClosed" and inv: "session_inv r" by (simp_all add: closed_inv_def)
  have "\<not> clients ?r' ! c" if "(u, c) \<in> set (sftp r)" for u c
  proof -
    from that have c: "c \<in> set (map snd (sftp r))" by force
    with inv have "c < length (clients r)" by (simp add: session_inv_def)
    with c show ?thesis by (simp add: close_clients_nth)
  qed
  then have "\<forall>(u, c) \<in> set (sftp r). \<not> clients ?r' ! c" by blast
  with cl inv have "closed_inv ?r'" by (simp add: closed_inv_def session_inv_def)
  moreover from cl have "Close r = Inr (Some (Msg ''use of closed network connection''), ?r')"
    by (simp add: Close_def)
  ultimately show ?thesis by blast
qed

lemma host_step_closed:
  assumes "closed_inv r"
  shows "\<exists>res r' w'. host_step ex op r w = Inr (res, r', w') \<and> closed_inv r' \<and> untouched w w'"
proof -
  from assms have cl: "conn r = ConnClosed" by (simp add: closed_inv_def)
  show ?thesis
  proof (cases op)
    case (HRunCmd cmd stdin)
    with assms cl show ?thesis by (simp add: host_step_def RunCmd_def run_def)
  next
    case (HPush files sched)
    from Push_closed [OF assms, of ex w files sched] obtain e r' where
      "Push ex r w files sched = Inr (e, r', w)" and "closed_inv r'" by blast
    with HPush show ?thesis by (auto simp: host_step_def)
  next
    case (HEnsure p)
    with Ensure_closed [OF cl, of ex w p] assms show ?thesis by (auto simp: host_step_def)
  next
    case (HRemove pkgs)
    from batch_closed [OF cl, of OpRemove ex w pkgs] obtain w' where
      "batch OpRemove ex r w pkgs = Inr w'" and "untouched w w'" by blast
    with HRemove assms show ?thesis by (simp add: host_step_def Remove_def)
  next
    case (HInstall pkgs)
    from batch_closed [OF cl, of OpInstall ex w pkgs] obtain w' where
      "batch OpInstall ex r w pkgs = Inr w'" and "untouched w w'" by blast
    with HInstall assms show ?thesis by (simp add: host_step_def Install_def)
  next
    case (HRun pkgs)
    from batch_closed [OF cl, of OpRun ex w pkgs] obtain w' where
      "batch OpRun ex r w pkgs = Inr w'" and "untouched w w'" by blast
    with HRun assms show ?thesis by (simp add: host_step_def Run_def)
  next
    case (HRestart pkgs)
    from batch_closed [OF cl, of OpRestart ex w pkgs] obtain w' where
      "batch OpRestart ex r w pkgs = Inr w'" and "untouched w w'" by blast
    with HRestart assms show ?thesis by (simp add: host_step_def Restart_def)
  next
    case HClose
    from Close_closed [OF assms] obtain e r' where "Close r = Inr (e, r')" and "closed_inv r'" by blast
    with HClose show ?thesis by (auto simp: host_step_def)
  qed
qed

lemma host_steps_closed:
  "closed_inv r \<Longrightarrow> \<exists>rs r' w'. host_steps ex ops r w = Inr (rs, r', w') \<and> closed_inv r' \<and> untouched w w'"
proof (induction ops arbitrary: r w)
  case (Cons op ops)
  from host_step_closed [OF Cons.prems, of ex op w] obtain res r1 w1
    where s1: "host_step ex op r w = Inr (res, r1, w1)" and "closed_inv r1" and u1: "untouched w w1" by blast
  from Cons.IH [OF this(2), of w1] obtain rs r' w' where
    "host_steps ex ops r1 w1 = Inr (rs, r', w')" "closed_inv r'" "untouched w1 w'" by blast
  with s1 u1 show ?case by (auto intro: untouched_trans)
qed simp

section \<open>Every call keeps the invariant\<close>

lemma host_step_remote:
  assumes "host_step ex op r w = Inr (res, r', w')"
  shows "(\<exists>e. Close r = Inr (e, r')) \<or> (conn r' = conn r \<and> (session_inv r \<longrightarrow> session_inv r'))"
proof (cases op)
  case (HPush files sched)
  with assms obtain e where "Push ex r w files sched = Inr (e, r', w')"
    by (auto simp: host_step_def pbind_eq_Inr_iff)
  then show ?thesis using Push_remote by blast
next
  case HClose
  with assms show ?thesis by (auto simp: host_step_def pbind_eq_Inr_iff)
qed (use assms in \<open>auto simp: host_step_def pbind_eq_Inr_iff\<close>)

lemma closed_inv_remote_inv: "closed_inv r \<Longrightarrow> remote_inv r"
  by (simp add: closed_inv_def remote_inv_def)

lemma host_step_remote_inv:
  assumes "remote_inv r" and "host_step ex op r w = Inr (res, r', w')"
  shows "remote_inv r'"
proof (cases "conn r = ConnClosed")
  case True
  with assms(1) have "closed_inv r" by (simp add: closed_inv_def remote_inv_def)
  from host_step_closed [OF this, of ex op w] assms(2) have "closed_inv r'" by auto
  then show ?thesis by (rule closed_inv_remote_inv)
next
  case False
  from assms(1) have inv: "session_inv r" by (simp add: remote_inv_def)
  from host_step_remote [OF assms(2)] show ?thesis
  proof
    assume "\<exists>e. Close r = Inr (e, r')"
    then obtain e where "Close r = Inr (e, r')" ..
    have "\<forall>(u, c) \<in> set (sftp r'). \<not> clients r' ! c"
      using Close_clients_closed [OF inv \<open>Close r = Inr (e, r')\<close>] by blast
    with Close_session_inv [OF inv \<open>Close r = Inr (e, r')\<close>] show ?thesis
      by (simp add: remote_inv_def)
  next
    assume "conn r' = conn r \<and> (session_inv r \<longrightarrow> session_inv r')"
    with False inv show ?thesis by (simp add: remote_inv_def)
  qed
qed

section \<open>Properties of the interface\<close>

text \<open>
  C33: once \<open>Close\<close> has returned on a valid session, any sequence of calls of
  the \<open>Host\<close> interface on it returns without panicking and leaves the machine,
  the commands run on it and the remote files as they were.
\<close>

theorem closed_session_inert:
  assumes "session_inv r" and "Close r = Inr (e, r1)"
  shows "\<exists>rs r2 w'. host_steps ex ops r1 w = Inr (rs, r2, w') \<and> untouched w w'"
proof -
  have "\<forall>(u, c) \<in> set (sftp r1). \<not> clients r1 ! c"
    using Close_clients_closed [OF assms] by blast
  with Close_session_inv [OF assms] Close_conn [OF assms(2)] have "closed_inv r1"
    by (simp add: closed_inv_def)
  then show ?thesis using host_steps_closed by blast
qed

text \<open>
  C34: every target a program can reach through \<open>New\<close> and any sequence of
  calls of the interface satisfies the session invariant, and once its
  connection is closed every SFTP client it caches is closed too.
\<close>

theorem reachable_remote_inv:
  "reachable_remote ex r \<Longrightarrow> remote_inv r"
proof (induction rule: reachable_remote.induct)
  case (new a user pass dial r e)
  then have "session_inv r" using New_session_inv [of a user pass dial] by simp
  moreover from new have "conn r \<noteq> ConnClosed" by (cases dial) (auto simp: New_def)
  ultimately show ?case by (simp add: remote_inv_def)
next
  case (step r op w res r' w')
  from step.IH step.hyps(2) show ?case by (rule host_step_remote_inv)
qed

end
