(* ===== verification/Scenarios.thy ===== *)
theory Scenarios
  imports DebHost Cli TestServer HostInterface
begin

text \<open>
  Concrete configurations on which the theorems of the components are applied: a
  Debian host with a few packages and users, a world around it, a target connected
  to it (and one whose connection is closed), package descriptors, files to push,
  and for the Bootstrap client a configuration directory, a YAML codec and host
  configurations (one of which cannot be reached). Each
  \<open>_witness\<close> theorem instantiates a component theorem at these inputs and
  discharges its hypotheses by evaluation, so that no hypothesis is vacuous.
\<close>

definition demo_deb :: Deb where
  "demo_deb = \<lparr>dpkg = [(''openssh-server'', ''ii ''), (''vim'', ''rc '')],
     repo = [''apache2'', ''php'', ''openssh-server'', ''vim''],
     services = [''apache2'', ''openssh-server''], running = [''openssh-server''],
     users = [(''root'', 0, 0), (''www-data'', 33, 33)],
     groups = [(''root'', 0), (''adm'', 4), (''www-data'', 33)], nopasswd_sudo = True\<rparr>"

definition demo_world :: "Deb World" where
  "demo_world = \<lparr>host = demo_deb, rfs = Map.empty, denied = [''/etc/shadow''],
     login_ids = (1000, 1000),
     lfs = [''index.php'' \<mapsto> \<lparr>ldata = ''<?php phpinfo();'', lsize = 16\<rparr>],
     issued = [], out = []\<rparr>"

definition demo_remote :: Remote where
  "demo_remote = fst (New ''web1:22'' ''admin'' ''secret'' None)"

definition apt_of :: "string \<Rightarrow> Status \<Rightarrow> APT" where
  "apt_of n s = \<lparr>Name = n, Status = s, User = ''admin''\<rparr>"

text \<open>An executor whose commands all finish with the given exit status and outputs.\<close>

definition const_exec :: "32 word \<Rightarrow> string \<Rightarrow> string \<Rightarrow> unit executor" where
  "const_exec c so se = (\<lambda>h cmd stdin. (h, Finished (Some c) [] so se))"

definition unit_world :: "unit World" where
  "unit_world = \<lparr>host = (), rfs = Map.empty, denied = [], login_ids = (0, 0),
     lfs = Map.empty, issued = [], out = []\<rparr>"

text \<open>A world for pushing files: the session logs in as root; two of the local files exist.\<close>

definition push_world :: "Deb World" where
  "push_world = demo_world\<lparr>login_ids := (0, 0),
     lfs := [''index.php'' \<mapsto> \<lparr>ldata = ''<?php phpinfo();'', lsize = 16\<rparr>,
             ''site.conf'' \<mapsto> \<lparr>ldata = ''Listen 80'', lsize = 9\<rparr>]\<rparr>"

definition index_file :: File where
  "index_file = \<lparr>Owner = ''www-data'', Group = ''www-data'', Mode = 420,
     RemotePath = ''/var/www/html/index.php'', LocalPath = ''index.php''\<rparr>"

definition motd_file :: File where
  "motd_file = \<lparr>Owner = ''root'', Group = ''root'', Mode = 420,
     RemotePath = ''/etc/motd'', LocalPath = ''motd''\<rparr>"

definition conf_file :: File where
  "conf_file = \<lparr>Owner = ''root'', Group = ''root'', Mode = 384,
     RemotePath = ''/etc/apache2/sites-enabled/site.conf'', LocalPath = ''site.conf''\<rparr>"

definition demo_files :: "File list" where
  "demo_files = [index_file, motd_file, conf_file]"

definition demo_r0 :: Remote where
  "demo_r0 = demo_remote\<lparr>sftp := [(''admin'', 0)], clients := [True]\<rparr>"

definition adm_file :: File where
  "adm_file = \<lparr>Owner = ''root'', Group = ''adm'', Mode = 416,
     RemotePath = ''/var/log/apache2/access.log'', LocalPath = ''site.conf''\<rparr>"

text \<open>
  Configurations for the Bootstrap client: a web host that removes and installs
  \<open>php\<close>, a configuration without address, a database host, the defaults, a
  YAML codec that knows their files, and local file systems holding them.
\<close>

definition web_cfg :: Config where
  "web_cfg = \<lparr>ConfigHost = \<lparr>Address = ''web1'', Port = 22, HostUser = ''admin'', Password = ''secret''\<rparr>,
     InstallRules = [''apache2'', ''php''], RemoveRules = [''php''], RunRules = [''apache2''],
     RestartRules = [], Files = []\<rparr>"

definition blank_cfg :: Config where
  "blank_cfg = \<lparr>ConfigHost = \<lparr>Address = [], Port = 22, HostUser = ''admin'', Password = []\<rparr>,
     InstallRules = [''vim''], RemoveRules = [], RunRules = [], RestartRules = [], Files = []\<rparr>"

definition db_cfg :: Config where
  "db_cfg = \<lparr>ConfigHost = \<lparr>Address = ''db1'', Port = 22, HostUser = ''admin'', Password = ''secret''\<rparr>,
     InstallRules = [''vim''], RemoveRules = [], RunRules = [], RestartRules = [], Files = []\<rparr>"

definition defaults_cfg :: Config where
  "defaults_cfg = \<lparr>ConfigHost = \<lparr>Address = [], Port = 0, HostUser = [], Password = []\<rparr>,
     InstallRules = [''openssh-server''], RemoveRules = [], RunRules = [], RestartRules = [], Files = []\<rparr>"

definition demo_yaml :: Yaml where
  "demo_yaml = \<lparr>unmarshal = (\<lambda>s. if s = ''web'' then Inr web_cfg else if s = ''blank'' then Inr blank_cfg
                                else if s = ''defaults'' then Inr defaults_cfg
                                else Inl (Msg ''yaml: unmarshal errors'')),
                marshal = (\<lambda>c. Inr (Address (ConfigHost c)))\<rparr>"

definition demo_fs :: LocalFS where
  "demo_fs = \<lparr>lfiles = [''config/a.yaml'' \<mapsto> ''web'', ''config/b.yaml'' \<mapsto> ''blank'',
                         ''config/c.yaml'' \<mapsto> ''garbage'', ''defaults.yaml'' \<mapsto> ''defaults''],
              ldirs = [''config'' \<mapsto> [''a.yaml'', ''b.yaml'']], readonly = False\<rparr>"

definition demo_fs_bad :: LocalFS where
  "demo_fs_bad = demo_fs\<lparr>ldirs := [''config'' \<mapsto> [''a.yaml'', ''c.yaml'']]\<rparr>"

text \<open>The database host refuses the connection; the others accept it.\<close>

definition db_down :: "nat \<Rightarrow> goerror" where
  "db_down i = (if i = 0 then Some (Msg ''dial tcp: connection refused'') else None)"

definition demo_fs_nodefaults :: LocalFS where
  "demo_fs_nodefaults = demo_fs\<lparr>lfiles := (lfiles demo_fs)(''defaults.yaml'' := None)\<rparr>"

lemmas demo_defs = demo_deb_def demo_world_def demo_remote_def apt_of_def New_def
  const_exec_def unit_world_def

lemma demo_remote_open [simp]: "conn demo_remote = ConnOpen"
  by (simp add: demo_remote_def New_def)

lemma demo_remote_user [simp]: "activeUser demo_remote = ''admin''"
  by (simp add: demo_remote_def New_def)

lemma demo_host [simp]: "host demo_world = demo_deb"
  by (simp add: demo_world_def)

lemma demo_deb_wf [simp]: "deb_wf demo_deb"
  by (simp add: demo_deb_def deb_wf_def)

section \<open>Witnesses of the reconciler's theorems\<close>

theorem Ensure_satisfied_only_query_witness:
  "Ensure deb_exec demo_remote demo_world (apt_of ''openssh-server'' StatusInstalled) =
     Inr (StatusSatisfied, None, demo_world\<lparr>issued := [check_cmd ''openssh-server'']\<rparr>) \<and>
   \<not> APT_Service (apt_of ''openssh-server'' StatusInstalled) \<and>
   issued (demo_world\<lparr>issued := [check_cmd ''openssh-server'']\<rparr>) =
     issued demo_world @ [check_cmd (Name (apt_of ''openssh-server'' StatusInstalled))]"
proof -
  have e: "Ensure deb_exec demo_remote demo_world (apt_of ''openssh-server'' StatusInstalled) =
     Inr (StatusSatisfied, None, demo_world\<lparr>issued := [check_cmd ''openssh-server'']\<rparr>)"
    by (simp add: Ensure_deb_install apt_of_def simple_name_def,
        simp add: deb_installed_def demo_deb_def demo_world_def)
  show ?thesis using e Ensure_satisfied_only_query [OF e] by simp
qed

theorem Ensure_service_runs_witness:
  "ensure_cmd (apt_of ''apache2'' StatusStarted) = ''sudo service apache2 start'' \<and>
   (\<exists>ok w1. check deb_exec demo_remote demo_world (apt_of ''apache2'' StatusStarted) = Inr (ok, None, w1) \<and>
     (\<exists>res err2 w2. RunCmd deb_exec demo_remote w1 (ensure_cmd (apt_of ''apache2'' StatusStarted)) [] = Inr (res, err2, w2) \<and>
       Ensure deb_exec demo_remote demo_world (apt_of ''apache2'' StatusStarted) =
         Inr (if err2 = None \<and> Response_Success res then StatusEnforced else StatusFailed,
              if err2 = None \<and> Response_Success res then None
              else wrap (''could not '' @ action_of (Status (apt_of ''apache2'' StatusStarted)) @ '' package '' @
                         Name (apt_of ''apache2'' StatusStarted)) err2, w2)))"
proof -
  have s: "APT_Service (apt_of ''apache2'' StatusStarted)" by (simp add: apt_of_def)
  have c: "ensure_cmd (apt_of ''apache2'' StatusStarted) = ''sudo service apache2 start''"
    by (simp add: ensure_cmd_def apt_of_def action_of_def actions_def go_consts)
  from check_deb [OF demo_remote_open, of "apt_of ''apache2'' StatusStarted" demo_world]
  obtain ok where ck: "check deb_exec demo_remote demo_world (apt_of ''apache2'' StatusStarted) =
      Inr (ok, None, demo_world\<lparr>issued := issued demo_world @ [check_cmd (Name (apt_of ''apache2'' StatusStarted))]\<rparr>)"
    by (auto simp: apt_of_def simple_name_def demo_world_def)
  from Ensure_service_runs [OF s ck] ck c show ?thesis by blast
qed

theorem check_reads_second_status_byte_witness:
  "check (const_exec 0 (''pkgname'' @ TAB # ''ii'' @ TAB # ''1.0'' @ TAB # ''pkgname'') []) demo_remote unit_world
      (apt_of ''pkgname'' StatusInstalled) =
     Inr (True, None, unit_world\<lparr>issued := [check_cmd ''pkgname'']\<rparr>)"
proof -
  have q: "const_exec 0 (''pkgname'' @ TAB # ''ii'' @ TAB # ''1.0'' @ TAB # ''pkgname'') [] (host unit_world)
      (check_cmd (Name (apt_of ''pkgname'' StatusInstalled))) [] =
      ((), Finished (Some 0) [] (''pkgname'' @ TAB # ''ii'' @ TAB # (''1.0'' @ TAB # ''pkgname'')) [])"
    by (simp add: const_exec_def)
  have st: "Status (apt_of ''pkgname'' StatusInstalled) = StatusInstalled" by (simp add: apt_of_def)
  from check_reads_second_status_byte [where fname = "''pkgname''" and fstat = "''ii''"
      and rest = "''1.0'' @ TAB # ''pkgname''" and se = "[]" and h' = "()" and w = unit_world
      and ex = "const_exec 0 (''pkgname'' @ TAB # ''ii'' @ TAB # ''1.0'' @ TAB # ''pkgname'') []"
      and r = demo_remote and p = "apt_of ''pkgname'' StatusInstalled", OF demo_remote_open st q]
  show ?thesis by (simp add: apt_of_def unit_world_def)
qed

theorem Ensure_nonzero_exit_nil_error_witness:
  "Ensure (const_exec 1 [] []) demo_remote unit_world (apt_of ''apache2'' StatusInstalled) =
     Inr (StatusFailed, None,
          unit_world\<lparr>issued := [check_cmd ''apache2'', ensure_cmd (apt_of ''apache2'' StatusInstalled)]\<rparr>)"
proof -
  have c: "check (const_exec 1 [] []) demo_remote unit_world (apt_of ''apache2'' StatusInstalled) =
      Inr (False, None, unit_world\<lparr>issued := [check_cmd ''apache2'']\<rparr>)"
    by (simp add: check_Finished const_exec_def exit_code_cases apt_of_def unit_world_def Let_def)
  show ?thesis
    using Ensure_nonzero_exit_nil_error [OF demo_remote_open c, of "()" "Some 1" "[]" "[]" "[]"]
    by (simp add: const_exec_def apt_of_def unit_world_def)
qed

theorem Ensure_panics_on_short_field_witness:
  "Ensure (const_exec 0 (''pkg'' @ [TAB]) []) demo_remote unit_world (apt_of ''pkg'' StatusInstalled) =
     Inl ''index out of range''"
proof -
  have sp: "split_on TAB (''pkg'' @ [TAB]) = ''pkg'' # [] # []" by simp
  show ?thesis
    by (rule Ensure_panics_on_short_field [OF demo_remote_open _ _ sp])
       (simp_all add: const_exec_def apt_of_def)
qed

theorem Ensure_install_after_failed_query_witness:
  "Ensure deb_exec demo_remote demo_world (apt_of ''apache2'' StatusInstalled) =
     Inr (StatusEnforced, None,
          demo_world\<lparr>host := fst (deb_install demo_deb ''apache2''),
            issued := [check_cmd ''apache2'', ''apt install apache2 -y'']\<rparr>)"
proof -
  have q: "deb_exec (host demo_world) (check_cmd (Name (apt_of ''apache2'' StatusInstalled))) [] =
      (demo_deb, Finished (Some 1) [] [] (''dpkg-query: no packages found matching '' @ ''apache2'' @ [NL]))"
    by (simp add: deb_exec_query apt_of_def simple_name_def deb_query_def exit_with_def demo_deb_def)
  have i: "deb_exec demo_deb (''apt install '' @ Name (apt_of ''apache2'' StatusInstalled) @ '' -y'') [] =
      (fst (deb_install demo_deb ''apache2''), Finished (Some 0) [] [] [])"
    by (simp add: deb_exec_def deb_run_def words_def apt_of_def deb_install_def exit_with_def demo_deb_def)
  show ?thesis
    using Ensure_install_after_failed_query [of demo_remote "apt_of ''apache2'' StatusInstalled" deb_exec
      demo_world, OF demo_remote_open _ q _ i]
    by (simp add: apt_of_def demo_world_def)
qed

text \<open>With an executor on which every command succeeds silently, \<open>Ensure\<close> installs.\<close>

lemma Ensure_const_exec_install:
  "Ensure (const_exec 0 [] []) demo_remote w (apt_of n StatusInstalled) =
     Inr (StatusEnforced, None, w\<lparr>issued := issued w @ [check_cmd n, ensure_cmd (apt_of n StatusInstalled)]\<rparr>)"
proof -
  have c: "check (const_exec 0 [] []) demo_remote w (apt_of n StatusInstalled) =
      Inr (False, None, w\<lparr>issued := issued w @ [check_cmd n]\<rparr>)"
    by (simp add: check_Finished const_exec_def exit_code_cases apt_of_def Let_def status_byte_no_tab go_consts)
  show ?thesis
    using Ensure_act_Finished [OF demo_remote_open c, of "()" "Some 0" "[]" "[]" "[]"]
    by (simp add: const_exec_def apt_of_def)
qed

theorem Ensure_enforced_ran_witness:
  "Ensure (const_exec 0 [] []) demo_remote unit_world (apt_of ''vim'' StatusInstalled) =
     Inr (StatusEnforced, None,
          unit_world\<lparr>issued := [check_cmd ''vim'', ensure_cmd (apt_of ''vim'' StatusInstalled)]\<rparr>) \<and>
   issued (unit_world\<lparr>issued := [check_cmd ''vim'', ensure_cmd (apt_of ''vim'' StatusInstalled)]\<rparr>) =
     issued unit_world @ [check_cmd (Name (apt_of ''vim'' StatusInstalled)), ensure_cmd (apt_of ''vim'' StatusInstalled)]"
proof -
  have e: "Ensure (const_exec 0 [] []) demo_remote unit_world (apt_of ''vim'' StatusInstalled) =
     Inr (StatusEnforced, None,
          unit_world\<lparr>issued := [check_cmd ''vim'', ensure_cmd (apt_of ''vim'' StatusInstalled)]\<rparr>)"
    using Ensure_const_exec_install [of unit_world "''vim''"] by (simp add: unit_world_def)
  from e Ensure_enforced_ran [OF e] show ?thesis by simp
qed

section \<open>Witnesses of the runner's and the session's theorems\<close>

theorem run_classifies_exit_witness:
  "run (const_exec 0 ''ok'' []) demo_remote unit_world ''true'' [] =
     Inr (\<lparr>Stdout = ''ok'', Stderr = [], ExitStatus = 0\<rparr>, None, unit_world\<lparr>issued := [''true'']\<rparr>) \<and>
   Response_Success \<lparr>Stdout = ''ok'', Stderr = [], ExitStatus = 0\<rparr>"
proof -
  have x: "const_exec 0 ''ok'' [] (host unit_world) ''true'' [] = ((), Finished (Some 0) [] ''ok'' [])"
    by (simp add: const_exec_def)
  have r: "run (const_exec 0 ''ok'' []) demo_remote unit_world ''true'' [] =
     Inr (\<lparr>Stdout = ''ok'', Stderr = [], ExitStatus = 0\<rparr>, None, unit_world\<lparr>issued := [''true'']\<rparr>)"
    by (simp add: run_def const_exec_def ssh_wait_def unit_world_def)
  from r run_classifies_exit [OF demo_remote_open x r] show ?thesis by simp
qed

theorem Close_twice_error_witness:
  "Close demo_remote = Inr (None, demo_remote\<lparr>conn := ConnClosed\<rparr>) \<and>
   (\<exists>e r''. Close (demo_remote\<lparr>conn := ConnClosed\<rparr>) = Inr (Some e, r'') \<and> conn r'' = ConnClosed)"
proof -
  have c: "Close demo_remote = Inr (None, demo_remote\<lparr>conn := ConnClosed\<rparr>)"
    by (simp add: Close_def Let_def demo_remote_def New_def close_clients_def)
  from c Close_twice_error [OF c] show ?thesis by simp
qed

section \<open>Push on the Debian host\<close>

lemma demo_sftpClient: "sftpClient demo_remote = Inr (Some 0, None, demo_r0)"
  by (simp add: sftpClient_def demo_r0_def demo_remote_def New_def)

lemma demo_r0_props [simp]: "conn demo_r0 = ConnOpen" "clients demo_r0 ! 0"
  by (simp_all add: demo_r0_def)

lemma push_world_props [simp]:
  "host push_world = demo_deb" "login_ids push_world = (0, 0)" "denied push_world = [''/etc/shadow'']"
  by (simp_all add: push_world_def demo_world_def)

lemma index_task:
  "\<exists>w'. push_file deb_exec demo_r0 0 push_world index_file = Inr (None, w') \<and>
     rfs w' ''/var/www/html/index.php'' = Some \<lparr>rdata = ''<?php phpinfo();'', rmode = 420, ruid = 33, rgid = 33\<rparr>"
proof -
  have "\<exists>w'. push_file deb_exec demo_r0 0 push_world index_file = Inr (None, w') \<and>
     rfs w' (RemotePath index_file) = Some \<lparr>rdata = ldata \<lparr>ldata = ''<?php phpinfo();'', lsize = 16\<rparr>, rmode = to_chmod_perm (go_filemode (Mode index_file)),
        ruid = go_uint32 33, rgid = go_uint32 33\<rparr>"
    by (rule push_file_deb) (simp_all add: index_file_def push_world_def simple_name_def demo_deb_def demo_world_def)
  moreover have "to_chmod_perm (go_filemode 420) = 420" by (simp add: to_chmod_perm_small)
  ultimately show ?thesis by (simp add: index_file_def go_uint32_def)
qed

lemma conf_task:
  "\<exists>w'. push_file deb_exec demo_r0 0 push_world conf_file = Inr (None, w') \<and>
     rfs w' ''/etc/apache2/sites-enabled/site.conf'' = Some \<lparr>rdata = ''Listen 80'', rmode = 384, ruid = 0, rgid = 0\<rparr>"
proof -
  have "\<exists>w'. push_file deb_exec demo_r0 0 push_world conf_file = Inr (None, w') \<and>
     rfs w' (RemotePath conf_file) = Some \<lparr>rdata = ldata \<lparr>ldata = ''Listen 80'', lsize = 9\<rparr>, rmode = to_chmod_perm (go_filemode (Mode conf_file)),
        ruid = go_uint32 0, rgid = go_uint32 0\<rparr>"
    by (rule push_file_deb) (simp_all add: conf_file_def push_world_def simple_name_def demo_deb_def demo_world_def)
  moreover have "to_chmod_perm (go_filemode 384) = 384" by (simp add: to_chmod_perm_small)
  ultimately show ?thesis by (simp add: conf_file_def go_uint32_def)
qed

lemma motd_task:
  "push_file deb_exec demo_r0 0 push_world motd_file =
     Inr (Some (Wrap ''unable to open file motd'' (Msg ''open motd: no such file or directory'')), push_world)"
  by (simp add: push_file_def motd_file_def push_world_def)

lemma demo_files_distinct: "distinct (map RemotePath demo_files)"
  by (simp add: demo_files_def index_file_def motd_file_def conf_file_def)

lemma demo_task_errs:
  "task_err deb_exec demo_r0 0 push_world index_file = None"
  "task_err deb_exec demo_r0 0 push_world conf_file = None"
  "task_err deb_exec demo_r0 0 push_world motd_file =
     Some (Wrap ''unable to open file motd'' (Msg ''open motd: no such file or directory''))"
  using index_task conf_task motd_task by (auto simp: task_err_def)

lemma demo_push:
  assumes "is_schedule 3 sched"
  obtains w' where
    "Push deb_exec demo_remote push_world demo_files sched =
       Inr (first_err (map (\<lambda>i. task_err deb_exec demo_r0 0 push_world (demo_files ! i)) sched),
            demo_r0\<lparr>clients := (clients demo_r0)[0 := False]\<rparr>, w')"
    "\<forall>f \<in> set demo_files. rfs w' (RemotePath f) = task_rfs deb_exec demo_r0 0 push_world f"
proof -
  have "length demo_files = 3" by (simp add: demo_files_def)
  with assms have s: "is_schedule (length demo_files) sched" by simp
  have "conn demo_remote \<noteq> ConnNil" by simp
  from Push_tasks [OF demo_sftpClient pure_ids_deb this demo_files_distinct s, of push_world] that
  show ?thesis by blast
qed

lemma index_push:
  "\<exists>w'. Push deb_exec demo_remote push_world [index_file] [0] =
     Inr (None, demo_r0\<lparr>clients := (clients demo_r0)[0 := False]\<rparr>, w')"
proof -
  have s: "is_schedule (length [index_file]) [0]" by (simp add: is_schedule_def)
  have "conn demo_remote \<noteq> ConnNil" by simp
  from Push_tasks [OF demo_sftpClient pure_ids_deb this _ s, of push_world] demo_task_errs(1)
  show ?thesis by auto
qed

section \<open>Witnesses of the distributor's theorems\<close>

theorem Push_roundtrip_witness:
  "\<exists>r' w' src u g. Push deb_exec demo_remote push_world [index_file] [0] = Inr (None, r', w') \<and>
     lfs push_world (LocalPath index_file) = Some src \<and>
     rfs w' (RemotePath index_file) = Some \<lparr>rdata = ldata src, rmode = word_of_int (Mode index_file), ruid = u, rgid = g\<rparr>"
proof -
  from index_push obtain r' w' where p: "Push deb_exec demo_remote push_world [index_file] [0] = Inr (None, r', w')"
    by blast
  have "conn demo_remote \<noteq> ConnNil" by simp
  from Push_roundtrip [OF p pure_ids_deb this] p show ?thesis
    by (simp add: is_schedule_def index_file_def)
qed

theorem Push_schedule_independent_witness:
  "\<exists>e1 r1 w1 e2 r2 w2. Push deb_exec demo_remote push_world demo_files [0, 1, 2] = Inr (e1, r1, w1) \<and>
     Push deb_exec demo_remote push_world demo_files [2, 1, 0] = Inr (e2, r2, w2) \<and>
     rfs w1 = rfs w2 \<and> r1 = r2 \<and> (e1 = None \<longleftrightarrow> e2 = None)"
proof -
  have s1: "is_schedule 3 [0, 1, 2]" and s2: "is_schedule 3 [2, 1, 0]" by (simp_all add: is_schedule_def upt_rec)
  obtain w1 where p1: "Push deb_exec demo_remote push_world demo_files [0, 1, 2] =
       Inr (first_err (map (\<lambda>i. task_err deb_exec demo_r0 0 push_world (demo_files ! i)) [0, 1, 2]),
            demo_r0\<lparr>clients := (clients demo_r0)[0 := False]\<rparr>, w1)" using demo_push [OF s1] by blast
  obtain w2 where p2: "Push deb_exec demo_remote push_world demo_files [2, 1, 0] =
       Inr (first_err (map (\<lambda>i. task_err deb_exec demo_r0 0 push_world (demo_files ! i)) [2, 1, 0]),
            demo_r0\<lparr>clients := (clients demo_r0)[0 := False]\<rparr>, w2)" using demo_push [OF s2] by blast
  have l: "length demo_files = 3" by (simp add: demo_files_def)
  have "conn demo_remote \<noteq> ConnNil" by simp
  from Push_schedule_independent [OF pure_ids_deb this demo_files_distinct _ _ p1 p2] s1 s2 l p1 p2
  show ?thesis by auto
qed

theorem Push_closes_cached_client_witness:
  "\<exists>r1 w1 e2. Push deb_exec demo_remote push_world [index_file] [0] = Inr (None, r1, w1) \<and>
     Push deb_exec r1 w1 demo_files [0, 1, 2] = Inr (Some e2, r1, w1)"
proof -
  from index_push obtain r1 w1 where p: "Push deb_exec demo_remote push_world [index_file] [0] = Inr (None, r1, w1)"
    by blast
  have inv: "session_inv demo_remote" unfolding demo_remote_def by (rule New_session_inv)
  have s: "is_schedule (length demo_files) [0, 1, 2]" by (simp add: is_schedule_def demo_files_def upt_rec)
  from Push_closes_cached_client [OF inv demo_remote_open p _ s, of w1] p show ?thesis
    by (simp add: demo_files_def)
qed

theorem resolve_id_roundtrip_witness:
  "deb_exec (host push_world) (''id -u '' @ ''www-data'') [] = (demo_deb, Finished (Some 0) [] (go_itoa 33 @ [NL]) []) \<and>
   resolve_id deb_exec demo_remote push_world ''id -u '' ''www-data'' ''owner error'' ''uid error'' =
     Inr (Inr 33, push_world\<lparr>host := demo_deb, issued := issued push_world @ [''id -u '' @ ''www-data'']\<rparr>)"
proof -
  have x: "deb_exec (host push_world) (''id -u '' @ ''www-data'') [] = (demo_deb, Finished (Some 0) [] (go_itoa 33 @ [NL]) [])"
    using deb_exec_id(1) [of "''www-data''" demo_deb "[]"]
    by (simp add: simple_name_def deb_id_def exit_with_def demo_deb_def)
  from x resolve_id_roundtrip [of demo_remote deb_exec push_world "''id -u ''" "''www-data''" demo_deb "[]" 33 "[]"
      "''owner error''" "''uid error''", OF demo_remote_open x]
  show ?thesis by simp
qed


section \<open>The Bootstrap client\<close>

lemma boot_fixture_props [simp]:
  "ldirs demo_fs ''config'' = Some [''a.yaml'', ''b.yaml'']"
  "ldirs demo_fs_bad ''config'' = Some [''a.yaml'', ''c.yaml'']"
  "\<not> readonly demo_fs" "\<not> readonly demo_fs_bad"
  "lfiles demo_fs_bad = lfiles demo_fs"
  by (simp_all add: demo_fs_def demo_fs_bad_def)

theorem Client_Run_loads_witness:
  "\<exists>fs' ls. Client_Run demo_yaml demo_fs [] ''config'' ''defaults.yaml'' =
     (None, fs', configs_spec defaults_cfg [web_cfg, blank_cfg], ls)"
  using Client_Run_loads [where fs = demo_fs and cpath = "''config''" and names = "[''a.yaml'', ''b.yaml'']"
      and dpath = "''defaults.yaml''" and dsrc = "''defaults''" and y = demo_yaml and d = defaults_cfg
      and src = "\<lambda>n. if n = ''a.yaml'' then ''web'' else ''blank''"
      and cfg = "\<lambda>n. if n = ''a.yaml'' then web_cfg else blank_cfg" and cs = "[]"]
  by (simp add: demo_fs_def demo_yaml_def)

theorem Client_Run_corrupt_witness:
  "\<exists>fs' ls. Client_Run demo_yaml demo_fs_bad [] ''config'' ''defaults.yaml'' =
     (Some (Wrap (''config file '' @ ''config'' @ ''/'' @ ''c.yaml'' @ '' is corrupted, err='' @
                  err_str (Msg ''yaml: unmarshal errors'')) (Msg ''yaml: unmarshal errors'')),
      fs', configs_spec defaults_cfg [web_cfg], ls)"
  using Client_Run_corrupt [where fs = demo_fs_bad and cpath = "''config''" and pre = "[''a.yaml'']"
      and n = "''c.yaml''" and post = "[]" and dpath = "''defaults.yaml''" and dsrc = "''defaults''"
      and y = demo_yaml and d = defaults_cfg and src = "\<lambda>n. ''web''" and cfg = "\<lambda>n. web_cfg"
      and s = "''garbage''" and e = "Msg ''yaml: unmarshal errors''" and cs = "[]"]
  by (simp add: demo_fs_def demo_yaml_def)

lemma boot_cfgs_simple:
  "\<forall>c \<in> set [db_cfg, web_cfg]. \<forall>n \<in> set (RemoveRules c @ InstallRules c @ RunRules c @ RestartRules c). simple_name n"
  by (simp add: db_cfg_def web_cfg_def simple_name_def)

lemma demo_worlds_wf: "\<forall>a. deb_wf (host ((\<lambda>_. demo_world) a))"
  by simp

lemma web_run:
  "\<exists>ws' ls ds rs. apply_loop (\<lambda>_. deb_exec) (\<lambda>_. None) (\<lambda>_. []) 0 [web_cfg] (\<lambda>_. demo_world) [] [] = Inr (ws', ls, ds) \<and>
     Apply (\<lambda>_. deb_exec) (\<lambda>_. None) (\<lambda>_. []) [web_cfg] (\<lambda>_. demo_world) = Inr (None, ws', ls, rs)"
  using boot_cfgs_simple by (intro Apply_deb_returns [OF _ demo_worlds_wf]) simp_all

lemma db_web_run:
  "\<exists>ws' ls ds rs. apply_loop (\<lambda>_. deb_exec) db_down (\<lambda>_. []) 0 [db_cfg, web_cfg] (\<lambda>_. demo_world) [] [] = Inr (ws', ls, ds) \<and>
     Apply (\<lambda>_. deb_exec) db_down (\<lambda>_. []) [db_cfg, web_cfg] (\<lambda>_. demo_world) = Inr (None, ws', ls, rs)"
  using boot_cfgs_simple by (intro Apply_deb_returns [OF _ demo_worlds_wf]) (simp_all add: db_down_def)

lemma db_web_addrs: "host_addr db_cfg \<noteq> host_addr web_cfg"
  by (simp add: host_addr_def db_cfg_def web_cfg_def)

theorem Apply_closes_every_session_witness:
  "\<exists>ws' ls rs. Apply (\<lambda>_. deb_exec) (\<lambda>_. None) (\<lambda>_. []) [web_cfg] (\<lambda>_. demo_world) = Inr (None, ws', ls, rs) \<and>
     map addr rs = [host_addr web_cfg] \<and> (\<forall>r \<in> set rs. conn r = ConnClosed \<and> (\<forall>c \<in> set (clients r). \<not> c))"
proof -
  from web_run obtain ws' ls rs
    where a: "Apply (\<lambda>_. deb_exec) (\<lambda>_. None) (\<lambda>_. []) [web_cfg] (\<lambda>_. demo_world) = Inr (None, ws', ls, rs)"
    by blast
  from Apply_closes_every_session [OF a] a show ?thesis by auto
qed

theorem Apply_holds_sessions_witness:
  "\<exists>ws' ls ds. apply_loop (\<lambda>_. deb_exec) (\<lambda>_. None) (\<lambda>_. []) 0 [web_cfg] (\<lambda>_. demo_world) [] [] = Inr (ws', ls, ds) \<and>
     map addr ds = [host_addr web_cfg] \<and> (\<forall>r \<in> set ds. conn r = ConnOpen \<and> session_inv r)"
proof -
  from web_run obtain ws' ls ds
    where a: "apply_loop (\<lambda>_. deb_exec) (\<lambda>_. None) (\<lambda>_. []) 0 [web_cfg] (\<lambda>_. demo_world) [] [] = Inr (ws', ls, ds)"
    by blast
  from Apply_holds_sessions [OF a] a show ?thesis by auto
qed

section \<open>The entry point and the test server\<close>

lemma demo_client_run:
  "\<exists>fs1 ls. Client_Run demo_yaml demo_fs [] ''config'' ''defaults.yaml'' = (None, fs1, [merge_defaults defaults_cfg web_cfg], ls)"
  by (simp add: Client_Run_def os_ReadDir_def CheckDir_def defaultConfig_def os_ReadFile_def os_WriteFile_def
      demo_fs_def demo_yaml_def Let_def web_cfg_def blank_cfg_def merge_defaults_def)
lemma demo_client_run_nodef:
  "\<exists>fs1. Client_Run demo_yaml demo_fs_nodefaults [] ''config'' ''defaults.yaml'' =
     (Some (Wrap (''not able to read defaults.yaml, err= open defaults.yaml: no such file or directory'')
       (Msg ''open defaults.yaml: no such file or directory'')), fs1, [], [])"
  by (simp add: Client_Run_def os_ReadDir_def CheckDir_def defaultConfig_def os_ReadFile_def
      demo_fs_nodefaults_def demo_fs_def)
lemma merged_run:
  "\<exists>ws' ls ds rs. apply_loop (\<lambda>_. deb_exec) (\<lambda>_. None) (\<lambda>_. []) 0 [merge_defaults defaults_cfg web_cfg] (\<lambda>_. demo_world) [] [] = Inr (ws', ls, ds) \<and>
     Apply (\<lambda>_. deb_exec) (\<lambda>_. None) (\<lambda>_. []) [merge_defaults defaults_cfg web_cfg] (\<lambda>_. demo_world) = Inr (None, ws', ls, rs)"
  by (intro Apply_deb_returns [OF _ demo_worlds_wf])
     (simp_all add: merge_defaults_def web_cfg_def defaults_cfg_def simple_name_def)

theorem main_go_confirmation_witness:
  "(\<exists>fs1 out. main_go demo_yaml demo_fs (''  No'' @ NL # []) (\<lambda>_. deb_exec) (\<lambda>_. None) (\<lambda>_. [])
       (\<lambda>_. demo_world) = Inr (fs1, \<lambda>_. demo_world, out)) \<and>
   (\<exists>fs1 ws' out. main_go demo_yaml demo_fs (''Yes '' @ NL # []) (\<lambda>_. deb_exec) (\<lambda>_. None) (\<lambda>_. [])
       (\<lambda>_. demo_world) = Inr (fs1, ws', out))"
proof -
  from demo_client_run obtain fs1 ls
    where cr: "Client_Run demo_yaml demo_fs [] ''config'' ''defaults.yaml'' = (None, fs1, [merge_defaults defaults_cfg web_cfg], ls)"
    by blast
  from merged_run obtain ws' ls2 rs
    where ap: "Apply (\<lambda>_. deb_exec) (\<lambda>_. None) (\<lambda>_. []) [merge_defaults defaults_cfg web_cfg] (\<lambda>_. demo_world) = Inr (None, ws', ls2, rs)"
    by blast
  have nl: "NL \<notin> set ''  No''" "NL \<notin> set ''Yes ''" by simp_all
  have "go_ToLower (trim_space ''  No'') \<notin> {''y'', ''yes''}" "go_ToLower (trim_space ''Yes '') \<in> {''y'', ''yes''}"
    by code_simp+
  with main_go_confirmation [OF cr nl(1), of "[]" "\<lambda>_. deb_exec" "\<lambda>_. None" "\<lambda>_. []" "\<lambda>_. demo_world"]
    main_go_confirmation [OF cr nl(2), of "[]" "\<lambda>_. deb_exec" "\<lambda>_. None" "\<lambda>_. []" "\<lambda>_. demo_world"] ap
  show ?thesis by blast
qed

theorem main_go_panics_witness:
  "main_go demo_yaml demo_fs_nodefaults ''y'' (\<lambda>_. deb_exec) (\<lambda>_. None) (\<lambda>_. []) (\<lambda>_. demo_world) =
     Inl ''not able to read defaults.yaml, err= open defaults.yaml: no such file or directory: open defaults.yaml: no such file or directory'' \<and>
   main_go demo_yaml demo_fs ''y'' (\<lambda>_. deb_exec) (\<lambda>_. None) (\<lambda>_. []) (\<lambda>_. demo_world) = Inl ''stdin error: EOF''"
proof -
  from demo_client_run_nodef obtain fs1 where a: "Client_Run demo_yaml demo_fs_nodefaults [] ''config'' ''defaults.yaml'' =
     (Some (Wrap (''not able to read defaults.yaml, err= open defaults.yaml: no such file or directory'')
       (Msg ''open defaults.yaml: no such file or directory'')), fs1, [], [])" by blast
  from demo_client_run obtain fs2 ls where b: "Client_Run demo_yaml demo_fs [] ''config'' ''defaults.yaml'' =
     (None, fs2, [merge_defaults defaults_cfg web_cfg], ls)" by blast
  from main_go_panics [of demo_yaml demo_fs_nodefaults _ fs1 "[]" "[]" "''y''" "\<lambda>_. deb_exec" "\<lambda>_. None" "\<lambda>_. []" "\<lambda>_. demo_world"] a
    main_go_panics [of demo_yaml demo_fs _ fs2 "[merge_defaults defaults_cfg web_cfg]" ls "''y''" "\<lambda>_. deb_exec" "\<lambda>_. None" "\<lambda>_. []" "\<lambda>_. demo_world"] b
  show ?thesis by simp
qed

theorem Ensure_test_server_enforced_witness:
  "Ensure (test_exec ''1000'' ''1000'') demo_remote unit_world (apt_of ''apache2'' StatusInstalled) =
     Inr (StatusEnforced, None, unit_world\<lparr>issued := [check_cmd ''apache2'', ensure_cmd (apt_of ''apache2'' StatusInstalled)]\<rparr>)"
  using Ensure_test_server_enforced [of demo_remote "apt_of ''apache2'' StatusInstalled" "''1000''" "''1000''" unit_world]
  by (simp add: apt_of_def unit_world_def)

theorem test_server_owner_is_server_user_witness:
  "resolve_id (test_exec (go_itoa 1000) ''1000'') demo_remote unit_world ''id -u '' ''whoami'' ''owner error'' ''uid error'' =
     Inr (Inr 1000, unit_world\<lparr>issued := [''id -u '' @ ''whoami'']\<rparr>)"
  using test_server_owner_is_server_user [of demo_remote "''whoami''" 1000 "''1000''" unit_world "''owner error''" "''uid error''"]
  by (simp add: unit_world_def)

theorem SetupTestSSH_returns_witness:
  "SetupTestSSH None (\<lambda>i. AcceptConn (Inr i) True) (\<lambda>i. False) = None"
proof -
  have "\<not> (\<exists>k. srv_stops (\<lambda>i. AcceptConn (Inr i) True) (\<lambda>i. False) k)"
    by (simp add: srv_stops_def)
  with SetupTestSSH_returns [of None "\<lambda>i. AcceptConn (Inr i) True" "\<lambda>i. False"]
  show ?thesis by blast
qed

theorem SetupTestSSH_done_witness:
  "SetupTestSSH None (\<lambda>i. AcceptConn (Inr i) (i \<noteq> 1)) (\<lambda>i. 2 \<le> i) =
     Some (SrvDone, \<lparr>srv_out = [], conns_closed = [1, 2], served = [0, 2], listening = False\<rparr>)"
proof -
  have a: "\<forall>j<2. \<not> srv_stops (\<lambda>i. AcceptConn (Inr i) (i \<noteq> 1)) (\<lambda>i. 2 \<le> i) j"
    by (simp add: srv_stops_def)
  from SetupTestSSH_done [OF this, of 2] show ?thesis
    by (simp add: accept_ok_def upt_rec)
qed

theorem Client_Run_wf_witness:
  "configs_wf [] \<and> configs_wf [merge_defaults defaults_cfg web_cfg]"
proof -
  from demo_client_run obtain fs1 ls where
    "Client_Run demo_yaml demo_fs [] ''config'' ''defaults.yaml'' = (None, fs1, [merge_defaults defaults_cfg web_cfg], ls)"
    by blast
  from Client_Run_wf [OF _ this] show ?thesis by (simp add: configs_wf_def)
qed

theorem closed_session_inert_witness:
  "\<exists>r1 rs r2 w'. Close demo_remote = Inr (None, r1) \<and>
     host_steps deb_exec [HRunCmd ''ls'' [], HInstall [''nginx''], HClose] r1 demo_world = Inr (rs, r2, w') \<and>
     untouched demo_world w'"
proof -
  have inv: "session_inv demo_remote" unfolding demo_remote_def by (rule New_session_inv)
  obtain r1 where c: "Close demo_remote = Inr (None, r1)"
    by (simp add: Close_def Let_def demo_remote_open)
  from closed_session_inert [OF inv c, of deb_exec "[HRunCmd ''ls'' [], HInstall [''nginx''], HClose]" demo_world] c
  show ?thesis by blast
qed

theorem reachable_remote_inv_witness:
  "\<exists>r1. Close demo_remote = Inr (None, r1) \<and> reachable_remote deb_exec r1 \<and> remote_inv r1"
proof -
  obtain r1 where c: "Close demo_remote = Inr (None, r1)"
    by (simp add: Close_def Let_def demo_remote_open)
  have "reachable_remote deb_exec demo_remote"
    unfolding demo_remote_def by (rule reachable_remote.new [OF surjective_pairing])
  moreover have "host_step deb_exec HClose demo_remote demo_world = Inr (ResErr None, r1, demo_world)"
    by (simp add: host_step_def c)
  ultimately have "reachable_remote deb_exec r1" by (rule reachable_remote.step)
  with c reachable_remote_inv [of deb_exec r1] show ?thesis by blast
qed

theorem SetupTestSSH_keygen_fatal_witness:
  "\<exists>s. SetupTestSSH None
         (\<lambda>i. if i < 2 then AcceptConn (Inr i) False else AcceptConn (Inl (Msg ''entropy exhausted'')) True)
         (\<lambda>i. False) = Some (SrvFatal ''entropy exhausted'', s) \<and>
       listening s \<and> srv_out s = [''entropy exhausted'']"
proof -
  have a: "\<forall>j<2. \<not> srv_stops (\<lambda>i. if i < 2 then AcceptConn (Inr i) False
                               else AcceptConn (Inl (Msg ''entropy exhausted'')) True) (\<lambda>i. False) j"
    by (simp add: srv_stops_def)
  have b: "(\<lambda>i. if i < 2 then AcceptConn (Inr i) False
                      else AcceptConn (Inl (Msg ''entropy exhausted'')) True) (2::nat) =
                 AcceptConn (Inl (Msg ''entropy exhausted'')) True"
    by simp
  from SetupTestSSH_keygen_fatal [OF a b] show ?thesis by simp
qed

end
