(* ===== verification/Spec2Isabelle.thy ===== *)
theory Spec2Isabelle
  imports Scenarios
begin

text \<open>
  Verification development of goconf (\<^verbatim>\<open>src/\<close>), a desired-state configuration
  tool that drives remote Debian hosts over SSH and SFTP.

  \<^bold>\<open>The program.\<close> \<^verbatim>\<open>cmd/main.go\<close> loads the host configurations
  (\<^verbatim>\<open>bootstrap/bootstrap.go\<close>, \<open>Client.Run\<close>), asks for confirmation and calls
  \<open>Client.Apply\<close>, which for each host opens a target (\<^verbatim>\<open>target/target.go\<close>,
  \<open>New\<close>) and runs \<open>Remove\<close>, \<open>Install\<close>, \<open>Run\<close>, \<open>Restart\<close>, \<open>Push\<close> and a
  restart of \<^verbatim>\<open>apache2\<close>, closing every target when it returns. The four batch
  operations call \<open>Ensure\<close>, which queries dpkg (\<open>check\<close>) and runs a corrective
  command through \<open>run\<close>; \<open>Push\<close> copies files over the SFTP client of the acting
  user (\<open>sftpClient\<close>) in concurrent tasks, and resolves owners with \<^verbatim>\<open>id\<close>
  through \<open>run\<close>. \<^verbatim>\<open>internal/testutils.go\<close> is the SSH server of the tests.

  \<^bold>\<open>Theories and the code they model.\<close>
  \<^item> \<open>Prelude\<close>: Go errors (\<open>gerr\<close>, \<open>wrap\<close> as \<open>errors.Wrap\<close>), panics as
    \<open>string + 'a\<close> with the bind \<open>pbind\<close>, bounds-checked indexing \<open>go_index\<close>.
  \<^item> \<open>GoLib\<close>: the library functions called on strings and numbers
    (\<open>strings.Split\<close>, \<open>TrimSpace\<close>, \<open>strconv.Atoi\<close>/\<open>Itoa\<close>, the
    \<open>uint32\<close> and \<open>FileMode\<close> conversions, \<open>err.Error()\<close>), modelled from
    their documentation, with the split/join and Itoa/Atoi round trips.
  \<^item> \<open>Types\<close>: \<^verbatim>\<open>target/types\<close> (\<open>Response\<close>, \<open>StatusCode\<close>, \<open>Status\<close> as an
    \<open>8 word\<close>, \<open>APT\<close>, \<open>File\<close>, \<open>Host\<close>, \<open>Config\<close>).
  \<^item> \<open>Transport\<close>: the struct \<open>Remote\<close> (connection state, the per-user client
    map and the client objects), \<open>New\<close>, \<open>Close\<close>, \<open>sftpClient\<close> and the
    session invariant \<open>session_inv\<close>; the remote machine is a type \<open>'h\<close> driven
    by an \<open>executor\<close>, inside a \<open>World\<close> that also holds the remote and local
    files and the printed lines.
  \<^item> \<open>Runner\<close>: \<open>run\<close> and \<open>RunCmd\<close> with the exit-status classification.
  \<^item> \<open>Reconciler\<close>: \<open>check\<close>, the status-byte parser \<open>status_byte\<close> with its
    panics, the action table and \<open>Ensure\<close>.
  \<^item> \<open>Batch\<close>: the four batch loops as one \<open>batch\<close> over the operation.
  \<^item> \<open>Distributor\<close>: \<open>Push\<close>, one task per file (\<open>push_file\<close>, \<open>push_owner\<close>,
    \<open>resolve_id\<close>), the SFTP calls from the library's documentation.
  \<^item> \<open>Bootstrap\<close>: \<open>Client.Run\<close> (\<open>Client_Run\<close>, \<open>load_configs\<close>,
    \<open>merge_defaults\<close>, \<open>CheckDir\<close>, \<open>defaultConfig\<close>) over a model of the
    local file system, and \<open>Client.Apply\<close> (\<open>Apply\<close>, \<open>apply_loop\<close>,
    \<open>apply_host\<close>, the deferred closes \<open>run_deferred\<close>), each machine with its
    own world, keyed by \<open>Address:Port\<close>.
  \<^item> \<open>Cli\<close>: \<open>main\<close> (\<open>main_go\<close>, the answer \<open>cli_answer\<close>).
  \<^item> \<open>TestServer\<close>: the test server, \<open>SetupTestSSH\<close> as a
    \<open>partial_function (option)\<close> accept loop (\<open>accept_loop\<close>) with
    \<open>getServerConfig\<close>, and \<open>handleChannels\<close>/\<open>handleChannel\<close> as the
    messages sent per request; their exec branch as the executor \<open>test_exec\<close>.
  \<^item> \<open>HostInterface\<close>: the \<open>Host\<close> interface of the target as a datatype of
    its methods (\<open>host_op\<close>) and a step function dispatching each to the
    target's model (\<open>host_step\<close>); \<open>host_steps\<close> runs a sequence of calls,
    and the inductive \<open>reachable_remote\<close> collects the targets a program can
    hold.
  \<^item> \<open>DebHost\<close>: a Debian machine written from the specification (dpkg, apt,
    service, id), an executor on which the components are run end to end.
  \<^item> \<open>Scenarios\<close>: concrete hosts, worlds, files and configurations, and the
    witnesses that apply each claim at them.

  \<^bold>\<open>What is shown.\<close> Per component: the outcome of every operation on every
  branch, errors and panics included (Runner, Reconciler, Distributor, Bootstrap,
  Cli, TestServer): which byte of dpkg's record \<open>check\<close> reads, that a service is
  always acted on, how \<open>run\<close> classifies an exit; invariants (the session
  invariant through \<open>New\<close>, \<open>sftpClient\<close>, \<open>Push\<close> and \<open>Close\<close>; the targets
  held open through the loop of \<open>Apply\<close>; the well-formedness of the held
  configurations, \<open>configs_wf\<close>, through \<open>Client.Run\<close>); round trips (Itoa/Atoi,
  a pushed file read back, \<^verbatim>\<open>id\<close> output to ids); the refinement of
  \<open>Client.Run\<close> by the abstract list \<open>configs_spec\<close>; exactly when the test
  server's accept loop returns, and what it leaves when it sees \<open>done\<close> or when
  key generation fails; that a closed session is inert under any sequence of
  \<open>Host\<close> calls and, by rule induction, that every reachable target keeps the
  session invariant. Across components, in this theory: idempotent installation,
  that a batch install continues past failures and what it prints for each rule,
  a push with a missing source, group resolution, and \<open>Apply\<close> on Debian hosts
  returning and installing every available install rule.

  \<^bold>\<open>Concurrency, bounds and loops.\<close> The push tasks run concurrently in the
  code; here each task is atomic and the tasks run in their completion order, a
  permutation of the files (\<open>is_schedule\<close>, a multiset equality). A task reads
  only the machine, the local files and its own remote path, so for files with
  distinct remote paths the outcome does not depend on the order, which makes the
  atomic model exact for them, provided the executor answers \<^verbatim>\<open>id\<close> without
  changing the machine (\<open>pure_ids\<close>). Every loop of the program but one walks
  a finite slice, so its definition is structurally recursive and total, with no
  fuel. The exception is the accept loop of the test server, which runs until an
  event stops it: it is a \<open>partial_function (option)\<close> over an infinite stream
  of accept events, \<open>None\<close> meaning that it never returns, and its termination
  is characterised exactly (\<open>SetupTestSSH_returns\<close>): it returns iff a stopping
  event occurs, by induction on the distance to that event one way and by
  \<open>raw_induct\<close> the other. Machine integers keep their width: \<open>Status\<close> is a byte,
  exit codes and file modes are 32-bit words, ids are parsed as \<open>int64\<close> and
  converted with \<open>uint32\<close>.

  \<^bold>\<open>Not modelled.\<close> The SSH protocol, authentication and host keys: a dial is
  an input outcome and every session an executor reply. The YAML codec: an input
  record \<open>Yaml\<close>. In the test server, the handshake and the key generation are
  outcomes of the accept events, the SFTP subsystem is the remote file map, and
  the goroutines of \<open>handleChannels\<close> are independent per channel; the start-up
  race between \<open>go SetupTestSSH\<close> and a test's first dial is not modelled. The interleaving of
  the target's and Apply's printed lines: each is kept in its own list.
  Context arguments, which the code ignores.
\<close>

section \<open>Reconciliation on a Debian host\<close>

text \<open>
  C1: installing is idempotent. On a Debian host, once \<open>Ensure\<close> has installed a
  package (or found it installed), a second \<open>Ensure\<close> of the same descriptor reports
  it satisfied, runs the status query and nothing else, and changes nothing.
\<close>

theorem install_idempotent:
  assumes "conn r = ConnOpen" and "simple_name (Name p)" and "Status p = StatusInstalled"
    and "deb_wf (host w)"
    and "Ensure deb_exec r w p = Inr (s, err, w1)" and "s \<noteq> StatusFailed"
  shows "Ensure deb_exec r w1 p =
           Inr (StatusSatisfied, None, w1\<lparr>issued := issued w1 @ [check_cmd (Name p)]\<rparr>)"
proof -
  note first = Ensure_deb_install [OF assms(1-4)]
  have inst: "deb_installed (host w1) (Name p)" and wf: "deb_wf (host w1)"
  proof -
    show "deb_installed (host w1) (Name p)"
    proof (cases "deb_installed (host w) (Name p)")
      case True
      with first assms(5) show ?thesis by auto
    next
      case False
      with first assms(5,6) have "Name p \<in> set (repo (host w))"
        and "host w1 = fst (deb_install (host w) (Name p))"
        by (auto split: if_splits)
      then show ?thesis by (simp add: deb_install_installed_iff)
    qed
    show "deb_wf (host w1)"
      using first assms(4,5) by (auto split: if_splits simp: deb_install_wf)
  qed
  from Ensure_deb_install [OF assms(1-3) wf] inst show ?thesis by simp
qed

text \<open>
  C9: a batch install continues past failing rules. On a Debian host, \<open>Install\<close>
  returns a nil error, and afterwards every listed package is installed exactly when
  it was installed before or the repository has it, whatever the outcome of the
  other rules.
\<close>

theorem Install_continues_past_failures:
  assumes "conn r = ConnOpen" and "\<forall>n \<in> set pkgs. simple_name n" and "deb_wf (host w)"
  shows "\<exists>w'. Install deb_exec r w pkgs = Inr (None, w') \<and>
           (\<forall>m \<in> set pkgs. deb_installed (host w') m \<longleftrightarrow>
              deb_installed (host w) m \<or> m \<in> set (repo (host w)))"
  using batch_deb_install [OF assms] by (auto simp: Install_def)

text \<open>
  C10: what a batch install prints on a Debian host: for each rule in order, the
  line announcing it, then \<^verbatim>\<open>done\<close> when the package was installed or the
  repository has it, and otherwise the failure line with a nil error (the failing
  \<^verbatim>\<open>apt install\<close> exits non-zero, which \<open>Ensure\<close> reports with no error).
\<close>

theorem Install_deb_log:
  assumes "conn r = ConnOpen" and "\<forall>n \<in> set pkgs. simple_name n" and "deb_wf (host w)"
  shows "\<exists>w'. Install deb_exec r w pkgs = Inr (None, w') \<and>
           out w' = out w @ concat (map (\<lambda>n. [LogTrying OpInstall n,
              if deb_installed (host w) n \<or> n \<in> set (repo (host w)) then LogDone OpInstall n
              else LogFailed OpInstall n None]) pkgs)"
  using batch_deb_install [OF assms] by (auto simp: Install_def)

text \<open>
  C11: on a Debian host a package to be removed is never found satisfied: whether
  dpkg knows it (the query exits 0) or not (the query prints nothing and exits 1),
  \<open>Ensure\<close> runs the purge command.
\<close>

theorem remove_never_satisfied_deb:
  assumes "conn r = ConnOpen" and "simple_name (Name p)" and "Status p = StatusNotInstalled"
  shows "Ensure deb_exec r w p \<noteq> Inr (StatusSatisfied, err, w')"
proof
  assume sat: "Ensure deb_exec r w p = Inr (StatusSatisfied, err, w')"
  then obtain ok w1 where chk: "check deb_exec r w p = Inr (ok, None, w1)"
    by (rule Ensure_check_Inr) simp
  from Ensure_after_check [OF chk sat] have "ok" by simp
  with chk have "check deb_exec r w p = Inr (True, None, w1)" by simp
  from check_not_installed_true [OF assms(3) this] obtain h' st sg so se where
    q: "deb_exec (host w) (check_cmd (Name p)) [] = (h', Finished st sg so se)"
    and st: "st \<noteq> Some 0" and tab: "TAB \<in> set so"
    by blast
  from q assms(2) show False
    using st tab by (auto simp: deb_exec_query deb_query_def exit_with_def split: option.splits)
qed

section \<open>Witnesses\<close>

theorem install_idempotent_witness:
  "Ensure deb_exec demo_remote demo_world (apt_of ''apache2'' StatusInstalled) =
     Inr (StatusEnforced, None,
          demo_world\<lparr>host := fst (deb_install demo_deb ''apache2''),
            issued := [check_cmd ''apache2'', ensure_cmd (apt_of ''apache2'' StatusInstalled)]\<rparr>) \<and>
   Ensure deb_exec demo_remote
     (demo_world\<lparr>host := fst (deb_install demo_deb ''apache2''),
        issued := [check_cmd ''apache2'', ensure_cmd (apt_of ''apache2'' StatusInstalled)]\<rparr>)
     (apt_of ''apache2'' StatusInstalled) =
   Inr (StatusSatisfied, None,
        demo_world\<lparr>host := fst (deb_install demo_deb ''apache2''),
          issued := [check_cmd ''apache2'', ensure_cmd (apt_of ''apache2'' StatusInstalled),
                     check_cmd ''apache2'']\<rparr>)"
proof -
  have e1: "Ensure deb_exec demo_remote demo_world (apt_of ''apache2'' StatusInstalled) =
     Inr (StatusEnforced, None,
          demo_world\<lparr>host := fst (deb_install demo_deb ''apache2''),
            issued := [check_cmd ''apache2'', ensure_cmd (apt_of ''apache2'' StatusInstalled)]\<rparr>)"
    by (simp add: Ensure_deb_install apt_of_def simple_name_def,
        simp add: deb_installed_def demo_deb_def demo_world_def)
  have "apt_of ''apache2'' StatusInstalled \<lparr>Name := ''apache2''\<rparr> = apt_of ''apache2'' StatusInstalled"
    by (simp add: apt_of_def)
  from install_idempotent [OF _ _ _ _ e1] e1 show ?thesis
    by (simp add: apt_of_def simple_name_def demo_world_def)
qed

theorem Install_continues_past_failures_witness:
  "\<exists>w'. Install deb_exec demo_remote demo_world [''apache2'', ''nosuchpkg'', ''php''] = Inr (None, w') \<and>
     deb_installed (host w') ''apache2'' \<and> \<not> deb_installed (host w') ''nosuchpkg'' \<and>
     deb_installed (host w') ''php''"
proof -
  from Install_continues_past_failures [of demo_remote "[''apache2'', ''nosuchpkg'', ''php'']" demo_world]
  obtain w' where "Install deb_exec demo_remote demo_world [''apache2'', ''nosuchpkg'', ''php''] = Inr (None, w')"
    "\<forall>m \<in> set [''apache2'', ''nosuchpkg'', ''php'']. deb_installed (host w') m \<longleftrightarrow>
        deb_installed demo_deb m \<or> m \<in> set (repo demo_deb)"
    by (auto simp: simple_name_def)
  then show ?thesis by (auto simp: deb_installed_def demo_deb_def)
qed

theorem Install_deb_log_witness:
  "\<exists>w'. Install deb_exec demo_remote demo_world [''apache2'', ''nosuchpkg''] = Inr (None, w') \<and>
     out w' = [LogTrying OpInstall ''apache2'', LogDone OpInstall ''apache2'',
               LogTrying OpInstall ''nosuchpkg'', LogFailed OpInstall ''nosuchpkg'' None]"
proof -
  have wf: "deb_wf (host demo_world)" by (simp add: demo_world_def)
  have sn: "\<forall>n \<in> set [''apache2'', ''nosuchpkg'']. simple_name n" by (simp add: simple_name_def)
  from Install_deb_log [OF demo_remote_open sn wf]
  show ?thesis by (simp add: deb_installed_def demo_deb_def demo_world_def)
qed

theorem remove_never_satisfied_deb_witness:
  "Ensure deb_exec demo_remote demo_world (apt_of ''vim'' StatusNotInstalled) \<noteq>
     Inr (StatusSatisfied, None, demo_world)"
  by (rule remove_never_satisfied_deb) (simp_all add: apt_of_def simple_name_def)


section \<open>Pushing files to a Debian host\<close>

text \<open>
  C18: the scenario of the specification for \<open>Push\<close>: three files whose second local
  source does not exist. Whatever the order in which the tasks complete, all three
  run, the one error returned is that of the missing source, and the other two files
  are at their remote paths with their contents, modes and owners.
\<close>

theorem push_missing_source_scenario:
  assumes "is_schedule 3 sched"
  shows "\<exists>r' w'. Push deb_exec demo_remote push_world demo_files sched =
             Inr (Some (Wrap ''unable to open file motd'' (Msg ''open motd: no such file or directory'')), r', w') \<and>
           rfs w' ''/var/www/html/index.php'' =
             Some \<lparr>rdata = ''<?php phpinfo();'', rmode = 420, ruid = 33, rgid = 33\<rparr> \<and>
           rfs w' ''/etc/apache2/sites-enabled/site.conf'' =
             Some \<lparr>rdata = ''Listen 80'', rmode = 384, ruid = 0, rgid = 0\<rparr> \<and>
           rfs w' ''/etc/motd'' = None"
proof -
  obtain w' where p: "Push deb_exec demo_remote push_world demo_files sched =
       Inr (first_err (map (\<lambda>i. task_err deb_exec demo_r0 0 push_world (demo_files ! i)) sched),
            demo_r0\<lparr>clients := (clients demo_r0)[0 := False]\<rparr>, w')"
    and rf: "\<forall>f \<in> set demo_files. rfs w' (RemotePath f) = task_rfs deb_exec demo_r0 0 push_world f"
    using demo_push [OF assms] .
  have "first_err (map (\<lambda>i. task_err deb_exec demo_r0 0 push_world (demo_files ! i)) sched) =
          Some (Wrap ''unable to open file motd'' (Msg ''open motd: no such file or directory''))"
    by (rule first_err_schedule_single) (use assms in \<open>simp_all add: demo_files_def demo_task_errs numeral_3_eq_3\<close>)
  moreover have "rfs w' ''/var/www/html/index.php'' =
             Some \<lparr>rdata = ''<?php phpinfo();'', rmode = 420, ruid = 33, rgid = 33\<rparr>"
    using rf index_task by (auto simp: demo_files_def task_rfs_def index_file_def)
  moreover have "rfs w' ''/etc/apache2/sites-enabled/site.conf'' =
             Some \<lparr>rdata = ''Listen 80'', rmode = 384, ruid = 0, rgid = 0\<rparr>"
    using rf conf_task by (auto simp: demo_files_def task_rfs_def conf_file_def)
  moreover have "rfs w' ''/etc/motd'' = None"
    using rf motd_task by (simp add: demo_files_def task_rfs_def motd_file_def push_world_def demo_world_def)
  ultimately show ?thesis using p by auto
qed

theorem push_missing_source_scenario_witness:
  "is_schedule 3 [2, 0, 1] \<and>
   (\<exists>r' w'. Push deb_exec demo_remote push_world demo_files [2, 0, 1] =
             Inr (Some (Wrap ''unable to open file motd'' (Msg ''open motd: no such file or directory'')), r', w') \<and>
           rfs w' ''/var/www/html/index.php'' =
             Some \<lparr>rdata = ''<?php phpinfo();'', rmode = 420, ruid = 33, rgid = 33\<rparr> \<and>
           rfs w' ''/etc/apache2/sites-enabled/site.conf'' =
             Some \<lparr>rdata = ''Listen 80'', rmode = 384, ruid = 0, rgid = 0\<rparr> \<and>
           rfs w' ''/etc/motd'' = None)"
proof -
  have s: "is_schedule 3 [2, 0, 1]" by (simp add: is_schedule_def upt_rec)
  from s push_missing_source_scenario [OF s] show ?thesis by blast
qed

text \<open>
  C19: the group of a file is resolved with \<^verbatim>\<open>id -g <group>\<close>, which looks up the
  primary group of the \<^emph>\<open>user\<close> of that name. On a Debian host a file whose group
  exists in the group database but is not also a user name is never pushed: its
  task fails with a group error.
\<close>

theorem push_group_resolved_as_user:
  assumes "conn r = ConnOpen" and "clients r ! c" and "lfs w (LocalPath f) = Some src"
    and "RemotePath f \<notin> set (denied w)" and "int (length (ldata src)) = lsize src"
    and "simple_name (Owner f)" and "simple_name (Group f)"
    and "map_of (users (host w)) (Owner f) = Some (u, g0)" and "0 \<le> u" and "u < 2 ^ 63"
    and "Group f \<in> fst ` set (groups (host w))" and "Group f \<notin> fst ` set (users (host w))"
  shows "\<exists>w'. push_file deb_exec r c w f =
           Inr (Some (Wrap ''group error'' (Msg (''id: '' @ Group f @ '': no such user'' @ [NL]))), w')"
proof -
  obtain w4 y where pf: "push_file deb_exec r c w f = push_owner deb_exec r (clients r ! c) w4 f"
    and h: "host w4 = host w"
    using push_file_deb_upto_owner [OF assms(2-5)] by blast
  have "map_of (users (host w4)) (Group f) = None"
    using assms(12) h by (simp add: map_of_eq_None_iff)
  with push_owner_deb_group_unknown [OF assms(1,6,7)] assms(8-10) h pf show ?thesis by auto
qed

theorem push_group_resolved_as_user_witness:
  "\<exists>w'. push_file deb_exec demo_r0 0 push_world adm_file =
     Inr (Some (Wrap ''group error'' (Msg (''id: '' @ ''adm'' @ '': no such user'' @ [NL]))), w')"
  using push_group_resolved_as_user [of demo_r0 0 push_world adm_file]
  by (simp add: adm_file_def push_world_def demo_world_def simple_name_def demo_deb_def)

section \<open>Applying configurations to Debian hosts\<close>

text \<open>
  C24: on Debian machines, each reached by at most one configuration, Apply
  returns nil without panicking, and every reached host ends with each of its
  install rules installed that its repository provides, even a package that
  the same configuration lists for removal: Remove runs before Install.
\<close>

theorem Apply_deb_installs:
  assumes "\<forall>c \<in> set cfgs. \<forall>n \<in> set (RemoveRules c @ InstallRules c @ RunRules c @ RestartRules c). simple_name n"
    and "\<forall>a. deb_wf (host (ws a))" and "distinct (reached dial 0 cfgs)"
  shows "\<exists>ws' ls rs. Apply (\<lambda>_. deb_exec) dial sched cfgs ws = Inr (None, ws', ls, rs) \<and>
           (\<forall>k < length cfgs. dial k = None \<longrightarrow>
              (\<forall>m \<in> set (InstallRules (cfgs ! k)). m \<in> set (repo (host (ws (host_addr (cfgs ! k))))) \<longrightarrow>
                 deb_installed (host (ws' (host_addr (cfgs ! k)))) m))"
proof -
  from apply_loop_deb [OF assms, of sched "[]" "[]"] obtain ws' ls ds
    where lp: "apply_loop (\<lambda>_. deb_exec) dial sched 0 cfgs ws [] [] = Inr (ws', ls, ds)"
      and inst: "\<forall>k < length cfgs. dial (0 + k) = None \<longrightarrow>
         (\<forall>m \<in> set (InstallRules (cfgs ! k)). m \<in> set (repo (host (ws (host_addr (cfgs ! k))))) \<longrightarrow>
            deb_installed (host (ws' (host_addr (cfgs ! k)))) m)"
    by blast
  from Apply_of_loop [OF lp] inst show ?thesis by auto
qed

theorem Apply_deb_installs_witness:
  "\<exists>ws' ls rs. Apply (\<lambda>_. deb_exec) (\<lambda>_. None) (\<lambda>_. []) [web_cfg] (\<lambda>_. demo_world) = Inr (None, ws', ls, rs) \<and>
     ''php'' \<in> set (RemoveRules web_cfg) \<and> deb_installed (host (ws' (host_addr web_cfg))) ''php''"
proof -
  have "\<forall>c \<in> set [web_cfg]. \<forall>n \<in> set (RemoveRules c @ InstallRules c @ RunRules c @ RestartRules c). simple_name n"
    by (simp add: web_cfg_def simple_name_def)
  from Apply_deb_installs [OF this demo_worlds_wf, of "\<lambda>_. None" "\<lambda>_. []"]
  obtain ws' ls rs where a: "Apply (\<lambda>_. deb_exec) (\<lambda>_. None) (\<lambda>_. []) [web_cfg] (\<lambda>_. demo_world) = Inr (None, ws', ls, rs)"
    and i: "\<forall>m \<in> set (InstallRules web_cfg). m \<in> set (repo demo_deb) \<longrightarrow> deb_installed (host (ws' (host_addr web_cfg))) m"
    by auto
  have "''php'' \<in> set (InstallRules web_cfg)" "''php'' \<in> set (repo demo_deb)" "''php'' \<in> set (RemoveRules web_cfg)"
    by (simp_all add: web_cfg_def demo_deb_def)
  with a i show ?thesis by blast
qed

end
